theory Spec2Isabelle
  imports Main "HOL-Library.AList"
begin

section \<open>Values, agents and the page state of OpportunityEvaluation.jsx\<close>

text \<open>
  The model follows the first component of \<open>src/pages/OpportunityEvaluation.jsx\<close>
  (lines 1 to 1630), the registry \<open>src/data/agents.js\<close> and
  \<open>src/pages/GradeTranscripts.jsx\<close>.

  JavaScript values that the page stores (result payloads, progress records, local
  storage entries) are JSON values. An object is an association list in property order;
  \<open>{...prev, [k]: v}\<close> is \<open>AList.update k v prev\<close>, \<open>obj[k]\<close> is \<open>map_of obj k\<close>
  and \<open>Object.keys(obj)\<close> is \<open>map fst obj\<close>. \<open>JSON.parse (JSON.stringify v)\<close> is
  taken to be \<open>v\<close>, so local storage holds JSON values directly.
\<close>

datatype json =
    JNull
  | JBool bool
  | JNum int
  | JStr string
  | JArr "json list"
  | JObj "(string \<times> json) list"

type_synonym agentId = string
type_synonym obj = "(string \<times> json) list"

text \<open>JavaScript truthiness of a value, and of a property read that may be undefined.\<close>

fun truthy :: "json \<Rightarrow> bool" where
  "truthy JNull = False"
| "truthy (JBool b) = b"
| "truthy (JNum n) = (n \<noteq> 0)"
| "truthy (JStr s) = (s \<noteq> [])"
| "truthy (JArr xs) = True"
| "truthy (JObj kvs) = True"

definition truthyAt :: "obj \<Rightarrow> string \<Rightarrow> bool" where
  "truthyAt ob k = (case map_of ob k of None \<Rightarrow> False | Some v \<Rightarrow> truthy v)"

definition hasKey :: "obj \<Rightarrow> string \<Rightarrow> bool" where
  "hasKey ob k = (map_of ob k \<noteq> None)"

text \<open>\<open>{...base, k1: v1, ..., kn: vn}\<close>\<close>

definition spread :: "obj \<Rightarrow> obj \<Rightarrow> obj" where
  "spread base kvs = foldl (\<lambda>ob kv. AList.update (fst kv) (snd kv) ob) base kvs"

text \<open>A JavaScript \<open>Set\<close> of agent ids, in insertion order.\<close>

definition setAdd :: "agentId list \<Rightarrow> agentId \<Rightarrow> agentId list" where
  "setAdd xs a = (if a \<in> set xs then xs else xs @ [a])"

definition setDelete :: "agentId list \<Rightarrow> agentId \<Rightarrow> agentId list" where
  "setDelete xs a = removeAll a xs"

subsection \<open>The agent registry (src/data/agents.js)\<close>

record agentInfo =
  agentIdOf :: agentId
  agentName :: string
  requiresPreviousAgent :: "agentId option"

definition agents :: "agentInfo list" where
  "agents =
    [\<lparr>agentIdOf = ''longContextChunking'', agentName = ''Transcript optimization'',
       requiresPreviousAgent = None\<rparr>,
     \<lparr>agentIdOf = ''jtbd'', agentName = ''View Customers Primary Goal'',
       requiresPreviousAgent = Some ''longContextChunking''\<rparr>,
     \<lparr>agentIdOf = ''jtbdGains'', agentName = ''View Customers Desired Outcomes'',
       requiresPreviousAgent = Some ''jtbd''\<rparr>,
     \<lparr>agentIdOf = ''painExtractor'', agentName = ''Pain and Friction Analysis'',
       requiresPreviousAgent = Some ''jtbdGains''\<rparr>,
     \<lparr>agentIdOf = ''problemAwareness'', agentName = ''Problem Awareness Level'',
       requiresPreviousAgent = Some ''painExtractor''\<rparr>,
     \<lparr>agentIdOf = ''needsAnalysis'', agentName = ''Needs Analysis Agent'',
       requiresPreviousAgent = Some ''longContextChunking''\<rparr>,
     \<lparr>agentIdOf = ''demandAnalyst'', agentName = ''Demand Analyst'',
       requiresPreviousAgent = Some ''needsAnalysis''\<rparr>,
     \<lparr>agentIdOf = ''opportunityQualification'', agentName = ''Opportunity Qualification Agent'',
       requiresPreviousAgent = Some ''demandAnalyst''\<rparr>,
     \<lparr>agentIdOf = ''finalReport'', agentName = ''Final Research Analysis Report'',
       requiresPreviousAgent = Some ''problemAwareness''\<rparr>]"

text \<open>\<open>agents.find(a => a.id === id)\<close>\<close>

definition findAgent :: "agentId \<Rightarrow> agentInfo option" where
  "findAgent a = find (\<lambda>i. agentIdOf i = a) agents"

text \<open>
  The prerequisite ids of an agent as the page computes them:
  \<open>Array.isArray(r) ? r : [r]\<close>, for an agent of the registry that declares
  \<open>requiresPreviousAgent\<close>; every registry entry declares a single id or none.
\<close>

definition prerequisiteIds :: "agentId \<Rightarrow> agentId list" where
  "prerequisiteIds a =
     (case findAgent a of
        None \<Rightarrow> []
      | Some info \<Rightarrow> (case requiresPreviousAgent info of None \<Rightarrow> [] | Some r \<Rightarrow> [r]))"

subsection \<open>Closures, timers, events and the state\<close>

text \<open>
  A callback created by \<open>useCallback\<close> reads the state values of the render that created
  it. \<open>closure\<close> holds the values the modelled callbacks read; \<open>render\<close> builds it from
  the state.
\<close>

record closure =
  cTranscript :: string
  cApiKey :: string
  cIsSequenceRunning :: bool
  cLocalAnalysisResults :: obj
  cShowResult :: "agentId option"
  cUserHasSelectedView :: bool
  cCurrentRunningAgent :: "agentId option"

text \<open>
  Callbacks handed to \<open>setTimeout\<close>, with the values they close over. They stay in the
  state's \<open>timers\<close> until the event loop fires them (\<open>fireTimer\<close> below).
\<close>

datatype timer =
    CleanupTimer agentId closure
  | AutoSelectTimer agentId closure
  | MarkAnalyzedTimer agentId closure
  | ResultCheckTimer agentId bool closure
  | ReloadTimer

text \<open>
  What the page shows or calls: toasts, the calls of \<open>processWithAgent\<close> (its first
  statement logs \<open>Starting processWithAgent for <id>\<close>), the call of the chunking
  utility, and a page reload.
\<close>

datatype event =
    ToastError string
  | ToastSuccess string
  | ToastInfo string
  | ProcessWithAgentCalled agentId
  | ChunkingCalled string string
  | PageReload

record session =
  transcript :: string
  analyzingAgentsArray :: "agentId list"
  analyzingAgents :: "agentId list"
  hasAnalyzed :: bool
  localAnalysisResults :: obj
  agentProgress :: obj
  showResult :: "agentId option"
  userHasSelectedView :: bool
  apiKey :: string
  currentAgent :: "agentId option"
  isProcessing :: bool
  lastViewedResult :: "agentId option"
  isOptimizingTranscript :: bool
  optimizationProgress :: int
  finishedAgentsArray :: "agentId list"
  finishedAgents :: "agentId list"
  currentAnalysisIndex :: nat
  isSequenceRunning :: bool
  longContextResults :: json
  jtbdAnalysis :: json
  gainAnalysis :: json
  currentRunningAgent :: "agentId option"
  previousTranscriptRef :: string
  localStorage :: "string \<rightharpoonup> json"
  timers :: "timer list"
  events :: "event list"

definition render :: "session \<Rightarrow> closure" where
  "render s =
     \<lparr>cTranscript = transcript s, cApiKey = apiKey s,
      cIsSequenceRunning = isSequenceRunning s,
      cLocalAnalysisResults = localAnalysisResults s,
      cShowResult = showResult s, cUserHasSelectedView = userHasSelectedView s,
      cCurrentRunningAgent = currentRunningAgent s\<rparr>"

text \<open>
  The chunking utility \<open>processWithLongContextChunking\<close> is imported from
  \<open>src/utils/longContextChunkingAgent\<close>, which is not among the sources; the page only
  uses the fields below of the value it resolves to, or the message of the error it
  rejects with. A resolved value whose fields cannot be read (\<open>undefined\<close>) throws inside
  the same \<open>try\<close> block and is a rejection here. A field that is \<open>undefined\<close> is an
  absent field (\<open>None\<close>), as a property read cannot tell the two apart.
\<close>

record chunkResult =
  finalSummary :: "json option"
  chunks :: "json option"
  chunkSummaries :: "json option"
  sectionSummaries :: "json option"
  metadata :: "json option"

datatype chunkOutcome = ChunkResolved chunkResult | ChunkRejected string

text \<open>
  What the environment supplies to a run: the clock (every \<open>new Date().toISOString()\<close>
  of one run reads \<open>now\<close>), whether the OpenAI constructor throws, the answer to
  \<open>window.confirm\<close>, the outcome of the chunking call and the progress values it
  reports before it settles, and the prompt text of lines 878 to 908.
\<close>

record env =
  now :: string
  openaiInitError :: "string option"
  confirmReset :: bool
  chunkingOutcome :: chunkOutcome
  chunkingProgress :: "int list"
  demandSystemPrompt :: string

definition optId :: "agentId option \<Rightarrow> json" where
  "optId v = (case v of None \<Rightarrow> JNull | Some a \<Rightarrow> JStr a)"

definition emit :: "event \<Rightarrow> session \<Rightarrow> session" where
  "emit ev s = s\<lparr>events := events s @ [ev]\<rparr>"

definition setTimeout :: "timer \<Rightarrow> session \<Rightarrow> session" where
  "setTimeout t s = s\<lparr>timers := timers s @ [t]\<rparr>"

subsection \<open>State setters\<close>

text \<open>
  Modelled from the spec: the hook \<open>useLocalStorage\<close> (\<open>src/hooks/useLocalStorage\<close> is
  not among the sources). The spec's result store ``must survive a full page reload by
  mirroring into persistent local storage'' through ``a simple string-keyed get/set/remove
  interface'': the setter of a state declared with \<open>useLocalStorage(key, initial)\<close>
  stores the new value in the state and under \<open>key\<close> in local storage, and the state
  starts from the stored value when the key is present, from \<open>initial\<close> otherwise. The
  keys and initial values are those of lines 225 to 278. The setters of plain
  \<open>useState\<close> values only change the state.
\<close>

definition setTranscript :: "string \<Rightarrow> session \<Rightarrow> session" where
  "setTranscript v s =
     s\<lparr>transcript := v, localStorage := (localStorage s)(''opportunityTranscript'' \<mapsto> JStr v)\<rparr>"

definition setAnalyzingAgentsArray :: "agentId list \<Rightarrow> session \<Rightarrow> session" where
  "setAnalyzingAgentsArray v s =
     s\<lparr>analyzingAgentsArray := v,
       localStorage := (localStorage s)(''opportunityAnalyzingAgents'' \<mapsto> JArr (map JStr v))\<rparr>"

definition setAnalyzingAgents :: "(agentId list \<Rightarrow> agentId list) \<Rightarrow> session \<Rightarrow> session" where
  "setAnalyzingAgents f s = s\<lparr>analyzingAgents := f (analyzingAgents s)\<rparr>"

definition setHasAnalyzed :: "bool \<Rightarrow> session \<Rightarrow> session" where
  "setHasAnalyzed v s =
     s\<lparr>hasAnalyzed := v, localStorage := (localStorage s)(''opportunityHasAnalyzed'' \<mapsto> JBool v)\<rparr>"

definition setLocalAnalysisResults :: "(obj \<Rightarrow> obj) \<Rightarrow> session \<Rightarrow> session" where
  "setLocalAnalysisResults f s =
     s\<lparr>localAnalysisResults := f (localAnalysisResults s),
       localStorage :=
         (localStorage s)(''opportunityResults'' \<mapsto> JObj (f (localAnalysisResults s)))\<rparr>"

definition setAgentProgress :: "(obj \<Rightarrow> obj) \<Rightarrow> session \<Rightarrow> session" where
  "setAgentProgress f s =
     s\<lparr>agentProgress := f (agentProgress s),
       localStorage :=
         (localStorage s)(''opportunityAgentProgress'' \<mapsto> JObj (f (agentProgress s)))\<rparr>"

definition setShowResult :: "agentId option \<Rightarrow> session \<Rightarrow> session" where
  "setShowResult v s =
     s\<lparr>showResult := v, localStorage := (localStorage s)(''opportunityShowResult'' \<mapsto> optId v)\<rparr>"

definition setUserHasSelectedView :: "bool \<Rightarrow> session \<Rightarrow> session" where
  "setUserHasSelectedView v s =
     s\<lparr>userHasSelectedView := v,
       localStorage := (localStorage s)(''opportunityUserSelectedView'' \<mapsto> JBool v)\<rparr>"

definition setCurrentAgent :: "agentId option \<Rightarrow> session \<Rightarrow> session" where
  "setCurrentAgent v s = s\<lparr>currentAgent := v\<rparr>"

definition setLastViewedResult :: "agentId option \<Rightarrow> session \<Rightarrow> session" where
  "setLastViewedResult v s =
     s\<lparr>lastViewedResult := v,
       localStorage := (localStorage s)(''lastViewedOpportunityResult'' \<mapsto> optId v)\<rparr>"

definition setIsOptimizingTranscript :: "bool \<Rightarrow> session \<Rightarrow> session" where
  "setIsOptimizingTranscript v s =
     s\<lparr>isOptimizingTranscript := v,
       localStorage := (localStorage s)(''opportunityIsOptimizing'' \<mapsto> JBool v)\<rparr>"

definition setOptimizationProgress :: "int \<Rightarrow> session \<Rightarrow> session" where
  "setOptimizationProgress v s =
     s\<lparr>optimizationProgress := v,
       localStorage := (localStorage s)(''opportunityOptimizationProgress'' \<mapsto> JNum v)\<rparr>"

definition setFinishedAgentsArray :: "(agentId list \<Rightarrow> agentId list) \<Rightarrow> session \<Rightarrow> session" where
  "setFinishedAgentsArray f s =
     s\<lparr>finishedAgentsArray := f (finishedAgentsArray s),
       localStorage :=
         (localStorage s)(''opportunityFinishedAgents'' \<mapsto>
            JArr (map JStr (f (finishedAgentsArray s))))\<rparr>"

definition setFinishedAgents :: "(agentId list \<Rightarrow> agentId list) \<Rightarrow> session \<Rightarrow> session" where
  "setFinishedAgents f s = s\<lparr>finishedAgents := f (finishedAgents s)\<rparr>"

definition setIsSequenceRunning :: "bool \<Rightarrow> session \<Rightarrow> session" where
  "setIsSequenceRunning v s =
     s\<lparr>isSequenceRunning := v,
       localStorage := (localStorage s)(''opportunityIsSequenceRunning'' \<mapsto> JBool v)\<rparr>"

definition setLongContextResults :: "json \<Rightarrow> session \<Rightarrow> session" where
  "setLongContextResults v s =
     s\<lparr>longContextResults := v,
       localStorage := (localStorage s)(''opportunityLongContextResults'' \<mapsto> v)\<rparr>"

definition setJtbdAnalysis :: "json \<Rightarrow> session \<Rightarrow> session" where
  "setJtbdAnalysis v s =
     s\<lparr>jtbdAnalysis := v, localStorage := (localStorage s)(''opportunityJtbdAnalysis'' \<mapsto> v)\<rparr>"

definition setGainAnalysis :: "json \<Rightarrow> session \<Rightarrow> session" where
  "setGainAnalysis v s =
     s\<lparr>gainAnalysis := v, localStorage := (localStorage s)(''opportunityGainAnalysis'' \<mapsto> v)\<rparr>"

definition setCurrentRunningAgent :: "agentId option \<Rightarrow> session \<Rightarrow> session" where
  "setCurrentRunningAgent v s =
     s\<lparr>currentRunningAgent := v,
       localStorage := (localStorage s)(''opportunityCurrentAgent'' \<mapsto> optId v)\<rparr>"

definition setPreviousTranscriptRef :: "string \<Rightarrow> session \<Rightarrow> session" where
  "setPreviousTranscriptRef v s = s\<lparr>previousTranscriptRef := v\<rparr>"

definition removeItem :: "string \<Rightarrow> session \<Rightarrow> session" where
  "removeItem k s = s\<lparr>localStorage := (localStorage s)(k := None)\<rparr>"

definition setItem :: "string \<Rightarrow> json \<Rightarrow> session \<Rightarrow> session" where
  "setItem k v s = s\<lparr>localStorage := (localStorage s)(k \<mapsto> v)\<rparr>"

text \<open>A block of statements, run in order.\<close>

definition seq :: "(session \<Rightarrow> session) list \<Rightarrow> session \<Rightarrow> session" where
  "seq fs s = fold (\<lambda>f. f) fs s"

section \<open>processWithAgent and its helpers (lines 450 to 751)\<close>

definition progressRecord :: "int \<Rightarrow> string \<Rightarrow> json \<Rightarrow> string \<Rightarrow> json" where
  "progressRecord p status err ts =
     JObj [(''progress'', JNum p), (''status'', JStr status), (''error'', err),
           (''timestamp'', JStr ts)]"

definition updateAgentProgress ::
  "env \<Rightarrow> agentId \<Rightarrow> int \<Rightarrow> string \<Rightarrow> json \<Rightarrow> session \<Rightarrow> session" where
  "updateAgentProgress e agentId p status err =
     setAgentProgress (\<lambda>prev. AList.update agentId (progressRecord p status err (now e)) prev)"

text \<open>
  \<open>cleanupAgentState\<close> only schedules its body, 300 ms later. The body and the other
  timer callbacks are \<open>fireTimer\<close>. The body's inner callback reads
  \<open>document.querySelector('[data-analyzing-agents]')\<close>; the page renders no element with
  that attribute (its debug element carries \<open>data-analyzing-agents-size\<close>), so the
  optional chain yields \<open>undefined\<close> and the size read is the default \<open>'0'\<close>.
\<close>

definition cleanupAgentState :: "closure \<Rightarrow> agentId \<Rightarrow> session \<Rightarrow> session" where
  "cleanupAgentState c agentId = setTimeout (CleanupTimer agentId c)"

definition currentAnalyzingAgentsSize :: string where
  "currentAnalyzingAgentsSize = ''0''"

definition fireTimer :: "timer \<Rightarrow> session \<Rightarrow> session" where
  "fireTimer t s =
     (case t of
        CleanupTimer agentId c \<Rightarrow>
          seq [setAnalyzingAgents (\<lambda>prev. setDelete prev agentId),
               (if Some agentId = cCurrentRunningAgent c then setCurrentRunningAgent None
                else (\<lambda>x. x)),
               (if length (map fst (cLocalAnalysisResults c)) > 0
                then seq [setHasAnalyzed True, setTimeout (AutoSelectTimer agentId c)]
                else (\<lambda>x. x))] s
      | AutoSelectTimer agentId c \<Rightarrow>
          (if currentAnalyzingAgentsSize = ''0'' \<and> \<not> cUserHasSelectedView c then
             (if truthyAt (cLocalAnalysisResults c) ''opportunityQualification''
                then setShowResult (Some ''opportunityQualification'') s
              else if truthyAt (cLocalAnalysisResults c) ''demandAnalyst''
                then setShowResult (Some ''demandAnalyst'') s
              else if truthyAt (cLocalAnalysisResults c) ''needsAnalysis''
                then setShowResult (Some ''needsAnalysis'') s
              else s)
           else if \<not> cUserHasSelectedView c \<and>
                   (agentId = ''needsAnalysis'' \<or> agentId = ''demandAnalyst'' \<or>
                    agentId = ''opportunityQualification'')
             then setShowResult (Some agentId) s
           else s)
      | MarkAnalyzedTimer agentId c \<Rightarrow>
          seq [setHasAnalyzed True,
               (if \<not> cUserHasSelectedView c \<and>
                   (cShowResult c = None \<or> cShowResult c = Some ''longContextChunking'')
                then setShowResult (Some agentId) else (\<lambda>x. x))] s
      | ResultCheckTimer agentId hasResult c \<Rightarrow>
          (if hasResult then s else cleanupAgentState c agentId s)
      | ReloadTimer \<Rightarrow> emit PageReload s)"

text \<open>The dummy payload that the test-mode switch of lines 598 to 665 builds.\<close>

definition testModeResult :: "env \<Rightarrow> agentId \<Rightarrow> json" where
  "testModeResult e agentId =
     (if agentId = ''longContextChunking'' then
        JObj [(''chunks'', JArr [JStr ''Dummy Chunk 1'', JStr ''Dummy Chunk 2'', JStr ''Dummy Chunk 3'']),
              (''summary'', JStr ''This is a test summary of the chunked transcript'')]
      else if agentId = ''needsAnalysis'' then
        JObj [(''immediateNeeds'', JArr [JStr ''Need better UI'', JStr ''Need faster response times'']),
              (''latentNeeds'', JArr [JStr ''Future scalability'', JStr ''Integration with other tools'']),
              (''urgencyAssessment'', JObj [(''overall'', JStr ''High'')]),
              (''summary'', JStr ''Test needs analysis summary with dummy data''),
              (''stakeholders'', JArr [JStr ''Product Manager'', JStr ''End Users''])]
      else if agentId = ''demandAnalyst'' then
        JObj [(''demandLevel'', JNum 2),
              (''confidence'', JNum 80),
              (''summary'', JStr ''Test demand analysis with dummy data''),
              (''indicators'',
                 JObj [(''level1'', JArr [JStr ''Indicator 1'', JStr ''Indicator 2'']),
                       (''level2'', JArr [JStr ''Indicator 3'', JStr ''Indicator 4'']),
                       (''level3'', JArr [JStr ''Indicator 5'', JStr ''Indicator 6''])])]
      else if agentId = ''opportunityQualification'' then
        JObj [(''qualified'', JBool True),
              (''score'', JNum 85),
              (''factors'',
                 JObj [(''problemExperience'', JStr ''Strong evidence of problem experience''),
                       (''activeSearch'', JStr ''Currently evaluating solutions''),
                       (''problemFit'', JStr ''High alignment with our solution capabilities'')]),
              (''overallAssessment'', JStr ''Strong Opportunity''),
              (''summary'', JStr ''Test opportunity qualification with dummy data'')]
      else if agentId = ''finalReport'' then
        JObj [(''summary'', JStr ''Test final report summary''),
              (''recommendations'', JArr [JStr ''Recommendation 1'', JStr ''Recommendation 2'']),
              (''reportUrl'', JStr ''#test-report'')]
      else
        JObj [(''summary'', JStr (''Test data for '' @ agentId)),
              (''completed'', JBool True),
              (''timestamp'', JStr (now e))])"

text \<open>
  \<open>processWithAgent(agentId, content, previousResults)\<close>, run from its call to its
  return; it returns the result or \<open>null\<close> (\<open>None\<close>). The component is in its test
  mode: the \<open>try\<close> block builds a dummy result and calls no external service, and no
  statement of it throws (the three \<open>typeof\<close> checks are of functions the module defines),
  so the \<open>catch\<close> block is never entered. The \<open>await\<close>s of the block are timer delays.
  The callback that the results updater schedules for \<open>needsAnalysis\<close> and
  \<open>demandAnalyst\<close> is \<open>MarkAnalyzedTimer\<close>; the one scheduled after the updates is
  \<open>ResultCheckTimer\<close>.
\<close>

definition processWithAgent ::
  "closure \<Rightarrow> env \<Rightarrow> agentId \<Rightarrow> session \<Rightarrow> json option \<times> session" where
  "processWithAgent c e agentId s =
     (if cApiKey c = [] \<and> agentId \<noteq> ''longContextChunking'' then
        (None,
         seq [emit (ProcessWithAgentCalled agentId),
              emit (ToastError ''API key is missing. Please add it in Settings.''),
              cleanupAgentState c agentId] s)
      else if agentId \<noteq> ''longContextChunking'' \<and> openaiInitError e \<noteq> None then
        (None,
         seq [emit (ProcessWithAgentCalled agentId),
              setAnalyzingAgents (\<lambda>prev. setAdd prev agentId),
              setCurrentRunningAgent (Some agentId),
              updateAgentProgress e agentId 0 ''loading'' JNull,
              emit (ToastError (''Failed to initialize OpenAI: '' @ the (openaiInitError e))),
              cleanupAgentState c agentId] s)
      else
        (let result = testModeResult e agentId in
         (Some result,
          seq [emit (ProcessWithAgentCalled agentId),
               setAnalyzingAgents (\<lambda>prev. setAdd prev agentId),
               setCurrentRunningAgent (Some agentId),
               updateAgentProgress e agentId 0 ''loading'' JNull,
               updateAgentProgress e agentId 0 ''loading'' JNull,
               updateAgentProgress e agentId 25 ''loading'' JNull,
               updateAgentProgress e agentId 50 ''loading'' JNull,
               updateAgentProgress e agentId 75 ''loading'' JNull,
               (if agentId = ''longContextChunking'' then setLongContextResults result
                else (\<lambda>x. x)),
               (if (agentId = ''needsAnalysis'' \<or> agentId = ''demandAnalyst'') \<and> truthy result
                then setTimeout (MarkAnalyzedTimer agentId c) else (\<lambda>x. x)),
               setLocalAnalysisResults (\<lambda>prev. AList.update agentId result prev),
               updateAgentProgress e agentId 100 ''success'' JNull,
               setLocalAnalysisResults
                 (\<lambda>prev. if \<not> truthyAt prev agentId
                    then AList.update agentId
                           (if truthy result then result else JObj [(''completed'', JBool True)]) prev
                    else prev),
               setAgentProgress
                 (\<lambda>prev. if map_of prev agentId = Some (JNum 100)
                    then AList.update agentId (JNum 0) prev else prev),
               setTimeout (ResultCheckTimer agentId (truthy result) c)] s)))"

section \<open>runNextAgentInSequence (lines 753 to 872)\<close>

definition visibleAgentSequence :: "agentId list" where
  "visibleAgentSequence =
     [''needsAnalysis'', ''demandAnalyst'', ''opportunityQualification'', ''finalReport'']"

text \<open>\<open>Array.prototype.findIndex\<close>, with \<open>None\<close> for \<open>-1\<close>.\<close>

fun findIndex :: "('a \<Rightarrow> bool) \<Rightarrow> 'a list \<Rightarrow> nat option" where
  "findIndex P [] = None"
| "findIndex P (x # xs) =
     (if P x then Some 0 else map_option Suc (findIndex P xs))"

text \<open>
  The test of lines 818 to 821 on a missing prerequisite: it has no prerequisite of its
  own, or that prerequisite has a result.
\<close>

definition canRunPrerequisite :: "obj \<Rightarrow> agentId \<Rightarrow> bool" where
  "canRunPrerequisite results missingId =
     (case findAgent missingId of
        None \<Rightarrow> True
      | Some missingAgentInfo \<Rightarrow>
          (case requiresPreviousAgent missingAgentInfo of
             None \<Rightarrow> True
           | Some r \<Rightarrow> truthyAt results r))"

text \<open>
  The index of the next visible agent (lines 766 to 786): the first one that is not a key
  of the results.
\<close>

definition nextAgentIndex :: "obj \<Rightarrow> nat option" where
  "nextAgentIndex results =
     (let completedAgents = map fst results;
          found = findIndex (\<lambda>agentId. agentId \<notin> set completedAgents) visibleAgentSequence
      in if found = Some 0 \<and> ''needsAnalysis'' \<in> set completedAgents then Some 1 else found)"

text \<open>
  The prerequisite check of lines 799 to 812: \<open>None\<close> when the agent can run, else its
  registry entry and the prerequisites that have no result.
\<close>

definition missingPrerequisites :: "obj \<Rightarrow> agentId \<Rightarrow> (agentInfo \<times> agentId list) option" where
  "missingPrerequisites results nextAgentId =
     (case findAgent nextAgentId of
        None \<Rightarrow> None
      | Some agentInfo \<Rightarrow>
          (case requiresPreviousAgent agentInfo of
             None \<Rightarrow> None
           | Some r \<Rightarrow>
               let prerequisiteIds = [r];
                   allPrerequisitesMet = list_all (truthyAt results) prerequisiteIds
               in if \<not> allPrerequisitesMet
                  then Some (agentInfo, filter (\<lambda>p. \<not> truthyAt results p) prerequisiteIds)
                  else None))"

text \<open>
  One activation of \<open>runNextAgentInSequence\<close>, up to the point where it either returns
  (\<open>False\<close>) or calls itself again (\<open>True\<close>). All reads of \<open>isSequenceRunning\<close>,
  \<open>localAnalysisResults\<close>, \<open>showResult\<close> and \<open>currentRunningAgent\<close> are of the closure.
\<close>

definition runNextStep :: "closure \<Rightarrow> env \<Rightarrow> session \<Rightarrow> bool \<times> session" where
  "runNextStep c e s0 =
     (if \<not> cIsSequenceRunning c then (False, s0)
      else
        let results = cLocalAnalysisResults c;
            s1 = (if cShowResult c = Some ''longContextChunking'' then setShowResult None s0 else s0);
            s2 = (if ''longContextChunking'' \<in> set (map fst results) \<and>
                     cCurrentRunningAgent c = Some ''longContextChunking''
                  then setShowResult None s1 else s1)
        in
        (case nextAgentIndex results of
           None \<Rightarrow> (False, setIsSequenceRunning False s2)
         | Some i \<Rightarrow>
             let nextAgentId = visibleAgentSequence ! i in
             (case missingPrerequisites results nextAgentId of
                Some (agentInfo, missing) \<Rightarrow>
                  (case find (canRunPrerequisite results) missing of
                     Some missingId \<Rightarrow>
                       (cIsSequenceRunning c, snd (processWithAgent c e missingId s2))
                   | None \<Rightarrow>
                       (False,
                        seq [emit (ToastError (''Cannot run '' @ agentName agentInfo @
                                     ''. Missing required prerequisite analyses.'')),
                             setIsSequenceRunning False] s2))
              | None \<Rightarrow>
                  (let s3 = snd (processWithAgent c e nextAgentId s2) in
                   if cIsSequenceRunning c then (True, s3)
                   else
                     (False,
                      seq [setHasAnalyzed True,
                           (if cShowResult c = None \<and> \<not> cUserHasSelectedView c then
                              (if truthyAt results ''opportunityQualification''
                                 then setShowResult (Some ''opportunityQualification'')
                               else if truthyAt results ''needsAnalysis''
                                 then setShowResult (Some ''needsAnalysis'')
                               else (\<lambda>x. x))
                            else (\<lambda>x. x))] s3)))))"

text \<open>
  The recursion of \<open>runNextAgentInSequence\<close>: every activation is the same callback, so it
  reads the same closure. The first argument bounds the number of activations; the result
  says whether the last one returned without calling itself again.
\<close>

datatype outcome = Returned | StillRunning

primrec runNextAgentInSequence ::
  "nat \<Rightarrow> closure \<Rightarrow> env \<Rightarrow> session \<Rightarrow> outcome \<times> session" where
  "runNextAgentInSequence 0 c e s = (StillRunning, s)"
| "runNextAgentInSequence (Suc n) c e s =
     (case runNextStep c e s of
        (False, s') \<Rightarrow> (Returned, s')
      | (True, s') \<Rightarrow> runNextAgentInSequence n c e s')"

section \<open>handleRunSingleAgent (lines 1387 to 1414)\<close>

fun joinWith :: "string \<Rightarrow> string list \<Rightarrow> string" where
  "joinWith sep [] = []"
| "joinWith sep [x] = x"
| "joinWith sep (x # y # ys) = x @ sep @ joinWith sep (y # ys)"

definition displayName :: "agentId \<Rightarrow> string" where
  "displayName a =
     (case findAgent a of
        None \<Rightarrow> a
      | Some prereqAgent \<Rightarrow> (if agentName prereqAgent = [] then a else agentName prereqAgent))"

definition handleRunSingleAgent :: "closure \<Rightarrow> env \<Rightarrow> agentId \<Rightarrow> session \<Rightarrow> session" where
  "handleRunSingleAgent c e agentId s =
     (if cTranscript c = [] then
        emit (ToastError ''Please upload or enter a transcript before running analysis.'') s
      else
        (case (case findAgent agentId of
                 None \<Rightarrow> None
               | Some agentInfo \<Rightarrow>
                   (case requiresPreviousAgent agentInfo of
                      None \<Rightarrow> None
                    | Some r \<Rightarrow>
                        let missing =
                              filter (\<lambda>p. \<not> truthyAt (cLocalAnalysisResults c) p) [r]
                        in if length missing > 0
                           then Some (agentInfo, missing) else None)) of
           Some (agentInfo, missing) \<Rightarrow>
             emit (ToastError (agentName agentInfo @ '' requires '' @
                     joinWith '', '' (map displayName missing) @
                     '' to be run first.'')) s
         | None \<Rightarrow> snd (processWithAgent c e agentId s)))"

section \<open>startAnalysisSequence (lines 988 to 1294)\<close>

text \<open>The local storage key \<open>`analysisResult_${agentId}`\<close> of lines 424, 432 and 1257.\<close>

definition resultKey :: "agentId \<Rightarrow> string" where
  "resultKey agentId = ''analysisResult_'' @ agentId"

text \<open>A property read \<open>v.k\<close> of a value, and the truthiness of a value that may be undefined.\<close>

definition getProp :: "json \<Rightarrow> string \<Rightarrow> json option" where
  "getProp v k = (case v of JObj kvs \<Rightarrow> map_of kvs k | _ \<Rightarrow> None)"

definition truthyOpt :: "json option \<Rightarrow> bool" where
  "truthyOpt v = (case v of None \<Rightarrow> False | Some x \<Rightarrow> truthy x)"

text \<open>An object literal whose property values may be undefined: those are left out.\<close>

definition props :: "(string \<times> json option) list \<Rightarrow> obj" where
  "props kvs = concat (map (\<lambda>kv. case snd kv of None \<Rightarrow> [] | Some v \<Rightarrow> [(fst kv, v)]) kvs)"

definition createDemandAnalystResult :: "env \<Rightarrow> obj \<Rightarrow> json option \<Rightarrow> json" where
  "createDemandAnalystResult e baseResult transcriptSummary =
     JObj (spread baseResult (props
       [(''systemPrompt'', Some (JStr (demandSystemPrompt e))),
        (''processedTranscript'', transcriptSummary),
        (''demandLevel'', Some (JNum 2)),
        (''confidenceScore'', Some (JNum 75)),
        (''analysis'', Some (JObj
           [(''level1Indicators'', JArr
               [JStr ''Information gathering about product features'',
                JStr ''Basic understanding of problem space'']),
            (''level2Indicators'', JArr
               [JStr ''Discussion of specific pain points'',
                JStr ''Preliminary budget considerations'',
                JStr ''Implementation timeline exploration'']),
            (''level3Indicators'', JArr
               [JStr ''Comparing specific vendor offerings''])])),
        (''reasoning'', Some (JObj
           [(''summary'', JStr (''Based on the transcript analysis, the prospect is primarily in Solution Demand (Level 2) with some indicators of Vendor Demand (Level 3). '' @
                ''They have clearly identified pain points and are discussing implementation details, but have not yet finalized budget approval or created a formal vendor shortlist.'')),
            (''gaps'', JArr
               [JStr ''No explicit budget approval mentioned'',
                JStr ''Timeline not firmly established''])])),
        (''recommendations'', Some (JArr
           [JStr ''Focus on differentiating solution capabilities'',
            JStr ''Provide case studies of similar implementations'',
            JStr ''Offer a detailed implementation plan with timeline'',
            JStr ''Discuss ROI calculations to help with budget approval process''])),
        (''metadata'', Some (JObj
           [(''transcriptQuality'', JStr ''Good''),
            (''confidenceFactors'', JArr
               [JStr ''Clear pain point articulation'',
                JStr ''Multiple solution discussions'',
                JStr ''Some budget consideration''])]))]))"

definition createNeedsAnalysisResult :: "obj \<Rightarrow> json option \<Rightarrow> json" where
  "createNeedsAnalysisResult baseResult transcriptSummary =
     JObj (spread baseResult (props
       [(''processedTranscript'', transcriptSummary),
        (''immediateNeeds'', Some (JArr
           [JObj [(''need'', JStr ''Need to streamline customer onboarding process''),
                  (''urgency'', JStr ''High''),
                  (''context'', JStr ''Current process is causing customer frustration and delays''),
                  (''evidence'', JStr ''Based on transcript analysis showing multiple mentions of onboarding friction'')],
            JObj [(''need'', JStr ''Need for better technical documentation''),
                  (''urgency'', JStr ''Medium''),
                  (''context'', JStr ''Users struggle to find answers to technical questions''),
                  (''evidence'', JStr ''Evidence from transcript showing confusion about product features'')]])),
        (''latentNeeds'', Some (JArr
           [JObj [(''need'', JStr ''Need for more personalized customer support options''),
                  (''confidence'', JNum 85),
                  (''rationale'', JStr ''Customers expressing desire for more tailored assistance''),
                  (''evidence'', JStr ''Pattern of comments about generic support responses'')],
            JObj [(''need'', JStr ''Need for mobile-friendly interface improvements''),
                  (''confidence'', JNum 70),
                  (''rationale'', JStr ''Increasing mobile usage patterns suggest growing importance''),
                  (''evidence'', JStr ''Subtle references to mobile access challenges in transcript'')]])),
        (''urgencyAssessment'', Some (JObj [(''overall'', JStr ''Medium-High'')])),
        (''stakeholders'', Some (JArr
           [JStr ''Product Team'', JStr ''Customer Support'', JStr ''Engineering'']))]))"

text \<open>
  Step 3 of the loop body (lines 1157 to 1235): the dummy result of an agent. The reads of
  \<open>localAnalysisResults\<close> and \<open>transcript\<close> are of the closure.
\<close>

definition dummyResult :: "closure \<Rightarrow> env \<Rightarrow> agentId \<Rightarrow> json" where
  "dummyResult c e agentId =
     (let base = [(''completed'', JBool True), (''timestamp'', JStr (now e)),
                  (''summary'', JStr (''Dummy result for '' @ agentId))];
          chunkingResults = map_of (cLocalAnalysisResults c) ''longContextChunking'';
          needsResults = map_of (cLocalAnalysisResults c) ''needsAnalysis''
      in
      if agentId = ''needsAnalysis'' then
        (if \<not> truthyOpt chunkingResults then
           createNeedsAnalysisResult base
             (Some (JStr ''Using raw transcript as fallback due to missing chunking results''))
         else
           createNeedsAnalysisResult base (getProp (the chunkingResults) ''finalSummary''))
      else if agentId = ''demandAnalyst'' then
        createDemandAnalystResult e base
          (if truthyOpt chunkingResults \<and>
              truthyOpt (getProp (the chunkingResults) ''finalSummary'')
             then getProp (the chunkingResults) ''finalSummary''
           else if truthyOpt needsResults \<and>
                   truthyOpt (getProp (the needsResults) ''processedTranscript'')
             then getProp (the needsResults) ''processedTranscript''
           else Some (JStr (if cTranscript c \<noteq> [] then cTranscript c
                            else ''No transcript available'')))
      else if agentId = ''opportunityQualification'' then
        JObj (spread base
          [(''qualification'', JStr ''Qualified''),
           (''opportunityScore'', JNum 75),
           (''reasons'', JObj [(''strengths'', JArr [JStr ''Sample strength'']),
                               (''weaknesses'', JArr [JStr ''Sample weakness''])])])
      else if agentId = ''longContextChunking'' then
        JObj (spread base
          [(''chunks'', JArr [JStr ''Sample chunk 1'', JStr ''Sample chunk 2'']),
           (''chunkSummaries'', JArr [JStr ''Summary of chunk 1'', JStr ''Summary of chunk 2''])])
      else if agentId = ''finalReport'' then
        JObj (spread base
          [(''sections'', JArr
              [JObj [(''title'', JStr ''Summary''),
                     (''content'', JStr ''Sample report summary content'')],
               JObj [(''title'', JStr ''Analysis''),
                     (''content'', JStr ''Sample analysis content'')]])])
      else JObj base)"

text \<open>The two results that the chunking branch stores (lines 1058 to 1091).\<close>

definition chunkingStored :: "env \<Rightarrow> chunkResult \<Rightarrow> json" where
  "chunkingStored e r =
     JObj (props
       [(''completed'', Some (JBool True)),
        (''timestamp'', Some (JStr (now e))),
        (''summary'', finalSummary r),
        (''chunks'', chunks r),
        (''chunkSummaries'', chunkSummaries r),
        (''sectionSummaries'', sectionSummaries r),
        (''finalSummary'', finalSummary r),
        (''metadata'', metadata r)])"

definition fallbackResult :: "env \<Rightarrow> string \<Rightarrow> json" where
  "fallbackResult e message =
     JObj [(''completed'', JBool True),
           (''timestamp'', JStr (now e)),
           (''summary'', JStr (''Error optimizing transcript: '' @ message)),
           (''chunks'', JArr []),
           (''chunkSummaries'', JArr []),
           (''sectionSummaries'', JArr []),
           (''finalSummary'', JStr (''Failed to process transcript: '' @ message)),
           (''error'', JStr message)]"

text \<open>
  \<open>String.prototype.trim\<close> leaves nothing exactly when every character is white space
  or a line terminator. A character of the model is a code unit below 256; of those, trim
  removes tab, line feed, vertical tab, form feed, carriage return, space and the no-break
  space U+00A0. (The others it removes, such as U+FEFF, U+2028 and the space separators
  above U+00FF, are not characters of the model.)
\<close>

definition isWhiteSpace :: "char \<Rightarrow> bool" where
  "isWhiteSpace ch =
     (ch \<in> {CHR 0x09, CHR 0x0A, CHR 0x0B, CHR 0x0C, CHR 0x0D, CHR '' '', CHR 0xA0})"

definition trimIsEmpty :: "string \<Rightarrow> bool" where
  "trimIsEmpty str = list_all isWhiteSpace str"

definition loadingRecord :: "int \<Rightarrow> string \<Rightarrow> string \<Rightarrow> json" where
  "loadingRecord p status ts =
     JObj [(''progress'', JNum p), (''status'', JStr status), (''timestamp'', JStr ts)]"

definition setProgressOf :: "env \<Rightarrow> agentId \<Rightarrow> int \<Rightarrow> string \<Rightarrow> session \<Rightarrow> session" where
  "setProgressOf e agentId p status =
     setAgentProgress (\<lambda>prev. AList.update agentId (loadingRecord p status (now e)) prev)"

text \<open>
  An \<open>async\<close> function runs as a list of steps: a step is the code between two
  \<open>await\<close>s, a state transformer that runs without interruption. Other steps (of
  other calls, or of event handlers) may run between two steps of a call.

  \<open>chunkingSteps\<close> is the special handling of \<open>longContextChunking\<close> (lines 1027 to 1111)
  up to the 300 ms delay; \<open>pre\<close> is the code that runs before it in the same step. With
  a transcript of white space only the \<open>throw\<close> and its \<open>catch\<close> run in that same step.
  Otherwise the step ends at the call of the utility; each reported progress value is a
  step, and so is the code after the call settles.
\<close>

type_synonym step = "session \<Rightarrow> session"

definition chunkingSteps :: "closure \<Rightarrow> env \<Rightarrow> step \<Rightarrow> step list" where
  "chunkingSteps c e pre =
     (let agentId = ''longContextChunking'';
          storeFallback = (\<lambda>message.
            seq [setLocalAnalysisResults (\<lambda>prev. AList.update agentId (fallbackResult e message) prev),
                 setOptimizationProgress 100]);
          afterTry =
            seq [setFinishedAgents (\<lambda>prev. setAdd prev agentId),
                 setOptimizationProgress 100]
      in
      if trimIsEmpty (cTranscript c) then
        [seq [pre, setIsOptimizingTranscript True,
              storeFallback ''No transcript content to analyze'', afterTry]]
      else
        [seq [pre, setIsOptimizingTranscript True, setOptimizationProgress 5,
              emit (ChunkingCalled (cTranscript c) (cApiKey c))]]
        @ map setOptimizationProgress (chunkingProgress e)
        @ [seq [(case chunkingOutcome e of
                   ChunkResolved r \<Rightarrow>
                     setLocalAnalysisResults (\<lambda>prev. AList.update agentId (chunkingStored e r) prev)
                 | ChunkRejected message \<Rightarrow> storeFallback message),
                afterTry]])"

text \<open>
  The rest of the loop body for one agent (lines 1105 to 1265), from the code after the
  300 ms delay (for \<open>longContextChunking\<close>) or from the top of the body (for the others)
  to the one-second delay at its end.
\<close>

definition visualSteps :: "closure \<Rightarrow> env \<Rightarrow> agentId \<Rightarrow> step \<Rightarrow> step list" where
  "visualSteps c e agentId pre =
     [seq [pre,
           (if agentId = ''longContextChunking''
            then seq [setFinishedAgentsArray (\<lambda>prev. prev @ [agentId]),
                      setIsOptimizingTranscript False]
            else (\<lambda>x. x)),
           (if agentId \<noteq> ''longContextChunking''
            then seq [setAnalyzingAgents (\<lambda>prev. [agentId]),
                      setCurrentRunningAgent (Some agentId),
                      setProgressOf e agentId 15 ''loading'']
            else setCurrentRunningAgent (Some agentId)),
           setProgressOf e agentId 10 ''loading'',
           setProgressOf e agentId 25 ''loading''],
      setProgressOf e agentId 50 ''loading'',
      setProgressOf e agentId 75 ''loading'',
      setProgressOf e agentId 100 ''loading'',
      seq [setLocalAnalysisResults (\<lambda>prev. AList.update agentId (dummyResult c e agentId) prev),
           setFinishedAgents (\<lambda>prev. setAdd prev agentId),
           setProgressOf e agentId 100 ''success'',
           (if agentId \<noteq> ''longContextChunking''
            then seq [setItem (resultKey agentId) (dummyResult c e agentId),
                      setShowResult (Some agentId)]
            else (\<lambda>x. x))]]"

text \<open>
  The \<open>for\<close> loop over the agent sequence and the code after it. The last statement of an
  iteration (removing the agent from \<open>analyzingAgents\<close>) runs in the same step as the
  beginning of the next iteration, or as the code after the loop. Nothing in the loop
  reads \<open>isSequenceRunning\<close>. No statement of the loop throws outside the inner
  \<open>try\<close> blocks (a failing \<open>localStorage.setItem\<close> is caught and logged where it is
  called, and is not modelled), so the outer \<open>catch\<close> is never entered.
\<close>

fun sequenceLoop :: "closure \<Rightarrow> env \<Rightarrow> step \<Rightarrow> agentId list \<Rightarrow> step list" where
  "sequenceLoop c e pre [] =
     [seq [pre, setHasAnalyzed True,
           emit (ToastSuccess ''Analysis sequence completed successfully!''),
           setIsSequenceRunning False]]"
| "sequenceLoop c e pre (agentId # rest) =
     (if agentId = ''longContextChunking''
      then chunkingSteps c e pre @ visualSteps c e agentId (\<lambda>x. x)
      else visualSteps c e agentId pre)
     @ sequenceLoop c e (setAnalyzingAgents (\<lambda>prev. setDelete prev agentId)) rest"

definition agentSequence :: "agentId list" where
  "agentSequence =
     [''longContextChunking'', ''needsAnalysis'', ''demandAnalyst'',
      ''opportunityQualification'', ''finalReport'']"

text \<open>The statements before the loop (lines 997 to 1014).\<close>

definition resetBeforeSequence :: step where
  "resetBeforeSequence =
     seq [setShowResult None,
          setAnalyzingAgents (\<lambda>prev. []),
          setLocalAnalysisResults (\<lambda>prev. []),
          setAgentProgress (\<lambda>prev. []),
          setHasAnalyzed False,
          setIsSequenceRunning True]"

definition startAnalysisSequence :: "closure \<Rightarrow> env \<Rightarrow> step list" where
  "startAnalysisSequence c e =
     (if cTranscript c = [] then
        [emit (ToastError ''Please upload or enter a transcript before running analysis.'')]
      else sequenceLoop c e resetBeforeSequence agentSequence)"

section \<open>The other handlers and the effects of the page\<close>

definition stopAnalysisSequence :: step where
  "stopAnalysisSequence =
     seq [setIsSequenceRunning False, emit (ToastInfo ''Analysis sequence stopped.'')]"

definition handleContentChange :: "string \<Rightarrow> step" where
  "handleContentChange content =
     seq [setAnalyzingAgents (\<lambda>prev. []),
          setAgentProgress (\<lambda>prev. []),
          setLocalAnalysisResults (\<lambda>prev. []),
          setCurrentAgent None,
          setHasAnalyzed False,
          setTranscript content]"

text \<open>\<open>isDone\<close> (lines 307 to 330).\<close>

definition isDone :: "session \<Rightarrow> agentId \<Rightarrow> bool" where
  "isDone s agentId =
     (let hasResults = truthyAt (localAnalysisResults s) agentId;
          isFinished = agentId \<in> set (finishedAgents s)
      in if (agentId = ''needsAnalysis'' \<or> agentId = ''demandAnalyst'') \<and>
            hasKey (localAnalysisResults s) agentId
         then True
         else hasResults \<or> isFinished)"

text \<open>
  \<open>handleViewResult\<close> (lines 416 to 448). \<open>showResult\<close> and \<open>localAnalysisResults\<close> are
  read from the closure, local storage is read when the handler runs.
\<close>

definition handleViewResult :: "closure \<Rightarrow> agentId \<Rightarrow> step" where
  "handleViewResult c agentId =
     seq [(case cShowResult c of
             None \<Rightarrow> (\<lambda>x. x)
           | Some shown \<Rightarrow>
               (if shown \<noteq> [] \<and> truthyAt (cLocalAnalysisResults c) shown
                then setItem (resultKey shown)
                       (the (map_of (cLocalAnalysisResults c) shown))
                else (\<lambda>x. x))),
          (\<lambda>s. case localStorage s (resultKey agentId) of
                  None \<Rightarrow> s
                | Some parsedResults \<Rightarrow>
                    setLocalAnalysisResults (\<lambda>prev. AList.update agentId parsedResults prev) s),
          setShowResult (Some agentId),
          setUserHasSelectedView True]"

text \<open>
  \<open>handleReset\<close> (lines 362 to 414); nothing happens when the user does not confirm.
  \<open>resetKeys\<close> are the keys it removes from local storage, in the order of the calls.
\<close>

definition resetKeys :: "string list" where
  "resetKeys =
     [''opportunityTranscript'',
      ''opportunityAnalyzingAgents'',
      ''opportunityHasAnalyzed'',
      ''opportunityResults'',
      ''opportunityAgentProgress'',
      ''opportunityShowResult'',
      ''opportunityUserSelectedView'',
      ''lastViewedOpportunityResult'',
      ''opportunityIsOptimizing'',
      ''opportunityOptimizationProgress'',
      ''opportunityFinishedAgents'',
      ''opportunityIsSequenceRunning'',
      ''opportunityLongContextResults'',
      ''opportunityJtbdAnalysis'',
      ''opportunityGainAnalysis'',
      ''opportunityCurrentAgent'']"

definition handleReset :: "env \<Rightarrow> step" where
  "handleReset e =
     (if confirmReset e then
        seq ([setTranscript [],
              setAnalyzingAgents (\<lambda>prev. []),
              setAnalyzingAgentsArray [],
              setHasAnalyzed False,
              setLongContextResults (JObj []),
              setJtbdAnalysis (JObj []),
              setGainAnalysis (JObj []),
              setLocalAnalysisResults (\<lambda>prev. []),
              setAgentProgress (\<lambda>prev. []),
              setShowResult None,
              setLastViewedResult None,
              setUserHasSelectedView False,
              setCurrentRunningAgent None,
              setIsSequenceRunning False,
              setIsOptimizingTranscript False,
              setOptimizationProgress 0,
              setPreviousTranscriptRef [],
              setFinishedAgents (\<lambda>prev. []),
              setFinishedAgentsArray (\<lambda>prev. [])]
             @ map removeItem resetKeys
             @ [emit (ToastSuccess ''Analysis reset successfully''),
                setTimeout ReloadTimer])
      else (\<lambda>x. x))"

text \<open>\<open>clearAllState\<close> and \<open>handleClearData\<close>, the Reset Evaluation button (lines 1318 to 1385).\<close>

definition clearAllState :: step where
  "clearAllState =
     seq [removeItem ''opportunityResults'',
          removeItem ''opportunityAgentProgress'',
          removeItem ''opportunityTranscript'',
          removeItem ''opportunityAnalyzingAgents'',
          removeItem ''opportunityHasAnalyzed'',
          removeItem ''opportunityShowResult'',
          removeItem ''opportunityUserSelectedView'',
          removeItem ''opportunityCurrentAgent'',
          removeItem ''opportunityIsProcessing'',
          removeItem ''opportunityIsOptimizing'',
          removeItem ''opportunityOptimizationProgress'',
          removeItem ''opportunityCurrentIndex'',
          removeItem ''opportunityIsSequenceRunning'',
          removeItem ''opportunityFinishedAgents'',
          removeItem ''lastViewedOpportunityResult'',
          removeItem ''opportunityLongContextResults'',
          removeItem ''opportunityJtbdAnalysis'',
          removeItem ''opportunityGainAnalysis'',
          removeItem ''opportunityCurrentAgent'',
          setLocalAnalysisResults (\<lambda>prev. []),
          setAgentProgress (\<lambda>prev. []),
          setTranscript [],
          setAnalyzingAgents (\<lambda>prev. []),
          setAnalyzingAgentsArray [],
          setHasAnalyzed False,
          setShowResult None,
          setLastViewedResult None,
          setCurrentAgent None,
          setCurrentRunningAgent None,
          setIsSequenceRunning False,
          setUserHasSelectedView False,
          setIsOptimizingTranscript False,
          setOptimizationProgress 0,
          setFinishedAgents (\<lambda>prev. []),
          setFinishedAgentsArray (\<lambda>prev. []),
          setLongContextResults (JObj []),
          setJtbdAnalysis (JObj []),
          setGainAnalysis (JObj [])]"

definition handleClearData :: step where
  "handleClearData =
     seq [clearAllState,
          setFinishedAgents (\<lambda>prev. []),
          setFinishedAgentsArray (\<lambda>prev. []),
          removeItem ''opportunityFinishedAgents'',
          removeItem ''lastViewedOpportunityResult'',
          removeItem ''opportunityLongContextResults'',
          removeItem ''opportunityJtbdAnalysis'',
          removeItem ''opportunityGainAnalysis'',
          emit (ToastSuccess ''All opportunity evaluation data has been reset.''),
          setTimeout ReloadTimer]"

text \<open>
  The two effects that copy the sets \<open>analyzingAgents\<close> and \<open>finishedAgents\<close> to their
  stored arrays when the two differ (lines 280 to 302).
\<close>

definition storedArray :: "(string \<rightharpoonup> json) \<Rightarrow> string \<Rightarrow> json" where
  "storedArray st k = (case st k of None \<Rightarrow> JArr [] | Some v \<Rightarrow> v)"

definition syncAnalyzingAgents :: step where
  "syncAnalyzingAgents s =
     (if JArr (map JStr (analyzingAgents s)) \<noteq> storedArray (localStorage s) ''opportunityAnalyzingAgents''
      then setAnalyzingAgentsArray (analyzingAgents s) s else s)"

definition syncFinishedAgents :: step where
  "syncFinishedAgents s =
     (if JArr (map JStr (finishedAgents s)) \<noteq> storedArray (localStorage s) ''opportunityFinishedAgents''
      then setFinishedAgentsArray (\<lambda>prev. finishedAgents s) s else s)"

subsection \<open>Loading the page\<close>

text \<open>
  The state of a freshly loaded page (the declarations of lines 225 to 278) over a given
  local storage; the reading of a stored value follows the hook as modelled above. A
  stored value of another shape than the state's counts as absent.
\<close>

definition storedString :: "(string \<rightharpoonup> json) \<Rightarrow> string \<Rightarrow> string \<Rightarrow> string" where
  "storedString st k initial = (case st k of Some (JStr v) \<Rightarrow> v | _ \<Rightarrow> initial)"

definition storedBool :: "(string \<rightharpoonup> json) \<Rightarrow> string \<Rightarrow> bool \<Rightarrow> bool" where
  "storedBool st k initial = (case st k of Some (JBool v) \<Rightarrow> v | _ \<Rightarrow> initial)"

definition storedInt :: "(string \<rightharpoonup> json) \<Rightarrow> string \<Rightarrow> int \<Rightarrow> int" where
  "storedInt st k initial = (case st k of Some (JNum v) \<Rightarrow> v | _ \<Rightarrow> initial)"

definition storedObj :: "(string \<rightharpoonup> json) \<Rightarrow> string \<Rightarrow> obj" where
  "storedObj st k = (case st k of Some (JObj v) \<Rightarrow> v | _ \<Rightarrow> [])"

definition storedJson :: "(string \<rightharpoonup> json) \<Rightarrow> string \<Rightarrow> json" where
  "storedJson st k = (case st k of Some v \<Rightarrow> v | None \<Rightarrow> JObj [])"

definition storedId :: "(string \<rightharpoonup> json) \<Rightarrow> string \<Rightarrow> agentId option" where
  "storedId st k = (case st k of Some (JStr v) \<Rightarrow> Some v | _ \<Rightarrow> None)"

fun idsOf :: "json list \<Rightarrow> agentId list" where
  "idsOf [] = []"
| "idsOf (JStr a # vs) = a # idsOf vs"
| "idsOf (v # vs) = idsOf vs"

definition storedIds :: "(string \<rightharpoonup> json) \<Rightarrow> string \<Rightarrow> agentId list" where
  "storedIds st k = (case st k of Some (JArr vs) \<Rightarrow> idsOf vs | _ \<Rightarrow> [])"

text \<open>\<open>new Set(array)\<close>\<close>

definition newSet :: "agentId list \<Rightarrow> agentId list" where
  "newSet xs = foldl setAdd [] xs"

definition mount :: "(string \<rightharpoonup> json) \<Rightarrow> session" where
  "mount st =
     \<lparr>transcript = storedString st ''opportunityTranscript'' [],
      analyzingAgentsArray = storedIds st ''opportunityAnalyzingAgents'',
      analyzingAgents = newSet (storedIds st ''opportunityAnalyzingAgents''),
      hasAnalyzed = storedBool st ''opportunityHasAnalyzed'' False,
      localAnalysisResults = storedObj st ''opportunityResults'',
      agentProgress = storedObj st ''opportunityAgentProgress'',
      showResult = storedId st ''opportunityShowResult'',
      userHasSelectedView = storedBool st ''opportunityUserSelectedView'' False,
      apiKey = storedString st ''llmApiKey'' [],
      currentAgent = None,
      isProcessing = False,
      lastViewedResult = storedId st ''lastViewedOpportunityResult'',
      isOptimizingTranscript = storedBool st ''opportunityIsOptimizing'' False,
      optimizationProgress = storedInt st ''opportunityOptimizationProgress'' 0,
      finishedAgentsArray = storedIds st ''opportunityFinishedAgents'',
      finishedAgents = newSet (storedIds st ''opportunityFinishedAgents''),
      currentAnalysisIndex = 0,
      isSequenceRunning = storedBool st ''opportunityIsSequenceRunning'' False,
      longContextResults = storedJson st ''opportunityLongContextResults'',
      jtbdAnalysis = storedJson st ''opportunityJtbdAnalysis'',
      gainAnalysis = storedJson st ''opportunityGainAnalysis'',
      currentRunningAgent = storedId st ''opportunityCurrentAgent'',
      previousTranscriptRef = [],
      localStorage = st,
      timers = [],
      events = []\<rparr>"

section \<open>Schedules: the page under any order of events\<close>

text \<open>
  The page is the state together with the \<open>startAnalysisSequence\<close> calls in progress,
  each with the steps it has left. A schedule is any list of the things that can happen
  next: a click on Analyze Transcript (its callback closes over the current render), the
  next step of one of the calls in progress, the other handlers, the two effects, and a
  reload of the page, which ends all calls and loads the state from local storage.
\<close>

datatype action =
    ClickAnalyze env
  | TaskStep nat
  | Stop
  | ChangeContent string
  | ViewResult agentId
  | ClearData
  | SyncEffects
  | Reload

type_synonym page = "session \<times> step list list"

fun act :: "page \<Rightarrow> action \<Rightarrow> page" where
  "act (s, ts) (ClickAnalyze e) = (s, ts @ [startAnalysisSequence (render s) e])"
| "act (s, ts) (TaskStep i) =
     (if i < length ts then
        (case ts ! i of
           [] \<Rightarrow> (s, ts)
         | f # fs \<Rightarrow> (f s, ts[i := fs]))
      else (s, ts))"
| "act (s, ts) Stop = (stopAnalysisSequence s, ts)"
| "act (s, ts) (ChangeContent content) = (handleContentChange content s, ts)"
| "act (s, ts) (ViewResult agentId) = (handleViewResult (render s) agentId s, ts)"
| "act (s, ts) ClearData = (handleClearData s, ts)"
| "act (s, ts) SyncEffects = (syncFinishedAgents (syncAnalyzingAgents s), ts)"
| "act (s, ts) Reload = (mount (localStorage s), [])"

definition runSchedule :: "action list \<Rightarrow> page \<Rightarrow> page" where
  "runSchedule acts p = foldl act p acts"

section \<open>GradeTranscripts.jsx: runAnalysisRef and the progression effect\<close>

text \<open>
  The page keeps one record per agent, under the five keys of \<open>initialAgentStates\<close>.
  \<open>AGENT_SEQUENCE\<close>, \<open>MAX_RETRIES\<close> and \<open>ANALYSIS_DELAY\<close> are imported from
  \<open>src/utils/analysisTypes\<close> and the five analysis functions from
  \<open>src/utils/analysisModules\<close>; neither file is among the sources. The sequence (a list
  of those five keys) and the bound are parameters, and each call of an analysis function
  takes its outcome, a result or an error message, from a list of outcomes supplied in
  the order of the calls.
\<close>

datatype gagent = Jtbd | Curse | ProblemFit | Priming | Recommendations

fun agentKey :: "gagent \<Rightarrow> string" where
  "agentKey Jtbd = ''jtbd''"
| "agentKey Curse = ''curse''"
| "agentKey ProblemFit = ''problemFit''"
| "agentKey Priming = ''priming''"
| "agentKey Recommendations = ''recommendations''"

record agentState =
  isAnalyzing :: bool
  progress :: nat
  results :: "json option"
  showResults :: bool
  retryCount :: nat

definition initialAgentState :: agentState where
  "initialAgentState =
     \<lparr>isAnalyzing = False, progress = 0, results = None, showResults = False, retryCount = 0\<rparr>"

datatype callOutcome = Resolved json | Rejected string

datatype gevent =
    GToastError string
  | GToastInfo string
  | AnalysisCalled gagent string

record genv =
  maxRetries :: nat
  agentSequenceG :: "gagent list"
  storedApiKey :: "string option"

text \<open>
  The state of the component, the copy of it that the effect of lines 43 to 51 keeps in
  \<open>stateRef\<close>, the session storage, and what the page shows or calls.
\<close>

record gstate =
  gTranscript :: string
  analysisResult :: "json option"
  gIsAnalyzing :: bool
  gShowResult :: bool
  gCurrentAnalysisIndex :: nat
  gIsSequenceRunning :: bool
  agentStates :: "gagent \<Rightarrow> agentState"
  refTranscript :: string
  refAgentStates :: "gagent \<Rightarrow> agentState"
  refIsSequenceRunning :: bool
  refCurrentAnalysisIndex :: nat
  sessionStorage :: "string \<rightharpoonup> json"
  gEvents :: "gevent list"

definition gEmit :: "gevent \<Rightarrow> gstate \<Rightarrow> gstate" where
  "gEmit ev s = s\<lparr>gEvents := gEvents s @ [ev]\<rparr>"

definition syncStateRef :: "gstate \<Rightarrow> gstate" where
  "syncStateRef s =
     s\<lparr>refTranscript := gTranscript s, refAgentStates := agentStates s,
       refIsSequenceRunning := gIsSequenceRunning s,
       refCurrentAnalysisIndex := gCurrentAnalysisIndex s\<rparr>"

text \<open>\<open>startsWith\<close> and \<open>includes\<close> of JavaScript strings (\<open>includesStr\<close>).\<close>

fun startsWith :: "string \<Rightarrow> string \<Rightarrow> bool" where
  "startsWith str [] = True"
| "startsWith [] (p # ps) = False"
| "startsWith (x # xs) (p # ps) = (x = p \<and> startsWith xs ps)"

fun includesStr :: "string \<Rightarrow> string \<Rightarrow> bool" where
  "includesStr [] sub = (sub = [])"
| "includesStr (x # xs) sub = (startsWith (x # xs) sub \<or> includesStr xs sub)"

text \<open>A number in a template string.\<close>

definition digitChar :: "nat \<Rightarrow> char" where
  "digitChar d = char_of (48 + d)"

function showNat :: "nat \<Rightarrow> string" where
  "showNat n = (if n < 10 then [digitChar n] else showNat (n div 10) @ [digitChar (n mod 10)])"
  by pat_completeness auto
termination
  by (relation "measure (\<lambda>n. n)") auto

text \<open>\<open>checkApiKey\<close> (lines 91 to 113): the verdict, with the toast of a failed check.\<close>

definition checkApiKey :: "genv \<Rightarrow> gstate \<Rightarrow> bool \<times> gstate" where
  "checkApiKey g s =
     (case storedApiKey g of
        None \<Rightarrow>
          (False, gEmit (GToastError ''OpenAI API key not found. Please set your API key in the settings.'') s)
      | Some k \<Rightarrow>
          if k = [] then
            (False, gEmit (GToastError ''OpenAI API key not found. Please set your API key in the settings.'') s)
          else if \<not> startsWith k ''sk-'' then
            (False, gEmit (GToastError ''Invalid API key format. Please check your settings.'') s)
          else if length k < 40 then
            (False, gEmit (GToastError ''Invalid API key length. Please check your settings.'') s)
          else (True, s))"

definition resetAnalysisState :: "gstate \<Rightarrow> gstate" where
  "resetAnalysisState s =
     s\<lparr>agentStates := (\<lambda>a. initialAgentState),
       gCurrentAnalysisIndex := 0,
       gIsSequenceRunning := False,
       gIsAnalyzing := False,
       gShowResult := False,
       analysisResult := None\<rparr>"

definition resultOrNull :: "json option \<Rightarrow> json" where
  "resultOrNull r = (case r of None \<Rightarrow> JNull | Some v \<Rightarrow> v)"

text \<open>The last element of the sequence, \<open>AGENT_SEQUENCE[AGENT_SEQUENCE.length - 1]\<close>.\<close>

definition lastOfSequence :: "genv \<Rightarrow> gagent option" where
  "lastOfSequence g = (if agentSequenceG g = [] then None else Some (last (agentSequenceG g)))"

text \<open>
  The code of \<open>runAnalysisRef\<close> before the call of the analysis function (lines 140 to
  168). \<open>None\<close>: it returned without calling. The retry count is read from \<open>stateRef\<close>.
\<close>

definition beforeCall :: "genv \<Rightarrow> gagent \<Rightarrow> gstate \<Rightarrow> gstate option \<times> gstate" where
  "beforeCall g agentId s =
     (case checkApiKey g s of
        (False, s1) \<Rightarrow> (None, resetAnalysisState s1)
      | (True, s1) \<Rightarrow>
          (case checkApiKey g s1 of
             (False, s2) \<Rightarrow> (None, resetAnalysisState s2)
           | (True, s2) \<Rightarrow>
               if retryCount (refAgentStates s2 agentId) \<ge> maxRetries g then
                 (None,
                  gEmit (GToastError (''Failed to complete '' @ agentKey agentId @
                           '' analysis after '' @ showNat (maxRetries g) @ '' attempts''))
                    (s2\<lparr>gIsSequenceRunning := False,
                        sessionStorage := (sessionStorage s2)(''isSequenceRunning'' \<mapsto> JStr ''false'')\<rparr>))
               else
                 (let s3 = s2\<lparr>agentStates := (agentStates s2)
                              (agentId := (agentStates s2 agentId)
                                 \<lparr>isAnalyzing := True, progress := 0,
                                  retryCount := retryCount (agentStates s2 agentId) + 1\<rparr>)\<rparr>
                  in (Some s3, s3))))"

text \<open>The code after the call resolved with \<open>results\<close> (lines 199 to 224).\<close>

definition afterResolved :: "genv \<Rightarrow> gagent \<Rightarrow> json \<Rightarrow> gstate \<Rightarrow> gstate" where
  "afterResolved g agentId res s =
     (let s1 = s\<lparr>sessionStorage := (sessionStorage s)(agentKey agentId @ ''Results'' \<mapsto> res),
                 agentStates := (agentStates s)
                   (agentId := (agentStates s agentId)
                      \<lparr>results := Some res, progress := 100, isAnalyzing := False\<rparr>)\<rparr>
      in if Some agentId = lastOfSequence g then
           s1\<lparr>analysisResult := Some (JObj
                  [(''jtbdAnalysis'', resultOrNull (results (refAgentStates s Jtbd))),
                   (''curseAnalysis'', resultOrNull (results (refAgentStates s Curse))),
                   (''problemFitMatrixAnalysis'', resultOrNull (results (refAgentStates s ProblemFit))),
                   (''primingAnalysis'', resultOrNull (results (refAgentStates s Priming))),
                   (''actionableRecommendations'', res)]),
               gShowResult := True,
               gIsSequenceRunning := False,
               gIsAnalyzing := False\<rparr>
         else s1)"

text \<open>
  A call of an analysis function, as the page sees it: its outcome, and when the outcome
  is handled. \<open>runAnalysisRef\<close> reads the retry count from \<open>stateRef\<close>, which is written
  only by the effect of lines 43 to 51, after the component has rendered the state changes
  of line 160. The code does not decide whether that render comes before the rejection of
  the call is handled (a call that fails at once is handled first), so each call says it:
  \<open>handledAfterRender\<close>, and, for an outcome handled before the render,
  \<open>retriedAfterRender\<close>: whether the component rendered before the retry timer fired.
\<close>

record call =
  outcome :: callOutcome
  handledAfterRender :: bool
  retriedAfterRender :: bool

text \<open>
  \<open>runAnalysisRef.current(agentId, content)\<close> with its retries (lines 139 to 243), given
  the calls it will make; it returns the ones it did not use. A retry is the same function,
  called by a timer after \<open>ANALYSIS_DELAY\<close>. When no call is left the call is still
  pending. The state it returns is the state of the component; \<open>stateRef\<close> is as the
  last render before left it.
\<close>

fun runAnalysisRef ::
  "genv \<Rightarrow> gagent \<Rightarrow> string \<Rightarrow> call list \<Rightarrow> gstate \<Rightarrow> gstate \<times> call list" where
  "runAnalysisRef g agentId content [] s =
     (case beforeCall g agentId s of
        (None, s') \<Rightarrow> (s', [])
      | (Some _, s') \<Rightarrow> (gEmit (AnalysisCalled agentId content) s', []))"
| "runAnalysisRef g agentId content (out # outs) s =
     (case beforeCall g agentId s of
        (None, s') \<Rightarrow> (s', out # outs)
      | (Some _, s') \<Rightarrow>
          (let s1 = gEmit (AnalysisCalled agentId content) s';
               s2 = (if handledAfterRender out then syncStateRef s1 else s1) in
           case outcome out of
             Resolved res \<Rightarrow> (afterResolved g agentId res s2, outs)
           | Rejected message \<Rightarrow>
               if message \<noteq> [] \<and> includesStr message ''API key'' then
                 (resetAnalysisState (gEmit (GToastError message) s2), outs)
               else if retryCount (refAgentStates s2 agentId) < maxRetries g then
                 runAnalysisRef g agentId content outs
                   (if retriedAfterRender out then syncStateRef s2 else s2)
               else
                 (gEmit (GToastError (''Failed to complete '' @ agentKey agentId @
                           '' analysis. Please try again.''))
                    (s2\<lparr>gIsSequenceRunning := False, gIsAnalyzing := False\<rparr>),
                  outs)))"

text \<open>
  The handlers of the page: \<open>handleContentChange\<close> of line 84 (\<open>gHandleContentChange\<close>),
  \<open>handleAnalyze\<close> (lines 260 to 288), where \<open>first\<close> is \<open>AGENT_SEQUENCE[0]\<close> and
  \<open>runAnalysisRef.current\<close> has been set by the effect of line 137, and
  \<open>handleStopAnalysis\<close> (lines 290 to 294). The Analyze button is enabled when there is a
  transcript and the page is not analyzing (line 343); the Stop Analysis button is shown
  while it is (line 336).
\<close>

definition gHandleContentChange :: "string \<Rightarrow> gstate \<Rightarrow> gstate" where
  "gHandleContentChange content s = s\<lparr>gTranscript := content\<rparr>"

definition analyzeEnabledG :: "gstate \<Rightarrow> bool" where
  "analyzeEnabledG s \<longleftrightarrow> gTranscript s \<noteq> [] \<and> \<not> gIsAnalyzing s"

definition handleAnalyze ::
  "genv \<Rightarrow> gagent \<Rightarrow> call list \<Rightarrow> gstate \<Rightarrow> gstate \<times> call list" where
  "handleAnalyze g first outs s =
     (if gTranscript s = [] then
        (gEmit (GToastError ''Please provide a transcript to analyze.'') s, outs)
      else
        (case checkApiKey g s of
           (False, s1) \<Rightarrow> (s1, outs)
         | (True, s1) \<Rightarrow>
             runAnalysisRef g first (gTranscript s) outs
               ((resetAnalysisState s1)\<lparr>gIsAnalyzing := True, gIsSequenceRunning := True\<rparr>)))"

definition handleStopAnalysis :: "gstate \<Rightarrow> gstate" where
  "handleStopAnalysis s = gEmit (GToastInfo ''Analysis has been stopped.'') (resetAnalysisState s)"

text \<open>
  The progression effect (lines 53 to 77): the agent it starts next, if any, once its
  timer has fired.
\<close>

definition nthOpt :: "'a list \<Rightarrow> nat \<Rightarrow> 'a option" where
  "nthOpt xs i = (if i < length xs then Some (xs ! i) else None)"

definition progressionEffect :: "genv \<Rightarrow> gstate \<Rightarrow> gagent option \<times> gstate" where
  "progressionEffect g s =
     (if \<not> gIsSequenceRunning s then (None, s)
      else
        (case nthOpt (agentSequenceG g) (gCurrentAnalysisIndex s) of
           None \<Rightarrow> (None, s\<lparr>gIsSequenceRunning := False\<rparr>)
         | Some current \<Rightarrow>
             (let nextIndex = gCurrentAnalysisIndex s + 1 in
              case nthOpt (agentSequenceG g) nextIndex of
                None \<Rightarrow> (None, s)
              | Some nextAgent \<Rightarrow>
                  if progress (agentStates s current) = 100
                  then (Some nextAgent, s\<lparr>gCurrentAnalysisIndex := nextIndex\<rparr>)
                  else (None, s))))"

definition analysisCalls :: "gevent list \<Rightarrow> (gagent \<times> string) list" where
  "analysisCalls evs =
     concat (map (\<lambda>ev. case ev of AnalysisCalled a content \<Rightarrow> [(a, content)] | _ \<Rightarrow> []) evs)"

definition initialGState :: gstate where
  "initialGState =
     \<lparr>gTranscript = [], analysisResult = None, gIsAnalyzing = False, gShowResult = False,
      gCurrentAnalysisIndex = 0, gIsSequenceRunning = False,
      agentStates = (\<lambda>a. initialAgentState),
      refTranscript = [], refAgentStates = (\<lambda>a. initialAgentState),
      refIsSequenceRunning = False, refCurrentAnalysisIndex = 0,
      sessionStorage = Map.empty, gEvents = []\<rparr>"

section \<open>Observations, the spec's nextRunnable, and example inputs\<close>

text \<open>The agents that \<open>processWithAgent\<close> was called for, in the order of the calls.\<close>

fun invoked :: "event list \<Rightarrow> agentId list" where
  "invoked [] = []"
| "invoked (ProcessWithAgentCalled a # es) = a # invoked es"
| "invoked (ev # es) = invoked es"

text \<open>
  \<open>nextRunnable\<close> in the spec's words: scan the registry in declared order and return the
  first agent whose run is not a success and whose prerequisites are all a success, where
  a success is a stored result.
\<close>

definition nextRunnable :: "obj \<Rightarrow> agentId option" where
  "nextRunnable res =
     map_option agentIdOf
       (find (\<lambda>info. \<not> truthyAt res (agentIdOf info) \<and>
                     list_all (truthyAt res) (prerequisiteIds (agentIdOf info))) agents)"

text \<open>
  Example inputs: an environment in which the chunking call fails, and a page loaded over
  a local storage that holds a transcript, an API key, the given results and the
  sequence flag.
\<close>

definition exampleEnv :: env where
  "exampleEnv =
     \<lparr>now = ''2025-03-11T09:00:00.000Z'', openaiInitError = None, confirmReset = True,
      chunkingOutcome = ChunkRejected ''Network error'', chunkingProgress = [],
      demandSystemPrompt = ''You are a Demand Analyst.''\<rparr>"

definition exampleStorage :: "obj \<Rightarrow> bool \<Rightarrow> (string \<rightharpoonup> json)" where
  "exampleStorage res running =
     [''opportunityTranscript'' \<mapsto> JStr ''hello'',
      ''llmApiKey'' \<mapsto> JStr ''sk-test'',
      ''opportunityResults'' \<mapsto> JObj res,
      ''opportunityIsSequenceRunning'' \<mapsto> JBool running]"

definition exampleSession :: "obj \<Rightarrow> bool \<Rightarrow> session" where
  "exampleSession res running = mount (exampleStorage res running)"

definition resultsFor :: "agentId list \<Rightarrow> obj" where
  "resultsFor as = map (\<lambda>a. (a, JObj [(''completed'', JBool True)])) as"

text \<open>The keys that \<open>checkApiKey\<close> accepts.\<close>

definition keyAccepted :: "genv \<Rightarrow> bool" where
  "keyAccepted g =
     (case storedApiKey g of
        None \<Rightarrow> False
      | Some k \<Rightarrow> k \<noteq> [] \<and> startsWith k ''sk-'' \<and> length k \<ge> 40)"

text \<open>
  The state of GradeTranscripts while a call for an agent is awaited (the retry count is
  incremented and the call is made), and a call that fails with an error that does not
  mention the API key and is handled after the component has rendered.
\<close>

definition awaiting :: "gagent \<Rightarrow> string \<Rightarrow> gstate \<Rightarrow> gstate" where
  "awaiting a content s =
     gEmit (AnalysisCalled a content)
       (s\<lparr>agentStates := (agentStates s)
             (a := (agentStates s a)
                \<lparr>isAnalyzing := True, progress := 0,
                 retryCount := retryCount (agentStates s a) + 1\<rparr>)\<rparr>)"

definition failsAfterRender :: "call \<Rightarrow> bool" where
  "failsAfterRender c \<longleftrightarrow>
     handledAfterRender c \<and>
     (case outcome c of Rejected message \<Rightarrow> \<not> includesStr message ''API key''
      | Resolved res \<Rightarrow> False)"

definition failure :: "string \<Rightarrow> bool \<Rightarrow> bool \<Rightarrow> call" where
  "failure message handled retried =
     \<lparr>outcome = Rejected message, handledAfterRender = handled, retriedAfterRender = retried\<rparr>"

text \<open>
  The page of GradeTranscripts after a transcript has been entered and the component has
  rendered.
\<close>

definition examplePageG :: gstate where
  "examplePageG = syncStateRef (gHandleContentChange ''hello'' initialGState)"

text \<open>An example configuration of GradeTranscripts: three attempts, the five agents in order.\<close>

definition exampleG :: genv where
  "exampleG =
     \<lparr>maxRetries = 3,
      agentSequenceG = [Jtbd, Curse, ProblemFit, Priming, Recommendations],
      storedApiKey = Some ''sk-0123456789abcdefghijklmnopqrstuvwxyz0123456789''\<rparr>"

text \<open>
  Invariants of the page. \<open>keeps P f\<close> says that the step \<open>f\<close> preserves \<open>P\<close>.
  \<open>statementsKeep P\<close> says that \<open>P\<close> is preserved by every state-changing statement that
  \<open>startAnalysisSequence\<close>, \<open>stopAnalysisSequence\<close>, \<open>handleContentChange\<close> and
  \<open>handleViewResult\<close> are made of; \<open>pageKeeps P\<close> says that \<open>P\<close> holds now and is
  preserved by every step that the calls in progress have left.
\<close>

definition keeps :: "(session \<Rightarrow> bool) \<Rightarrow> step \<Rightarrow> bool" where
  "keeps P f \<longleftrightarrow> (\<forall>s. P s \<longrightarrow> P (f s))"

definition statementsKeep :: "(session \<Rightarrow> bool) \<Rightarrow> bool" where
  "statementsKeep P \<longleftrightarrow>
     (\<forall>v. keeps P (setTranscript v)) \<and>
     (\<forall>v. keeps P (setHasAnalyzed v)) \<and>
     (\<forall>f. keeps P (setLocalAnalysisResults f)) \<and>
     (\<forall>f. keeps P (setAgentProgress f)) \<and>
     (\<forall>v. keeps P (setShowResult v)) \<and>
     (\<forall>v. keeps P (setUserHasSelectedView v)) \<and>
     (\<forall>v. keeps P (setCurrentAgent v)) \<and>
     (\<forall>v. keeps P (setIsOptimizingTranscript v)) \<and>
     (\<forall>v. keeps P (setOptimizationProgress v)) \<and>
     (\<forall>f. keeps P (setFinishedAgentsArray f)) \<and>
     (\<forall>f. keeps P (setFinishedAgents f)) \<and>
     (\<forall>v. keeps P (setIsSequenceRunning v)) \<and>
     (\<forall>v. keeps P (setCurrentRunningAgent v)) \<and>
     (\<forall>ev. keeps P (emit ev)) \<and>
     (\<forall>a v. keeps P (setItem (resultKey a) v)) \<and>
     keeps P (setAnalyzingAgents (\<lambda>prev. [])) \<and>
     (\<forall>a. keeps P (setAnalyzingAgents (\<lambda>prev. [a]))) \<and>
     (\<forall>a. keeps P (setAnalyzingAgents (\<lambda>prev. setDelete prev a)))"

text \<open>
  At most one agent in \<open>analyzingAgents\<close>, and at most one in the copy that the sync effect
  of lines 280 to 302 keeps in local storage (the state after a reload is read from it).
\<close>

definition singleFlight :: "session \<Rightarrow> bool" where
  "singleFlight s \<longleftrightarrow>
     length (analyzingAgents s) \<le> 1 \<and>
     length (storedIds (localStorage s) ''opportunityAnalyzingAgents'') \<le> 1"

text \<open>
  The results and the progress records that a reload would read from local storage are the
  ones of the state.
\<close>

definition mirrored :: "session \<Rightarrow> bool" where
  "mirrored s \<longleftrightarrow>
     localAnalysisResults (mount (localStorage s)) = localAnalysisResults s \<and>
     agentProgress (mount (localStorage s)) = agentProgress s"

definition pageKeeps :: "(session \<Rightarrow> bool) \<Rightarrow> page \<Rightarrow> bool" where
  "pageKeeps P p \<longleftrightarrow> P (fst p) \<and> list_all (list_all (keeps P)) (snd p)"

text \<open>
  The message of the error that the inner \<open>try\<close> of lines 1031 to 1071 throws, if it
  throws: the one of line 1037 for a transcript of white space only, or the one that
  \<open>processWithLongContextChunking\<close> rejects with. \<open>afterChunking\<close> is what
  \<open>startAnalysisSequence\<close> has left to run once the steps of \<open>chunkingSteps\<close> are done:
  the rest of the first iteration of the loop, the iterations of the four visible agents
  and the code after the loop.
\<close>

definition chunkingError :: "closure \<Rightarrow> env \<Rightarrow> string option" where
  "chunkingError c e =
     (if trimIsEmpty (cTranscript c) then Some ''No transcript content to analyze''
      else (case chunkingOutcome e of ChunkRejected message \<Rightarrow> Some message
            | ChunkResolved r \<Rightarrow> None))"

definition afterChunking :: "closure \<Rightarrow> env \<Rightarrow> step list" where
  "afterChunking c e =
     visualSteps c e ''longContextChunking'' (\<lambda>x. x) @
     sequenceLoop c e (setAnalyzingAgents (\<lambda>prev. setDelete prev ''longContextChunking''))
       [''needsAnalysis'', ''demandAnalyst'', ''opportunityQualification'', ''finalReport'']"

text \<open>
  What the page offers its user (lines 1543 to 1622, and the cards of
  \<open>OpportunityAgentSelection\<close> and \<open>AgentCard\<close>). The right-hand panel shows the results
  when \<open>resultsShown\<close> holds (line 1594) and the upload form with the Analyze Transcript
  button otherwise; the button is disabled without a transcript and while an agent is
  analyzing (line 1612). The upload component is not among the sources: a new transcript
  counts as available only when the form is shown and no agent is analyzing (it is passed
  \<open>isLoading\<close> otherwise). A card of one of the four visible agents shows View Results
  when \<open>isDone\<close> holds for it or, in the later of the two versions of the component,
  when the agent is a key of the results. Reset Evaluation is always shown (line 1550). Nothing
  calls \<open>stopAnalysisSequence\<close>, \<open>handleReset\<close> or \<open>handleRunSingleAgent\<close> (the cards
  do not use \<open>onRunAgent\<close>). The steps of a sequence in progress, the effects and a
  reload of the browser need no control. \<open>allowed\<close> says that every action of a schedule
  is available when its turn comes.
\<close>

definition resultsShown :: "session \<Rightarrow> bool" where
  "resultsShown s \<longleftrightarrow>
     (case showResult s of
        None \<Rightarrow> False
      | Some a \<Rightarrow> a \<noteq> [] \<and> a \<noteq> ''longContextChunking'')
     \<or> (hasAnalyzed s \<and> truthyAt (localAnalysisResults s) ''needsAnalysis'')"

fun available :: "page \<Rightarrow> action \<Rightarrow> bool" where
  "available (s, ts) (ClickAnalyze e) =
     (\<not> resultsShown s \<and> transcript s \<noteq> [] \<and> analyzingAgents s = [])"
| "available (s, ts) (TaskStep i) = (i < length ts \<and> ts ! i \<noteq> [])"
| "available (s, ts) Stop = False"
| "available (s, ts) (ChangeContent content) = (\<not> resultsShown s \<and> analyzingAgents s = [])"
| "available (s, ts) (ViewResult agentId) =
     (agentId \<in> set visibleAgentSequence \<and>
      (isDone s agentId \<or> hasKey (localAnalysisResults s) agentId))"
| "available (s, ts) ClearData = True"
| "available (s, ts) SyncEffects = True"
| "available (s, ts) Reload = True"

fun allowed :: "action list \<Rightarrow> page \<Rightarrow> bool" where
  "allowed [] p = True"
| "allowed (a # acts) p = (available p a \<and> allowed acts (act p a))"

text \<open>The page with a transcript and no API key in local storage.\<close>

definition noKeySession :: session where
  "noKeySession = mount [''opportunityTranscript'' \<mapsto> JStr ''hello'']"

text \<open>
  Two states with the same transcript, analyzing agents, results, progress records,
  finished agents, running agent, displayed result and optimization state; they may
  differ in the flag \<open>isSequenceRunning\<close>, in the events and in local storage. A step
  \<open>ignoresFlag\<close> when it takes two such states to two such states.
\<close>

definition sameRuns :: "session \<Rightarrow> session \<Rightarrow> bool" where
  "sameRuns s t \<longleftrightarrow>
     transcript s = transcript t \<and>
     analyzingAgents s = analyzingAgents t \<and>
     localAnalysisResults s = localAnalysisResults t \<and>
     agentProgress s = agentProgress t \<and>
     finishedAgents s = finishedAgents t \<and>
     finishedAgentsArray s = finishedAgentsArray t \<and>
     currentRunningAgent s = currentRunningAgent t \<and>
     showResult s = showResult t \<and>
     hasAnalyzed s = hasAnalyzed t \<and>
     isOptimizingTranscript s = isOptimizingTranscript t \<and>
     optimizationProgress s = optimizationProgress t"

definition ignoresFlag :: "step \<Rightarrow> bool" where
  "ignoresFlag f \<longleftrightarrow> (\<forall>s t. sameRuns s t \<longrightarrow> sameRuns (f s) (f t))"

section \<open>Properties\<close>

subsection \<open>Setters and blocks\<close>

lemmas setters =
  setTranscript_def setAnalyzingAgentsArray_def setAnalyzingAgents_def setHasAnalyzed_def
  setLocalAnalysisResults_def setAgentProgress_def setShowResult_def
  setUserHasSelectedView_def setCurrentAgent_def setLastViewedResult_def
  setIsOptimizingTranscript_def setOptimizationProgress_def setFinishedAgentsArray_def
  setFinishedAgents_def setIsSequenceRunning_def setLongContextResults_def
  setJtbdAnalysis_def setGainAnalysis_def setCurrentRunningAgent_def
  setPreviousTranscriptRef_def removeItem_def setItem_def emit_def setTimeout_def

lemmas derived = updateAgentProgress_def setProgressOf_def cleanupAgentState_def

lemma seq_Nil [simp]: "seq [] s = s"
  by (simp add: seq_def)

lemma seq_Cons [simp]: "seq (f # fs) s = seq fs (f s)"
  by (simp add: seq_def)

lemma seq_append: "seq (fs @ gs) s = seq gs (seq fs s)"
  by (simp add: seq_def)

lemma events_frame [simp]:
  "events (setTranscript v1 s) = events s"
  "events (setAnalyzingAgentsArray v2 s) = events s"
  "events (setAnalyzingAgents f3 s) = events s"
  "events (setHasAnalyzed v4 s) = events s"
  "events (setLocalAnalysisResults f5 s) = events s"
  "events (setAgentProgress f6 s) = events s"
  "events (setShowResult v7 s) = events s"
  "events (setUserHasSelectedView v8 s) = events s"
  "events (setCurrentAgent v9 s) = events s"
  "events (setLastViewedResult v10 s) = events s"
  "events (setIsOptimizingTranscript v11 s) = events s"
  "events (setOptimizationProgress v12 s) = events s"
  "events (setFinishedAgentsArray f13 s) = events s"
  "events (setFinishedAgents f14 s) = events s"
  "events (setIsSequenceRunning v15 s) = events s"
  "events (setLongContextResults v16 s) = events s"
  "events (setJtbdAnalysis v17 s) = events s"
  "events (setGainAnalysis v18 s) = events s"
  "events (setCurrentRunningAgent v19 s) = events s"
  "events (setPreviousTranscriptRef v20 s) = events s"
  "events (removeItem k s) = events s"
  "events (setItem k2 w s) = events s"
  "events (setTimeout t s) = events s"
  "events (emit ev s) = events s @ [ev]"
  by (simp_all add: setters)

lemma isSequenceRunning_frame [simp]:
  "isSequenceRunning (setTranscript v1 s) = isSequenceRunning s"
  "isSequenceRunning (setAnalyzingAgentsArray v2 s) = isSequenceRunning s"
  "isSequenceRunning (setAnalyzingAgents f3 s) = isSequenceRunning s"
  "isSequenceRunning (setHasAnalyzed v4 s) = isSequenceRunning s"
  "isSequenceRunning (setLocalAnalysisResults f5 s) = isSequenceRunning s"
  "isSequenceRunning (setAgentProgress f6 s) = isSequenceRunning s"
  "isSequenceRunning (setShowResult v7 s) = isSequenceRunning s"
  "isSequenceRunning (setUserHasSelectedView v8 s) = isSequenceRunning s"
  "isSequenceRunning (setCurrentAgent v9 s) = isSequenceRunning s"
  "isSequenceRunning (setLastViewedResult v10 s) = isSequenceRunning s"
  "isSequenceRunning (setIsOptimizingTranscript v11 s) = isSequenceRunning s"
  "isSequenceRunning (setOptimizationProgress v12 s) = isSequenceRunning s"
  "isSequenceRunning (setFinishedAgentsArray f13 s) = isSequenceRunning s"
  "isSequenceRunning (setFinishedAgents f14 s) = isSequenceRunning s"
  "isSequenceRunning (setIsSequenceRunning v15 s) = v15"
  "isSequenceRunning (setLongContextResults v16 s) = isSequenceRunning s"
  "isSequenceRunning (setJtbdAnalysis v17 s) = isSequenceRunning s"
  "isSequenceRunning (setGainAnalysis v18 s) = isSequenceRunning s"
  "isSequenceRunning (setCurrentRunningAgent v19 s) = isSequenceRunning s"
  "isSequenceRunning (setPreviousTranscriptRef v20 s) = isSequenceRunning s"
  "isSequenceRunning (removeItem k s) = isSequenceRunning s"
  "isSequenceRunning (setItem k2 w s) = isSequenceRunning s"
  "isSequenceRunning (setTimeout t s) = isSequenceRunning s"
  "isSequenceRunning (emit ev s) = isSequenceRunning s"
  by (simp_all add: setters)

lemma analyzingAgents_frame [simp]:
  "analyzingAgents (setTranscript v1 s) = analyzingAgents s"
  "analyzingAgents (setAnalyzingAgentsArray v2 s) = analyzingAgents s"
  "analyzingAgents (setAnalyzingAgents f3 s) = f3 (analyzingAgents s)"
  "analyzingAgents (setHasAnalyzed v4 s) = analyzingAgents s"
  "analyzingAgents (setLocalAnalysisResults f5 s) = analyzingAgents s"
  "analyzingAgents (setAgentProgress f6 s) = analyzingAgents s"
  "analyzingAgents (setShowResult v7 s) = analyzingAgents s"
  "analyzingAgents (setUserHasSelectedView v8 s) = analyzingAgents s"
  "analyzingAgents (setCurrentAgent v9 s) = analyzingAgents s"
  "analyzingAgents (setLastViewedResult v10 s) = analyzingAgents s"
  "analyzingAgents (setIsOptimizingTranscript v11 s) = analyzingAgents s"
  "analyzingAgents (setOptimizationProgress v12 s) = analyzingAgents s"
  "analyzingAgents (setFinishedAgentsArray f13 s) = analyzingAgents s"
  "analyzingAgents (setFinishedAgents f14 s) = analyzingAgents s"
  "analyzingAgents (setIsSequenceRunning v15 s) = analyzingAgents s"
  "analyzingAgents (setLongContextResults v16 s) = analyzingAgents s"
  "analyzingAgents (setJtbdAnalysis v17 s) = analyzingAgents s"
  "analyzingAgents (setGainAnalysis v18 s) = analyzingAgents s"
  "analyzingAgents (setCurrentRunningAgent v19 s) = analyzingAgents s"
  "analyzingAgents (setPreviousTranscriptRef v20 s) = analyzingAgents s"
  "analyzingAgents (removeItem k s) = analyzingAgents s"
  "analyzingAgents (setItem k2 w s) = analyzingAgents s"
  "analyzingAgents (setTimeout t s) = analyzingAgents s"
  "analyzingAgents (emit ev s) = analyzingAgents s"
  by (simp_all add: setters)

lemma localStorage_frame [simp]:
  "localStorage (setTranscript v1 s) = (localStorage s)(''opportunityTranscript'' \<mapsto> JStr v1)"
  "localStorage (setAnalyzingAgentsArray v2 s) = (localStorage s)(''opportunityAnalyzingAgents'' \<mapsto> JArr (map JStr v2))"
  "localStorage (setAnalyzingAgents f3 s) = localStorage s"
  "localStorage (setHasAnalyzed v4 s) = (localStorage s)(''opportunityHasAnalyzed'' \<mapsto> JBool v4)"
  "localStorage (setLocalAnalysisResults f5 s) = (localStorage s)(''opportunityResults'' \<mapsto> JObj (f5 (localAnalysisResults s)))"
  "localStorage (setAgentProgress f6 s) = (localStorage s)(''opportunityAgentProgress'' \<mapsto> JObj (f6 (agentProgress s)))"
  "localStorage (setShowResult v7 s) = (localStorage s)(''opportunityShowResult'' \<mapsto> optId v7)"
  "localStorage (setUserHasSelectedView v8 s) = (localStorage s)(''opportunityUserSelectedView'' \<mapsto> JBool v8)"
  "localStorage (setCurrentAgent v9 s) = localStorage s"
  "localStorage (setLastViewedResult v10 s) = (localStorage s)(''lastViewedOpportunityResult'' \<mapsto> optId v10)"
  "localStorage (setIsOptimizingTranscript v11 s) = (localStorage s)(''opportunityIsOptimizing'' \<mapsto> JBool v11)"
  "localStorage (setOptimizationProgress v12 s) = (localStorage s)(''opportunityOptimizationProgress'' \<mapsto> JNum v12)"
  "localStorage (setFinishedAgentsArray f13 s) = (localStorage s)(''opportunityFinishedAgents'' \<mapsto> JArr (map JStr (f13 (finishedAgentsArray s))))"
  "localStorage (setFinishedAgents f14 s) = localStorage s"
  "localStorage (setIsSequenceRunning v15 s) = (localStorage s)(''opportunityIsSequenceRunning'' \<mapsto> JBool v15)"
  "localStorage (setLongContextResults v16 s) = (localStorage s)(''opportunityLongContextResults'' \<mapsto> v16)"
  "localStorage (setJtbdAnalysis v17 s) = (localStorage s)(''opportunityJtbdAnalysis'' \<mapsto> v17)"
  "localStorage (setGainAnalysis v18 s) = (localStorage s)(''opportunityGainAnalysis'' \<mapsto> v18)"
  "localStorage (setCurrentRunningAgent v19 s) = (localStorage s)(''opportunityCurrentAgent'' \<mapsto> optId v19)"
  "localStorage (setPreviousTranscriptRef v20 s) = localStorage s"
  "localStorage (removeItem k s) = (localStorage s)(k := None)"
  "localStorage (setItem k2 w s) = (localStorage s)(k2 \<mapsto> w)"
  "localStorage (setTimeout t s) = localStorage s"
  "localStorage (emit ev s) = localStorage s"
  by (simp_all add: setters)

lemma localAnalysisResults_frame [simp]:
  "localAnalysisResults (setTranscript v1 s) = localAnalysisResults s"
  "localAnalysisResults (setAnalyzingAgentsArray v2 s) = localAnalysisResults s"
  "localAnalysisResults (setAnalyzingAgents f3 s) = localAnalysisResults s"
  "localAnalysisResults (setHasAnalyzed v4 s) = localAnalysisResults s"
  "localAnalysisResults (setLocalAnalysisResults f5 s) = f5 (localAnalysisResults s)"
  "localAnalysisResults (setAgentProgress f6 s) = localAnalysisResults s"
  "localAnalysisResults (setShowResult v7 s) = localAnalysisResults s"
  "localAnalysisResults (setUserHasSelectedView v8 s) = localAnalysisResults s"
  "localAnalysisResults (setCurrentAgent v9 s) = localAnalysisResults s"
  "localAnalysisResults (setLastViewedResult v10 s) = localAnalysisResults s"
  "localAnalysisResults (setIsOptimizingTranscript v11 s) = localAnalysisResults s"
  "localAnalysisResults (setOptimizationProgress v12 s) = localAnalysisResults s"
  "localAnalysisResults (setFinishedAgentsArray f13 s) = localAnalysisResults s"
  "localAnalysisResults (setFinishedAgents f14 s) = localAnalysisResults s"
  "localAnalysisResults (setIsSequenceRunning v15 s) = localAnalysisResults s"
  "localAnalysisResults (setLongContextResults v16 s) = localAnalysisResults s"
  "localAnalysisResults (setJtbdAnalysis v17 s) = localAnalysisResults s"
  "localAnalysisResults (setGainAnalysis v18 s) = localAnalysisResults s"
  "localAnalysisResults (setCurrentRunningAgent v19 s) = localAnalysisResults s"
  "localAnalysisResults (setPreviousTranscriptRef v20 s) = localAnalysisResults s"
  "localAnalysisResults (removeItem k s) = localAnalysisResults s"
  "localAnalysisResults (setItem k2 w s) = localAnalysisResults s"
  "localAnalysisResults (setTimeout t s) = localAnalysisResults s"
  "localAnalysisResults (emit ev s) = localAnalysisResults s"
  by (simp_all add: setters)

lemma agentProgress_frame [simp]:
  "agentProgress (setTranscript v1 s) = agentProgress s"
  "agentProgress (setAnalyzingAgentsArray v2 s) = agentProgress s"
  "agentProgress (setAnalyzingAgents f3 s) = agentProgress s"
  "agentProgress (setHasAnalyzed v4 s) = agentProgress s"
  "agentProgress (setLocalAnalysisResults f5 s) = agentProgress s"
  "agentProgress (setAgentProgress f6 s) = f6 (agentProgress s)"
  "agentProgress (setShowResult v7 s) = agentProgress s"
  "agentProgress (setUserHasSelectedView v8 s) = agentProgress s"
  "agentProgress (setCurrentAgent v9 s) = agentProgress s"
  "agentProgress (setLastViewedResult v10 s) = agentProgress s"
  "agentProgress (setIsOptimizingTranscript v11 s) = agentProgress s"
  "agentProgress (setOptimizationProgress v12 s) = agentProgress s"
  "agentProgress (setFinishedAgentsArray f13 s) = agentProgress s"
  "agentProgress (setFinishedAgents f14 s) = agentProgress s"
  "agentProgress (setIsSequenceRunning v15 s) = agentProgress s"
  "agentProgress (setLongContextResults v16 s) = agentProgress s"
  "agentProgress (setJtbdAnalysis v17 s) = agentProgress s"
  "agentProgress (setGainAnalysis v18 s) = agentProgress s"
  "agentProgress (setCurrentRunningAgent v19 s) = agentProgress s"
  "agentProgress (setPreviousTranscriptRef v20 s) = agentProgress s"
  "agentProgress (removeItem k s) = agentProgress s"
  "agentProgress (setItem k2 w s) = agentProgress s"
  "agentProgress (setTimeout t s) = agentProgress s"
  "agentProgress (emit ev s) = agentProgress s"
  by (simp_all add: setters)

lemma finishedAgents_frame [simp]:
  "finishedAgents (setTranscript v1 s) = finishedAgents s"
  "finishedAgents (setAnalyzingAgentsArray v2 s) = finishedAgents s"
  "finishedAgents (setAnalyzingAgents f3 s) = finishedAgents s"
  "finishedAgents (setHasAnalyzed v4 s) = finishedAgents s"
  "finishedAgents (setLocalAnalysisResults f5 s) = finishedAgents s"
  "finishedAgents (setAgentProgress f6 s) = finishedAgents s"
  "finishedAgents (setShowResult v7 s) = finishedAgents s"
  "finishedAgents (setUserHasSelectedView v8 s) = finishedAgents s"
  "finishedAgents (setCurrentAgent v9 s) = finishedAgents s"
  "finishedAgents (setLastViewedResult v10 s) = finishedAgents s"
  "finishedAgents (setIsOptimizingTranscript v11 s) = finishedAgents s"
  "finishedAgents (setOptimizationProgress v12 s) = finishedAgents s"
  "finishedAgents (setFinishedAgentsArray f13 s) = finishedAgents s"
  "finishedAgents (setFinishedAgents f14 s) = f14 (finishedAgents s)"
  "finishedAgents (setIsSequenceRunning v15 s) = finishedAgents s"
  "finishedAgents (setLongContextResults v16 s) = finishedAgents s"
  "finishedAgents (setJtbdAnalysis v17 s) = finishedAgents s"
  "finishedAgents (setGainAnalysis v18 s) = finishedAgents s"
  "finishedAgents (setCurrentRunningAgent v19 s) = finishedAgents s"
  "finishedAgents (setPreviousTranscriptRef v20 s) = finishedAgents s"
  "finishedAgents (removeItem k s) = finishedAgents s"
  "finishedAgents (setItem k2 w s) = finishedAgents s"
  "finishedAgents (setTimeout t s) = finishedAgents s"
  "finishedAgents (emit ev s) = finishedAgents s"
  by (simp_all add: setters)

lemma optimizationProgress_frame [simp]:
  "optimizationProgress (setTranscript v1 s) = optimizationProgress s"
  "optimizationProgress (setAnalyzingAgentsArray v2 s) = optimizationProgress s"
  "optimizationProgress (setAnalyzingAgents f3 s) = optimizationProgress s"
  "optimizationProgress (setHasAnalyzed v4 s) = optimizationProgress s"
  "optimizationProgress (setLocalAnalysisResults f5 s) = optimizationProgress s"
  "optimizationProgress (setAgentProgress f6 s) = optimizationProgress s"
  "optimizationProgress (setShowResult v7 s) = optimizationProgress s"
  "optimizationProgress (setUserHasSelectedView v8 s) = optimizationProgress s"
  "optimizationProgress (setCurrentAgent v9 s) = optimizationProgress s"
  "optimizationProgress (setLastViewedResult v10 s) = optimizationProgress s"
  "optimizationProgress (setIsOptimizingTranscript v11 s) = optimizationProgress s"
  "optimizationProgress (setOptimizationProgress v12 s) = v12"
  "optimizationProgress (setFinishedAgentsArray f13 s) = optimizationProgress s"
  "optimizationProgress (setFinishedAgents f14 s) = optimizationProgress s"
  "optimizationProgress (setIsSequenceRunning v15 s) = optimizationProgress s"
  "optimizationProgress (setLongContextResults v16 s) = optimizationProgress s"
  "optimizationProgress (setJtbdAnalysis v17 s) = optimizationProgress s"
  "optimizationProgress (setGainAnalysis v18 s) = optimizationProgress s"
  "optimizationProgress (setCurrentRunningAgent v19 s) = optimizationProgress s"
  "optimizationProgress (setPreviousTranscriptRef v20 s) = optimizationProgress s"
  "optimizationProgress (removeItem k s) = optimizationProgress s"
  "optimizationProgress (setItem k2 w s) = optimizationProgress s"
  "optimizationProgress (setTimeout t s) = optimizationProgress s"
  "optimizationProgress (emit ev s) = optimizationProgress s"
  by (simp_all add: setters)

lemma timers_frame [simp]:
  "timers (setTranscript v1 s) = timers s"
  "timers (setAnalyzingAgentsArray v2 s) = timers s"
  "timers (setAnalyzingAgents f3 s) = timers s"
  "timers (setHasAnalyzed v4 s) = timers s"
  "timers (setLocalAnalysisResults f5 s) = timers s"
  "timers (setAgentProgress f6 s) = timers s"
  "timers (setShowResult v7 s) = timers s"
  "timers (setUserHasSelectedView v8 s) = timers s"
  "timers (setCurrentAgent v9 s) = timers s"
  "timers (setLastViewedResult v10 s) = timers s"
  "timers (setIsOptimizingTranscript v11 s) = timers s"
  "timers (setOptimizationProgress v12 s) = timers s"
  "timers (setFinishedAgentsArray f13 s) = timers s"
  "timers (setFinishedAgents f14 s) = timers s"
  "timers (setIsSequenceRunning v15 s) = timers s"
  "timers (setLongContextResults v16 s) = timers s"
  "timers (setJtbdAnalysis v17 s) = timers s"
  "timers (setGainAnalysis v18 s) = timers s"
  "timers (setCurrentRunningAgent v19 s) = timers s"
  "timers (setPreviousTranscriptRef v20 s) = timers s"
  "timers (removeItem k s) = timers s"
  "timers (setItem k2 w s) = timers s"
  "timers (setTimeout t s) = timers s @ [t]"
  "timers (emit ev s) = timers s"
  by (simp_all add: setters)

lemma currentRunningAgent_frame [simp]:
  "currentRunningAgent (setTranscript v1 s) = currentRunningAgent s"
  "currentRunningAgent (setAnalyzingAgentsArray v2 s) = currentRunningAgent s"
  "currentRunningAgent (setAnalyzingAgents f3 s) = currentRunningAgent s"
  "currentRunningAgent (setHasAnalyzed v4 s) = currentRunningAgent s"
  "currentRunningAgent (setLocalAnalysisResults f5 s) = currentRunningAgent s"
  "currentRunningAgent (setAgentProgress f6 s) = currentRunningAgent s"
  "currentRunningAgent (setShowResult v7 s) = currentRunningAgent s"
  "currentRunningAgent (setUserHasSelectedView v8 s) = currentRunningAgent s"
  "currentRunningAgent (setCurrentAgent v9 s) = currentRunningAgent s"
  "currentRunningAgent (setLastViewedResult v10 s) = currentRunningAgent s"
  "currentRunningAgent (setIsOptimizingTranscript v11 s) = currentRunningAgent s"
  "currentRunningAgent (setOptimizationProgress v12 s) = currentRunningAgent s"
  "currentRunningAgent (setFinishedAgentsArray f13 s) = currentRunningAgent s"
  "currentRunningAgent (setFinishedAgents f14 s) = currentRunningAgent s"
  "currentRunningAgent (setIsSequenceRunning v15 s) = currentRunningAgent s"
  "currentRunningAgent (setLongContextResults v16 s) = currentRunningAgent s"
  "currentRunningAgent (setJtbdAnalysis v17 s) = currentRunningAgent s"
  "currentRunningAgent (setGainAnalysis v18 s) = currentRunningAgent s"
  "currentRunningAgent (setCurrentRunningAgent v19 s) = v19"
  "currentRunningAgent (setPreviousTranscriptRef v20 s) = currentRunningAgent s"
  "currentRunningAgent (removeItem k s) = currentRunningAgent s"
  "currentRunningAgent (setItem k2 w s) = currentRunningAgent s"
  "currentRunningAgent (setTimeout t s) = currentRunningAgent s"
  "currentRunningAgent (emit ev s) = currentRunningAgent s"
  by (simp_all add: setters)

lemma showResult_frame [simp]:
  "showResult (setTranscript v1 s) = showResult s"
  "showResult (setAnalyzingAgentsArray v2 s) = showResult s"
  "showResult (setAnalyzingAgents f3 s) = showResult s"
  "showResult (setHasAnalyzed v4 s) = showResult s"
  "showResult (setLocalAnalysisResults f5 s) = showResult s"
  "showResult (setAgentProgress f6 s) = showResult s"
  "showResult (setShowResult v7 s) = v7"
  "showResult (setUserHasSelectedView v8 s) = showResult s"
  "showResult (setCurrentAgent v9 s) = showResult s"
  "showResult (setLastViewedResult v10 s) = showResult s"
  "showResult (setIsOptimizingTranscript v11 s) = showResult s"
  "showResult (setOptimizationProgress v12 s) = showResult s"
  "showResult (setFinishedAgentsArray f13 s) = showResult s"
  "showResult (setFinishedAgents f14 s) = showResult s"
  "showResult (setIsSequenceRunning v15 s) = showResult s"
  "showResult (setLongContextResults v16 s) = showResult s"
  "showResult (setJtbdAnalysis v17 s) = showResult s"
  "showResult (setGainAnalysis v18 s) = showResult s"
  "showResult (setCurrentRunningAgent v19 s) = showResult s"
  "showResult (setPreviousTranscriptRef v20 s) = showResult s"
  "showResult (removeItem k s) = showResult s"
  "showResult (setItem k2 w s) = showResult s"
  "showResult (setTimeout t s) = showResult s"
  "showResult (emit ev s) = showResult s"
  by (simp_all add: setters)

lemma hasAnalyzed_frame [simp]:
  "hasAnalyzed (setTranscript v1 s) = hasAnalyzed s"
  "hasAnalyzed (setAnalyzingAgentsArray v2 s) = hasAnalyzed s"
  "hasAnalyzed (setAnalyzingAgents f3 s) = hasAnalyzed s"
  "hasAnalyzed (setHasAnalyzed v4 s) = v4"
  "hasAnalyzed (setLocalAnalysisResults f5 s) = hasAnalyzed s"
  "hasAnalyzed (setAgentProgress f6 s) = hasAnalyzed s"
  "hasAnalyzed (setShowResult v7 s) = hasAnalyzed s"
  "hasAnalyzed (setUserHasSelectedView v8 s) = hasAnalyzed s"
  "hasAnalyzed (setCurrentAgent v9 s) = hasAnalyzed s"
  "hasAnalyzed (setLastViewedResult v10 s) = hasAnalyzed s"
  "hasAnalyzed (setIsOptimizingTranscript v11 s) = hasAnalyzed s"
  "hasAnalyzed (setOptimizationProgress v12 s) = hasAnalyzed s"
  "hasAnalyzed (setFinishedAgentsArray f13 s) = hasAnalyzed s"
  "hasAnalyzed (setFinishedAgents f14 s) = hasAnalyzed s"
  "hasAnalyzed (setIsSequenceRunning v15 s) = hasAnalyzed s"
  "hasAnalyzed (setLongContextResults v16 s) = hasAnalyzed s"
  "hasAnalyzed (setJtbdAnalysis v17 s) = hasAnalyzed s"
  "hasAnalyzed (setGainAnalysis v18 s) = hasAnalyzed s"
  "hasAnalyzed (setCurrentRunningAgent v19 s) = hasAnalyzed s"
  "hasAnalyzed (setPreviousTranscriptRef v20 s) = hasAnalyzed s"
  "hasAnalyzed (removeItem k s) = hasAnalyzed s"
  "hasAnalyzed (setItem k2 w s) = hasAnalyzed s"
  "hasAnalyzed (setTimeout t s) = hasAnalyzed s"
  "hasAnalyzed (emit ev s) = hasAnalyzed s"
  by (simp_all add: setters)

lemma transcript_frame [simp]:
  "transcript (setTranscript v1 s) = v1"
  "transcript (setAnalyzingAgentsArray v2 s) = transcript s"
  "transcript (setAnalyzingAgents f3 s) = transcript s"
  "transcript (setHasAnalyzed v4 s) = transcript s"
  "transcript (setLocalAnalysisResults f5 s) = transcript s"
  "transcript (setAgentProgress f6 s) = transcript s"
  "transcript (setShowResult v7 s) = transcript s"
  "transcript (setUserHasSelectedView v8 s) = transcript s"
  "transcript (setCurrentAgent v9 s) = transcript s"
  "transcript (setLastViewedResult v10 s) = transcript s"
  "transcript (setIsOptimizingTranscript v11 s) = transcript s"
  "transcript (setOptimizationProgress v12 s) = transcript s"
  "transcript (setFinishedAgentsArray f13 s) = transcript s"
  "transcript (setFinishedAgents f14 s) = transcript s"
  "transcript (setIsSequenceRunning v15 s) = transcript s"
  "transcript (setLongContextResults v16 s) = transcript s"
  "transcript (setJtbdAnalysis v17 s) = transcript s"
  "transcript (setGainAnalysis v18 s) = transcript s"
  "transcript (setCurrentRunningAgent v19 s) = transcript s"
  "transcript (setPreviousTranscriptRef v20 s) = transcript s"
  "transcript (removeItem k s) = transcript s"
  "transcript (setItem k2 w s) = transcript s"
  "transcript (setTimeout t s) = transcript s"
  "transcript (emit ev s) = transcript s"
  by (simp_all add: setters)

lemma finishedAgentsArray_frame [simp]:
  "finishedAgentsArray (setTranscript v1 s) = finishedAgentsArray s"
  "finishedAgentsArray (setAnalyzingAgentsArray v2 s) = finishedAgentsArray s"
  "finishedAgentsArray (setAnalyzingAgents f3 s) = finishedAgentsArray s"
  "finishedAgentsArray (setHasAnalyzed v4 s) = finishedAgentsArray s"
  "finishedAgentsArray (setLocalAnalysisResults f5 s) = finishedAgentsArray s"
  "finishedAgentsArray (setAgentProgress f6 s) = finishedAgentsArray s"
  "finishedAgentsArray (setShowResult v7 s) = finishedAgentsArray s"
  "finishedAgentsArray (setUserHasSelectedView v8 s) = finishedAgentsArray s"
  "finishedAgentsArray (setCurrentAgent v9 s) = finishedAgentsArray s"
  "finishedAgentsArray (setLastViewedResult v10 s) = finishedAgentsArray s"
  "finishedAgentsArray (setIsOptimizingTranscript v11 s) = finishedAgentsArray s"
  "finishedAgentsArray (setOptimizationProgress v12 s) = finishedAgentsArray s"
  "finishedAgentsArray (setFinishedAgentsArray f13 s) = f13 (finishedAgentsArray s)"
  "finishedAgentsArray (setFinishedAgents f14 s) = finishedAgentsArray s"
  "finishedAgentsArray (setIsSequenceRunning v15 s) = finishedAgentsArray s"
  "finishedAgentsArray (setLongContextResults v16 s) = finishedAgentsArray s"
  "finishedAgentsArray (setJtbdAnalysis v17 s) = finishedAgentsArray s"
  "finishedAgentsArray (setGainAnalysis v18 s) = finishedAgentsArray s"
  "finishedAgentsArray (setCurrentRunningAgent v19 s) = finishedAgentsArray s"
  "finishedAgentsArray (setPreviousTranscriptRef v20 s) = finishedAgentsArray s"
  "finishedAgentsArray (removeItem k s) = finishedAgentsArray s"
  "finishedAgentsArray (setItem k2 w s) = finishedAgentsArray s"
  "finishedAgentsArray (setTimeout t s) = finishedAgentsArray s"
  "finishedAgentsArray (emit ev s) = finishedAgentsArray s"
  by (simp_all add: setters)

lemma analyzingAgentsArray_frame [simp]:
  "analyzingAgentsArray (setTranscript v1 s) = analyzingAgentsArray s"
  "analyzingAgentsArray (setAnalyzingAgentsArray v2 s) = v2"
  "analyzingAgentsArray (setAnalyzingAgents f3 s) = analyzingAgentsArray s"
  "analyzingAgentsArray (setHasAnalyzed v4 s) = analyzingAgentsArray s"
  "analyzingAgentsArray (setLocalAnalysisResults f5 s) = analyzingAgentsArray s"
  "analyzingAgentsArray (setAgentProgress f6 s) = analyzingAgentsArray s"
  "analyzingAgentsArray (setShowResult v7 s) = analyzingAgentsArray s"
  "analyzingAgentsArray (setUserHasSelectedView v8 s) = analyzingAgentsArray s"
  "analyzingAgentsArray (setCurrentAgent v9 s) = analyzingAgentsArray s"
  "analyzingAgentsArray (setLastViewedResult v10 s) = analyzingAgentsArray s"
  "analyzingAgentsArray (setIsOptimizingTranscript v11 s) = analyzingAgentsArray s"
  "analyzingAgentsArray (setOptimizationProgress v12 s) = analyzingAgentsArray s"
  "analyzingAgentsArray (setFinishedAgentsArray f13 s) = analyzingAgentsArray s"
  "analyzingAgentsArray (setFinishedAgents f14 s) = analyzingAgentsArray s"
  "analyzingAgentsArray (setIsSequenceRunning v15 s) = analyzingAgentsArray s"
  "analyzingAgentsArray (setLongContextResults v16 s) = analyzingAgentsArray s"
  "analyzingAgentsArray (setJtbdAnalysis v17 s) = analyzingAgentsArray s"
  "analyzingAgentsArray (setGainAnalysis v18 s) = analyzingAgentsArray s"
  "analyzingAgentsArray (setCurrentRunningAgent v19 s) = analyzingAgentsArray s"
  "analyzingAgentsArray (setPreviousTranscriptRef v20 s) = analyzingAgentsArray s"
  "analyzingAgentsArray (removeItem k s) = analyzingAgentsArray s"
  "analyzingAgentsArray (setItem k2 w s) = analyzingAgentsArray s"
  "analyzingAgentsArray (setTimeout t s) = analyzingAgentsArray s"
  "analyzingAgentsArray (emit ev s) = analyzingAgentsArray s"
  by (simp_all add: setters)

lemma userHasSelectedView_frame [simp]:
  "userHasSelectedView (setTranscript v1 s) = userHasSelectedView s"
  "userHasSelectedView (setAnalyzingAgentsArray v2 s) = userHasSelectedView s"
  "userHasSelectedView (setAnalyzingAgents f3 s) = userHasSelectedView s"
  "userHasSelectedView (setHasAnalyzed v4 s) = userHasSelectedView s"
  "userHasSelectedView (setLocalAnalysisResults f5 s) = userHasSelectedView s"
  "userHasSelectedView (setAgentProgress f6 s) = userHasSelectedView s"
  "userHasSelectedView (setShowResult v7 s) = userHasSelectedView s"
  "userHasSelectedView (setUserHasSelectedView v8 s) = v8"
  "userHasSelectedView (setCurrentAgent v9 s) = userHasSelectedView s"
  "userHasSelectedView (setLastViewedResult v10 s) = userHasSelectedView s"
  "userHasSelectedView (setIsOptimizingTranscript v11 s) = userHasSelectedView s"
  "userHasSelectedView (setOptimizationProgress v12 s) = userHasSelectedView s"
  "userHasSelectedView (setFinishedAgentsArray f13 s) = userHasSelectedView s"
  "userHasSelectedView (setFinishedAgents f14 s) = userHasSelectedView s"
  "userHasSelectedView (setIsSequenceRunning v15 s) = userHasSelectedView s"
  "userHasSelectedView (setLongContextResults v16 s) = userHasSelectedView s"
  "userHasSelectedView (setJtbdAnalysis v17 s) = userHasSelectedView s"
  "userHasSelectedView (setGainAnalysis v18 s) = userHasSelectedView s"
  "userHasSelectedView (setCurrentRunningAgent v19 s) = userHasSelectedView s"
  "userHasSelectedView (setPreviousTranscriptRef v20 s) = userHasSelectedView s"
  "userHasSelectedView (removeItem k s) = userHasSelectedView s"
  "userHasSelectedView (setItem k2 w s) = userHasSelectedView s"
  "userHasSelectedView (setTimeout t s) = userHasSelectedView s"
  "userHasSelectedView (emit ev s) = userHasSelectedView s"
  by (simp_all add: setters)

lemma isOptimizingTranscript_frame [simp]:
  "isOptimizingTranscript (setTranscript v1 s) = isOptimizingTranscript s"
  "isOptimizingTranscript (setAnalyzingAgentsArray v2 s) = isOptimizingTranscript s"
  "isOptimizingTranscript (setAnalyzingAgents f3 s) = isOptimizingTranscript s"
  "isOptimizingTranscript (setHasAnalyzed v4 s) = isOptimizingTranscript s"
  "isOptimizingTranscript (setLocalAnalysisResults f5 s) = isOptimizingTranscript s"
  "isOptimizingTranscript (setAgentProgress f6 s) = isOptimizingTranscript s"
  "isOptimizingTranscript (setShowResult v7 s) = isOptimizingTranscript s"
  "isOptimizingTranscript (setUserHasSelectedView v8 s) = isOptimizingTranscript s"
  "isOptimizingTranscript (setCurrentAgent v9 s) = isOptimizingTranscript s"
  "isOptimizingTranscript (setLastViewedResult v10 s) = isOptimizingTranscript s"
  "isOptimizingTranscript (setIsOptimizingTranscript v11 s) = v11"
  "isOptimizingTranscript (setOptimizationProgress v12 s) = isOptimizingTranscript s"
  "isOptimizingTranscript (setFinishedAgentsArray f13 s) = isOptimizingTranscript s"
  "isOptimizingTranscript (setFinishedAgents f14 s) = isOptimizingTranscript s"
  "isOptimizingTranscript (setIsSequenceRunning v15 s) = isOptimizingTranscript s"
  "isOptimizingTranscript (setLongContextResults v16 s) = isOptimizingTranscript s"
  "isOptimizingTranscript (setJtbdAnalysis v17 s) = isOptimizingTranscript s"
  "isOptimizingTranscript (setGainAnalysis v18 s) = isOptimizingTranscript s"
  "isOptimizingTranscript (setCurrentRunningAgent v19 s) = isOptimizingTranscript s"
  "isOptimizingTranscript (setPreviousTranscriptRef v20 s) = isOptimizingTranscript s"
  "isOptimizingTranscript (removeItem k s) = isOptimizingTranscript s"
  "isOptimizingTranscript (setItem k2 w s) = isOptimizingTranscript s"
  "isOptimizingTranscript (setTimeout t s) = isOptimizingTranscript s"
  "isOptimizingTranscript (emit ev s) = isOptimizingTranscript s"
  by (simp_all add: setters)

lemma longContextResults_frame [simp]:
  "longContextResults (setTranscript v1 s) = longContextResults s"
  "longContextResults (setAnalyzingAgentsArray v2 s) = longContextResults s"
  "longContextResults (setAnalyzingAgents f3 s) = longContextResults s"
  "longContextResults (setHasAnalyzed v4 s) = longContextResults s"
  "longContextResults (setLocalAnalysisResults f5 s) = longContextResults s"
  "longContextResults (setAgentProgress f6 s) = longContextResults s"
  "longContextResults (setShowResult v7 s) = longContextResults s"
  "longContextResults (setUserHasSelectedView v8 s) = longContextResults s"
  "longContextResults (setCurrentAgent v9 s) = longContextResults s"
  "longContextResults (setLastViewedResult v10 s) = longContextResults s"
  "longContextResults (setIsOptimizingTranscript v11 s) = longContextResults s"
  "longContextResults (setOptimizationProgress v12 s) = longContextResults s"
  "longContextResults (setFinishedAgentsArray f13 s) = longContextResults s"
  "longContextResults (setFinishedAgents f14 s) = longContextResults s"
  "longContextResults (setIsSequenceRunning v15 s) = longContextResults s"
  "longContextResults (setLongContextResults v16 s) = v16"
  "longContextResults (setJtbdAnalysis v17 s) = longContextResults s"
  "longContextResults (setGainAnalysis v18 s) = longContextResults s"
  "longContextResults (setCurrentRunningAgent v19 s) = longContextResults s"
  "longContextResults (setPreviousTranscriptRef v20 s) = longContextResults s"
  "longContextResults (removeItem k s) = longContextResults s"
  "longContextResults (setItem k2 w s) = longContextResults s"
  "longContextResults (setTimeout t s) = longContextResults s"
  "longContextResults (emit ev s) = longContextResults s"
  by (simp_all add: setters)

lemma jtbdAnalysis_frame [simp]:
  "jtbdAnalysis (setTranscript v1 s) = jtbdAnalysis s"
  "jtbdAnalysis (setAnalyzingAgentsArray v2 s) = jtbdAnalysis s"
  "jtbdAnalysis (setAnalyzingAgents f3 s) = jtbdAnalysis s"
  "jtbdAnalysis (setHasAnalyzed v4 s) = jtbdAnalysis s"
  "jtbdAnalysis (setLocalAnalysisResults f5 s) = jtbdAnalysis s"
  "jtbdAnalysis (setAgentProgress f6 s) = jtbdAnalysis s"
  "jtbdAnalysis (setShowResult v7 s) = jtbdAnalysis s"
  "jtbdAnalysis (setUserHasSelectedView v8 s) = jtbdAnalysis s"
  "jtbdAnalysis (setCurrentAgent v9 s) = jtbdAnalysis s"
  "jtbdAnalysis (setLastViewedResult v10 s) = jtbdAnalysis s"
  "jtbdAnalysis (setIsOptimizingTranscript v11 s) = jtbdAnalysis s"
  "jtbdAnalysis (setOptimizationProgress v12 s) = jtbdAnalysis s"
  "jtbdAnalysis (setFinishedAgentsArray f13 s) = jtbdAnalysis s"
  "jtbdAnalysis (setFinishedAgents f14 s) = jtbdAnalysis s"
  "jtbdAnalysis (setIsSequenceRunning v15 s) = jtbdAnalysis s"
  "jtbdAnalysis (setLongContextResults v16 s) = jtbdAnalysis s"
  "jtbdAnalysis (setJtbdAnalysis v17 s) = v17"
  "jtbdAnalysis (setGainAnalysis v18 s) = jtbdAnalysis s"
  "jtbdAnalysis (setCurrentRunningAgent v19 s) = jtbdAnalysis s"
  "jtbdAnalysis (setPreviousTranscriptRef v20 s) = jtbdAnalysis s"
  "jtbdAnalysis (removeItem k s) = jtbdAnalysis s"
  "jtbdAnalysis (setItem k2 w s) = jtbdAnalysis s"
  "jtbdAnalysis (setTimeout t s) = jtbdAnalysis s"
  "jtbdAnalysis (emit ev s) = jtbdAnalysis s"
  by (simp_all add: setters)

lemma gainAnalysis_frame [simp]:
  "gainAnalysis (setTranscript v1 s) = gainAnalysis s"
  "gainAnalysis (setAnalyzingAgentsArray v2 s) = gainAnalysis s"
  "gainAnalysis (setAnalyzingAgents f3 s) = gainAnalysis s"
  "gainAnalysis (setHasAnalyzed v4 s) = gainAnalysis s"
  "gainAnalysis (setLocalAnalysisResults f5 s) = gainAnalysis s"
  "gainAnalysis (setAgentProgress f6 s) = gainAnalysis s"
  "gainAnalysis (setShowResult v7 s) = gainAnalysis s"
  "gainAnalysis (setUserHasSelectedView v8 s) = gainAnalysis s"
  "gainAnalysis (setCurrentAgent v9 s) = gainAnalysis s"
  "gainAnalysis (setLastViewedResult v10 s) = gainAnalysis s"
  "gainAnalysis (setIsOptimizingTranscript v11 s) = gainAnalysis s"
  "gainAnalysis (setOptimizationProgress v12 s) = gainAnalysis s"
  "gainAnalysis (setFinishedAgentsArray f13 s) = gainAnalysis s"
  "gainAnalysis (setFinishedAgents f14 s) = gainAnalysis s"
  "gainAnalysis (setIsSequenceRunning v15 s) = gainAnalysis s"
  "gainAnalysis (setLongContextResults v16 s) = gainAnalysis s"
  "gainAnalysis (setJtbdAnalysis v17 s) = gainAnalysis s"
  "gainAnalysis (setGainAnalysis v18 s) = v18"
  "gainAnalysis (setCurrentRunningAgent v19 s) = gainAnalysis s"
  "gainAnalysis (setPreviousTranscriptRef v20 s) = gainAnalysis s"
  "gainAnalysis (removeItem k s) = gainAnalysis s"
  "gainAnalysis (setItem k2 w s) = gainAnalysis s"
  "gainAnalysis (setTimeout t s) = gainAnalysis s"
  "gainAnalysis (emit ev s) = gainAnalysis s"
  by (simp_all add: setters)

lemma lastViewedResult_frame [simp]:
  "lastViewedResult (setTranscript v1 s) = lastViewedResult s"
  "lastViewedResult (setAnalyzingAgentsArray v2 s) = lastViewedResult s"
  "lastViewedResult (setAnalyzingAgents f3 s) = lastViewedResult s"
  "lastViewedResult (setHasAnalyzed v4 s) = lastViewedResult s"
  "lastViewedResult (setLocalAnalysisResults f5 s) = lastViewedResult s"
  "lastViewedResult (setAgentProgress f6 s) = lastViewedResult s"
  "lastViewedResult (setShowResult v7 s) = lastViewedResult s"
  "lastViewedResult (setUserHasSelectedView v8 s) = lastViewedResult s"
  "lastViewedResult (setCurrentAgent v9 s) = lastViewedResult s"
  "lastViewedResult (setLastViewedResult v10 s) = v10"
  "lastViewedResult (setIsOptimizingTranscript v11 s) = lastViewedResult s"
  "lastViewedResult (setOptimizationProgress v12 s) = lastViewedResult s"
  "lastViewedResult (setFinishedAgentsArray f13 s) = lastViewedResult s"
  "lastViewedResult (setFinishedAgents f14 s) = lastViewedResult s"
  "lastViewedResult (setIsSequenceRunning v15 s) = lastViewedResult s"
  "lastViewedResult (setLongContextResults v16 s) = lastViewedResult s"
  "lastViewedResult (setJtbdAnalysis v17 s) = lastViewedResult s"
  "lastViewedResult (setGainAnalysis v18 s) = lastViewedResult s"
  "lastViewedResult (setCurrentRunningAgent v19 s) = lastViewedResult s"
  "lastViewedResult (setPreviousTranscriptRef v20 s) = lastViewedResult s"
  "lastViewedResult (removeItem k s) = lastViewedResult s"
  "lastViewedResult (setItem k2 w s) = lastViewedResult s"
  "lastViewedResult (setTimeout t s) = lastViewedResult s"
  "lastViewedResult (emit ev s) = lastViewedResult s"
  by (simp_all add: setters)

lemma previousTranscriptRef_frame [simp]:
  "previousTranscriptRef (setTranscript v1 s) = previousTranscriptRef s"
  "previousTranscriptRef (setAnalyzingAgentsArray v2 s) = previousTranscriptRef s"
  "previousTranscriptRef (setAnalyzingAgents f3 s) = previousTranscriptRef s"
  "previousTranscriptRef (setHasAnalyzed v4 s) = previousTranscriptRef s"
  "previousTranscriptRef (setLocalAnalysisResults f5 s) = previousTranscriptRef s"
  "previousTranscriptRef (setAgentProgress f6 s) = previousTranscriptRef s"
  "previousTranscriptRef (setShowResult v7 s) = previousTranscriptRef s"
  "previousTranscriptRef (setUserHasSelectedView v8 s) = previousTranscriptRef s"
  "previousTranscriptRef (setCurrentAgent v9 s) = previousTranscriptRef s"
  "previousTranscriptRef (setLastViewedResult v10 s) = previousTranscriptRef s"
  "previousTranscriptRef (setIsOptimizingTranscript v11 s) = previousTranscriptRef s"
  "previousTranscriptRef (setOptimizationProgress v12 s) = previousTranscriptRef s"
  "previousTranscriptRef (setFinishedAgentsArray f13 s) = previousTranscriptRef s"
  "previousTranscriptRef (setFinishedAgents f14 s) = previousTranscriptRef s"
  "previousTranscriptRef (setIsSequenceRunning v15 s) = previousTranscriptRef s"
  "previousTranscriptRef (setLongContextResults v16 s) = previousTranscriptRef s"
  "previousTranscriptRef (setJtbdAnalysis v17 s) = previousTranscriptRef s"
  "previousTranscriptRef (setGainAnalysis v18 s) = previousTranscriptRef s"
  "previousTranscriptRef (setCurrentRunningAgent v19 s) = previousTranscriptRef s"
  "previousTranscriptRef (setPreviousTranscriptRef v20 s) = v20"
  "previousTranscriptRef (removeItem k s) = previousTranscriptRef s"
  "previousTranscriptRef (setItem k2 w s) = previousTranscriptRef s"
  "previousTranscriptRef (setTimeout t s) = previousTranscriptRef s"
  "previousTranscriptRef (emit ev s) = previousTranscriptRef s"
  by (simp_all add: setters)

lemma currentAgent_frame [simp]:
  "currentAgent (setTranscript v1 s) = currentAgent s"
  "currentAgent (setAnalyzingAgentsArray v2 s) = currentAgent s"
  "currentAgent (setAnalyzingAgents f3 s) = currentAgent s"
  "currentAgent (setHasAnalyzed v4 s) = currentAgent s"
  "currentAgent (setLocalAnalysisResults f5 s) = currentAgent s"
  "currentAgent (setAgentProgress f6 s) = currentAgent s"
  "currentAgent (setShowResult v7 s) = currentAgent s"
  "currentAgent (setUserHasSelectedView v8 s) = currentAgent s"
  "currentAgent (setCurrentAgent v9 s) = v9"
  "currentAgent (setLastViewedResult v10 s) = currentAgent s"
  "currentAgent (setIsOptimizingTranscript v11 s) = currentAgent s"
  "currentAgent (setOptimizationProgress v12 s) = currentAgent s"
  "currentAgent (setFinishedAgentsArray f13 s) = currentAgent s"
  "currentAgent (setFinishedAgents f14 s) = currentAgent s"
  "currentAgent (setIsSequenceRunning v15 s) = currentAgent s"
  "currentAgent (setLongContextResults v16 s) = currentAgent s"
  "currentAgent (setJtbdAnalysis v17 s) = currentAgent s"
  "currentAgent (setGainAnalysis v18 s) = currentAgent s"
  "currentAgent (setCurrentRunningAgent v19 s) = currentAgent s"
  "currentAgent (setPreviousTranscriptRef v20 s) = currentAgent s"
  "currentAgent (removeItem k s) = currentAgent s"
  "currentAgent (setItem k2 w s) = currentAgent s"
  "currentAgent (setTimeout t s) = currentAgent s"
  "currentAgent (emit ev s) = currentAgent s"
  by (simp_all add: setters)

lemma apiKey_frame [simp]:
  "apiKey (setTranscript v1 s) = apiKey s"
  "apiKey (setAnalyzingAgentsArray v2 s) = apiKey s"
  "apiKey (setAnalyzingAgents f3 s) = apiKey s"
  "apiKey (setHasAnalyzed v4 s) = apiKey s"
  "apiKey (setLocalAnalysisResults f5 s) = apiKey s"
  "apiKey (setAgentProgress f6 s) = apiKey s"
  "apiKey (setShowResult v7 s) = apiKey s"
  "apiKey (setUserHasSelectedView v8 s) = apiKey s"
  "apiKey (setCurrentAgent v9 s) = apiKey s"
  "apiKey (setLastViewedResult v10 s) = apiKey s"
  "apiKey (setIsOptimizingTranscript v11 s) = apiKey s"
  "apiKey (setOptimizationProgress v12 s) = apiKey s"
  "apiKey (setFinishedAgentsArray f13 s) = apiKey s"
  "apiKey (setFinishedAgents f14 s) = apiKey s"
  "apiKey (setIsSequenceRunning v15 s) = apiKey s"
  "apiKey (setLongContextResults v16 s) = apiKey s"
  "apiKey (setJtbdAnalysis v17 s) = apiKey s"
  "apiKey (setGainAnalysis v18 s) = apiKey s"
  "apiKey (setCurrentRunningAgent v19 s) = apiKey s"
  "apiKey (setPreviousTranscriptRef v20 s) = apiKey s"
  "apiKey (removeItem k s) = apiKey s"
  "apiKey (setItem k2 w s) = apiKey s"
  "apiKey (setTimeout t s) = apiKey s"
  "apiKey (emit ev s) = apiKey s"
  by (simp_all add: setters)

lemma isProcessing_frame [simp]:
  "isProcessing (setTranscript v1 s) = isProcessing s"
  "isProcessing (setAnalyzingAgentsArray v2 s) = isProcessing s"
  "isProcessing (setAnalyzingAgents f3 s) = isProcessing s"
  "isProcessing (setHasAnalyzed v4 s) = isProcessing s"
  "isProcessing (setLocalAnalysisResults f5 s) = isProcessing s"
  "isProcessing (setAgentProgress f6 s) = isProcessing s"
  "isProcessing (setShowResult v7 s) = isProcessing s"
  "isProcessing (setUserHasSelectedView v8 s) = isProcessing s"
  "isProcessing (setCurrentAgent v9 s) = isProcessing s"
  "isProcessing (setLastViewedResult v10 s) = isProcessing s"
  "isProcessing (setIsOptimizingTranscript v11 s) = isProcessing s"
  "isProcessing (setOptimizationProgress v12 s) = isProcessing s"
  "isProcessing (setFinishedAgentsArray f13 s) = isProcessing s"
  "isProcessing (setFinishedAgents f14 s) = isProcessing s"
  "isProcessing (setIsSequenceRunning v15 s) = isProcessing s"
  "isProcessing (setLongContextResults v16 s) = isProcessing s"
  "isProcessing (setJtbdAnalysis v17 s) = isProcessing s"
  "isProcessing (setGainAnalysis v18 s) = isProcessing s"
  "isProcessing (setCurrentRunningAgent v19 s) = isProcessing s"
  "isProcessing (setPreviousTranscriptRef v20 s) = isProcessing s"
  "isProcessing (removeItem k s) = isProcessing s"
  "isProcessing (setItem k2 w s) = isProcessing s"
  "isProcessing (setTimeout t s) = isProcessing s"
  "isProcessing (emit ev s) = isProcessing s"
  by (simp_all add: setters)

lemma currentAnalysisIndex_frame [simp]:
  "currentAnalysisIndex (setTranscript v1 s) = currentAnalysisIndex s"
  "currentAnalysisIndex (setAnalyzingAgentsArray v2 s) = currentAnalysisIndex s"
  "currentAnalysisIndex (setAnalyzingAgents f3 s) = currentAnalysisIndex s"
  "currentAnalysisIndex (setHasAnalyzed v4 s) = currentAnalysisIndex s"
  "currentAnalysisIndex (setLocalAnalysisResults f5 s) = currentAnalysisIndex s"
  "currentAnalysisIndex (setAgentProgress f6 s) = currentAnalysisIndex s"
  "currentAnalysisIndex (setShowResult v7 s) = currentAnalysisIndex s"
  "currentAnalysisIndex (setUserHasSelectedView v8 s) = currentAnalysisIndex s"
  "currentAnalysisIndex (setCurrentAgent v9 s) = currentAnalysisIndex s"
  "currentAnalysisIndex (setLastViewedResult v10 s) = currentAnalysisIndex s"
  "currentAnalysisIndex (setIsOptimizingTranscript v11 s) = currentAnalysisIndex s"
  "currentAnalysisIndex (setOptimizationProgress v12 s) = currentAnalysisIndex s"
  "currentAnalysisIndex (setFinishedAgentsArray f13 s) = currentAnalysisIndex s"
  "currentAnalysisIndex (setFinishedAgents f14 s) = currentAnalysisIndex s"
  "currentAnalysisIndex (setIsSequenceRunning v15 s) = currentAnalysisIndex s"
  "currentAnalysisIndex (setLongContextResults v16 s) = currentAnalysisIndex s"
  "currentAnalysisIndex (setJtbdAnalysis v17 s) = currentAnalysisIndex s"
  "currentAnalysisIndex (setGainAnalysis v18 s) = currentAnalysisIndex s"
  "currentAnalysisIndex (setCurrentRunningAgent v19 s) = currentAnalysisIndex s"
  "currentAnalysisIndex (setPreviousTranscriptRef v20 s) = currentAnalysisIndex s"
  "currentAnalysisIndex (removeItem k s) = currentAnalysisIndex s"
  "currentAnalysisIndex (setItem k2 w s) = currentAnalysisIndex s"
  "currentAnalysisIndex (setTimeout t s) = currentAnalysisIndex s"
  "currentAnalysisIndex (emit ev s) = currentAnalysisIndex s"
  by (simp_all add: setters)

subsection \<open>The sequence driven by runNextAgentInSequence\<close>

lemma invoked_append: "invoked (xs @ ys) = invoked xs @ invoked ys"
  by (induction xs rule: invoked.induct) simp_all

lemma processWithAgent_invoked:
  "invoked (events (snd (processWithAgent c e a s))) = invoked (events s) @ [a]"
  by (simp add: processWithAgent_def derived invoked_append Let_def)

lemma processWithAgent_running:
  "isSequenceRunning (snd (processWithAgent c e a s)) = isSequenceRunning s"
  by (simp add: processWithAgent_def derived Let_def)

lemma hasKey_keys: "hasKey ob k \<longleftrightarrow> k \<in> set (map fst ob)"
  by (simp add: hasKey_def map_of_eq_None_iff)

lemma findAgent_simps [simp]:
  "findAgent ''longContextChunking'' =
     Some \<lparr>agentIdOf = ''longContextChunking'', agentName = ''Transcript optimization'',
            requiresPreviousAgent = None\<rparr>"
  "findAgent ''needsAnalysis'' =
     Some \<lparr>agentIdOf = ''needsAnalysis'', agentName = ''Needs Analysis Agent'',
            requiresPreviousAgent = Some ''longContextChunking''\<rparr>"
  "findAgent ''demandAnalyst'' =
     Some \<lparr>agentIdOf = ''demandAnalyst'', agentName = ''Demand Analyst'',
            requiresPreviousAgent = Some ''needsAnalysis''\<rparr>"
  "findAgent ''opportunityQualification'' =
     Some \<lparr>agentIdOf = ''opportunityQualification'', agentName = ''Opportunity Qualification Agent'',
            requiresPreviousAgent = Some ''demandAnalyst''\<rparr>"
  "findAgent ''finalReport'' =
     Some \<lparr>agentIdOf = ''finalReport'', agentName = ''Final Research Analysis Report'',
            requiresPreviousAgent = Some ''problemAwareness''\<rparr>"
  "findAgent ''problemAwareness'' =
     Some \<lparr>agentIdOf = ''problemAwareness'', agentName = ''Problem Awareness Level'',
            requiresPreviousAgent = Some ''painExtractor''\<rparr>"
  by (simp_all add: findAgent_def agents_def)


lemma findIndex_None: "findIndex P xs = None \<longleftrightarrow> (\<forall>x \<in> set xs. \<not> P x)"
  by (induction xs) auto

lemma findIndex_Some:
  "findIndex P xs = Some i \<Longrightarrow> i < length xs \<and> find P xs = Some (xs ! i)"
  by (induction xs arbitrary: i) (auto split: if_splits)

lemma findIndex_zero: "findIndex P (x # xs) = Some 0 \<longleftrightarrow> P x"
  by auto

lemma nextAgentIndex_None:
  "nextAgentIndex res = None \<longleftrightarrow> (\<forall>a \<in> set visibleAgentSequence. hasKey res a)"
  by (auto simp: nextAgentIndex_def Let_def findIndex_None hasKey_keys visibleAgentSequence_def)

lemma nextAgentIndex_Some:
  assumes "nextAgentIndex res = Some i"
  shows "find (\<lambda>a. \<not> hasKey res a) visibleAgentSequence = Some (visibleAgentSequence ! i)"
proof -
  let ?P = "\<lambda>agentId. agentId \<notin> set (map fst res)"
  have dead: "\<not> (findIndex ?P visibleAgentSequence = Some 0 \<and> ''needsAnalysis'' \<in> set (map fst res))"
    by (simp add: visibleAgentSequence_def)
  from assms dead have "findIndex ?P visibleAgentSequence = Some i"
    by (simp add: nextAgentIndex_def Let_def split: if_splits)
  from findIndex_Some [OF this] have "find ?P visibleAgentSequence = Some (visibleAgentSequence ! i)"
    by simp
  moreover have "?P = (\<lambda>a. \<not> hasKey res a)"
    by (simp add: hasKey_keys fun_eq_iff)
  ultimately show ?thesis by simp
qed

lemma missingPrerequisites_None:
  "missingPrerequisites res a = None \<longleftrightarrow> list_all (truthyAt res) (prerequisiteIds a)"
  by (simp add: missingPrerequisites_def prerequisiteIds_def Let_def split: option.splits)

lemma missingPrerequisites_Some:
  "missingPrerequisites res a = Some (info, ms) \<Longrightarrow>
     ms = filter (\<lambda>p. \<not> truthyAt res p) (prerequisiteIds a)"
  by (auto simp: missingPrerequisites_def prerequisiteIds_def Let_def split: option.splits if_splits)

lemma runNextStep_invoked:
  assumes "cIsSequenceRunning c"
  shows "invoked (events (snd (runNextStep c e s))) =
     invoked (events s) @
       (case find (\<lambda>a. \<not> hasKey (cLocalAnalysisResults c) a) visibleAgentSequence of
          None \<Rightarrow> []
        | Some a \<Rightarrow>
            if list_all (truthyAt (cLocalAnalysisResults c)) (prerequisiteIds a) then [a]
            else (case find (canRunPrerequisite (cLocalAnalysisResults c))
                         (filter (\<lambda>p. \<not> truthyAt (cLocalAnalysisResults c) p) (prerequisiteIds a)) of
                    None \<Rightarrow> []
                  | Some p \<Rightarrow> [p]))"
proof (cases "nextAgentIndex (cLocalAnalysisResults c)")
  case None
  then have "find (\<lambda>a. \<not> hasKey (cLocalAnalysisResults c) a) visibleAgentSequence = None"
    by (simp add: nextAgentIndex_None find_None_iff)
  with None assms show ?thesis
    by (simp add: runNextStep_def Let_def)
next
  case (Some i)
  let ?a = "visibleAgentSequence ! i"
  have f: "find (\<lambda>a. \<not> hasKey (cLocalAnalysisResults c) a) visibleAgentSequence = Some ?a"
    by (rule nextAgentIndex_Some [OF Some])
  show ?thesis
  proof (cases "missingPrerequisites (cLocalAnalysisResults c) ?a")
    case None
    then have "list_all (truthyAt (cLocalAnalysisResults c)) (prerequisiteIds ?a)"
      by (simp add: missingPrerequisites_None)
    with None Some f assms show ?thesis
      by (simp add: runNextStep_def Let_def processWithAgent_invoked)
  next
    case (Some im)
    obtain info ms where im: "im = (info, ms)" by (cases im)
    from Some im have ms: "ms = filter (\<lambda>p. \<not> truthyAt (cLocalAnalysisResults c) p) (prerequisiteIds ?a)"
      by (simp add: missingPrerequisites_Some)
    from Some have nall: "\<not> list_all (truthyAt (cLocalAnalysisResults c)) (prerequisiteIds ?a)"
      using missingPrerequisites_None [of "cLocalAnalysisResults c" ?a] by simp
    show ?thesis
    proof (cases "find (canRunPrerequisite (cLocalAnalysisResults c)) ms")
      case None
      with Some im \<open>nextAgentIndex (cLocalAnalysisResults c) = Some i\<close> f assms nall ms show ?thesis
        by (simp add: runNextStep_def Let_def invoked_append)
    next
      case (Some p)
      with \<open>missingPrerequisites (cLocalAnalysisResults c) ?a = Some im\<close> im
        \<open>nextAgentIndex (cLocalAnalysisResults c) = Some i\<close> f assms nall ms show ?thesis
        by (simp add: runNextStep_def Let_def processWithAgent_invoked)
    qed
  qed
qed

lemma runNextStep_running:
  "fst (runNextStep c e s) \<Longrightarrow> cIsSequenceRunning c"
  by (auto simp: runNextStep_def Let_def split: if_splits option.splits prod.splits)

lemma runNextStep_stopped:
  "\<not> cIsSequenceRunning c \<Longrightarrow> runNextStep c e s = (False, s)"
  by (simp add: runNextStep_def)

lemma runNextStep_done:
  assumes "\<forall>a \<in> set visibleAgentSequence. hasKey (cLocalAnalysisResults c) a"
    and "cIsSequenceRunning c"
  shows "fst (runNextStep c e s) = False"
    and "events (snd (runNextStep c e s)) = events s"
    and "isSequenceRunning (snd (runNextStep c e s)) = False"
  using assms nextAgentIndex_None [of "cLocalAnalysisResults c"]
  by (simp_all add: runNextStep_def Let_def)

lemma progressionEffect_last:
  "length (agentSequenceG g) \<le> gCurrentAnalysisIndex gs + 1 \<Longrightarrow> fst (progressionEffect g gs) = None"
  by (simp add: progressionEffect_def nthOpt_def Let_def split: option.splits)

lemma afterResolved_last:
  "Some a = lastOfSequence g \<Longrightarrow> \<not> gIsSequenceRunning (afterResolved g a res gs)"
  by (simp add: afterResolved_def Let_def)

text \<open>
  Claim C5. When every agent of the visible sequence has a stored result (is a key of the
  results the callback reads), the selection of the next agent finds none, and
  \<open>runNextAgentInSequence\<close> returns without calling \<open>processWithAgent\<close>: a callback
  whose closure says the sequence is running clears the flag \<open>isSequenceRunning\<close>, and
  one whose closure says it is not running leaves the state as it is. In GradeTranscripts,
  the progression effect starts no agent once the current agent is the last of the
  sequence, and the code that stores the result of the last agent clears the flag.
\<close>

theorem all_done_sequence_terminates:
  assumes "\<forall>a \<in> set visibleAgentSequence. hasKey (cLocalAnalysisResults c) a"
  shows "nextAgentIndex (cLocalAnalysisResults c) = None
     \<and> fst (runNextAgentInSequence (Suc n) c e s) = Returned
     \<and> invoked (events (snd (runNextAgentInSequence (Suc n) c e s))) = invoked (events s)
     \<and> (isSequenceRunning (snd (runNextAgentInSequence (Suc n) c e s))
          \<longleftrightarrow> isSequenceRunning s \<and> \<not> cIsSequenceRunning c)
     \<and> (length (agentSequenceG g) \<le> gCurrentAnalysisIndex gs + 1
          \<longrightarrow> fst (progressionEffect g gs) = None)
     \<and> (Some a = lastOfSequence g \<longrightarrow> \<not> gIsSequenceRunning (afterResolved g a res gs))"
proof -
  have first: "nextAgentIndex (cLocalAnalysisResults c) = None
     \<and> fst (runNextAgentInSequence (Suc n) c e s) = Returned
     \<and> invoked (events (snd (runNextAgentInSequence (Suc n) c e s))) = invoked (events s)
     \<and> (isSequenceRunning (snd (runNextAgentInSequence (Suc n) c e s))
          \<longleftrightarrow> isSequenceRunning s \<and> \<not> cIsSequenceRunning c)"
  proof (cases "cIsSequenceRunning c")
    case True
    obtain b s' where r: "runNextStep c e s = (b, s')" by (cases "runNextStep c e s")
    from runNextStep_done [OF assms True, of e s] r
    have "b = False" "events s' = events s" "isSequenceRunning s' = False" by simp_all
    with r True assms show ?thesis
      by (simp add: nextAgentIndex_None)
  next
    case False
    with assms show ?thesis
      by (simp add: runNextStep_stopped nextAgentIndex_None)
  qed
  with progressionEffect_last [of g gs] afterResolved_last [of a g res gs] show ?thesis
    by blast
qed

lemma example_closure [simp]:
  "cIsSequenceRunning (render (exampleSession res running)) = running"
  "cLocalAnalysisResults (render (exampleSession res running)) = res"
  "cApiKey (render (exampleSession res running)) = ''sk-test''"
  "cTranscript (render (exampleSession res running)) = ''hello''"
  "events (exampleSession res running) = []"
  "isSequenceRunning (exampleSession res running) = running"
  by (simp_all add: render_def exampleSession_def mount_def exampleStorage_def
      storedBool_def storedObj_def storedString_def)

text \<open>
  The hypotheses of C5 hold on the example page with results for all five agents, and in
  GradeTranscripts at the last index of the example sequence.
\<close>

theorem all_done_sequence_terminates_witness:
  "list_all (hasKey (cLocalAnalysisResults (render (exampleSession (resultsFor agentSequence) True))))
     visibleAgentSequence
   \<and> fst (runNextAgentInSequence (Suc 0) (render (exampleSession (resultsFor agentSequence) True))
            exampleEnv (exampleSession (resultsFor agentSequence) True)) = Returned
   \<and> \<not> isSequenceRunning (snd (runNextAgentInSequence (Suc 0)
            (render (exampleSession (resultsFor agentSequence) True))
            exampleEnv (exampleSession (resultsFor agentSequence) True)))
   \<and> fst (progressionEffect exampleG (initialGState\<lparr>gIsSequenceRunning := True,
            gCurrentAnalysisIndex := 4\<rparr>)) = None
   \<and> Some Recommendations = lastOfSequence exampleG
   \<and> \<not> gIsSequenceRunning (afterResolved exampleG Recommendations (JObj [])
            (initialGState\<lparr>gIsSequenceRunning := True, gCurrentAnalysisIndex := 4\<rparr>))"
proof -
  have h: "\<forall>a \<in> set visibleAgentSequence.
       hasKey (cLocalAnalysisResults (render (exampleSession (resultsFor agentSequence) True))) a"
    by (simp add: visibleAgentSequence_def hasKey_def resultsFor_def agentSequence_def)
  have l: "Some Recommendations = lastOfSequence exampleG"
    by (simp add: lastOfSequence_def exampleG_def)
  have i: "length (agentSequenceG exampleG)
      \<le> gCurrentAnalysisIndex (initialGState\<lparr>gIsSequenceRunning := True,
            gCurrentAnalysisIndex := 4\<rparr>) + 1"
    by (simp add: exampleG_def)
  from all_done_sequence_terminates [OF h, of 0 exampleEnv "exampleSession (resultsFor agentSequence) True"
      exampleG "initialGState\<lparr>gIsSequenceRunning := True, gCurrentAnalysisIndex := 4\<rparr>"
      Recommendations "JObj []"] h l i
  show ?thesis by (simp add: list_all_iff)
qed

lemma canRunPrerequisite_iff:
  "canRunPrerequisite res p \<longleftrightarrow> list_all (truthyAt res) (prerequisiteIds p)"
  by (simp add: canRunPrerequisite_def prerequisiteIds_def split: option.splits)

text \<open>
  Claim C6, as amended. One activation of \<open>runNextAgentInSequence\<close> picks the first agent
  of the page's own visible sequence (\<open>needsAnalysis\<close>, \<open>demandAnalyst\<close>,
  \<open>opportunityQualification\<close>, \<open>finalReport\<close>) that is not a key of the results. It
  runs that agent when all its registry prerequisites have a result; otherwise it runs the
  first missing prerequisite whose own prerequisites have results, and runs nothing when
  there is none. In particular, when \<open>longContextChunking\<close> has no result and
  \<open>needsAnalysis\<close> has not run, it is \<open>longContextChunking\<close> that runs.
\<close>

theorem next_agent_selection:
  assumes "cIsSequenceRunning c"
  shows "invoked (events (snd (runNextStep c e s))) =
     invoked (events s) @
       (case find (\<lambda>a. \<not> hasKey (cLocalAnalysisResults c) a) visibleAgentSequence of
          None \<Rightarrow> []
        | Some a \<Rightarrow>
            if list_all (truthyAt (cLocalAnalysisResults c)) (prerequisiteIds a) then [a]
            else (case find (canRunPrerequisite (cLocalAnalysisResults c))
                         (filter (\<lambda>p. \<not> truthyAt (cLocalAnalysisResults c) p) (prerequisiteIds a)) of
                    None \<Rightarrow> []
                  | Some p \<Rightarrow> [p]))
    \<and> (\<not> truthyAt (cLocalAnalysisResults c) ''longContextChunking'' \<and>
        \<not> hasKey (cLocalAnalysisResults c) ''needsAnalysis'' \<longrightarrow>
        invoked (events (snd (runNextStep c e s))) = invoked (events s) @ [''longContextChunking''])"
proof -
  have sel: "invoked (events (snd (runNextStep c e s))) =
     invoked (events s) @
       (case find (\<lambda>a. \<not> hasKey (cLocalAnalysisResults c) a) visibleAgentSequence of
          None \<Rightarrow> []
        | Some a \<Rightarrow>
            if list_all (truthyAt (cLocalAnalysisResults c)) (prerequisiteIds a) then [a]
            else (case find (canRunPrerequisite (cLocalAnalysisResults c))
                         (filter (\<lambda>p. \<not> truthyAt (cLocalAnalysisResults c) p) (prerequisiteIds a)) of
                    None \<Rightarrow> []
                  | Some p \<Rightarrow> [p]))"
    by (rule runNextStep_invoked [OF assms])
  have "invoked (events (snd (runNextStep c e s))) = invoked (events s) @ [''longContextChunking'']"
    if "\<not> truthyAt (cLocalAnalysisResults c) ''longContextChunking''"
      and "\<not> hasKey (cLocalAnalysisResults c) ''needsAnalysis''"
    using that sel
    by (simp add: visibleAgentSequence_def prerequisiteIds_def canRunPrerequisite_def)
  with sel show ?thesis by blast
qed

text \<open>On the example page with no results and the sequence running, C6 selects the chunking agent.\<close>

theorem next_agent_selection_witness:
  "cIsSequenceRunning (render (exampleSession [] True))
   \<and> invoked (events (snd (runNextStep (render (exampleSession [] True)) exampleEnv
                              (exampleSession [] True)))) = [''longContextChunking'']"
proof -
  have r: "cIsSequenceRunning (render (exampleSession [] True))" by simp
  from next_agent_selection [OF r, of exampleEnv "exampleSession [] True", THEN conjunct2] r
  show ?thesis by (simp add: truthyAt_def hasKey_def)
qed

text \<open>
  Claim C6 as stated fails: with a result for \<open>longContextChunking\<close> only, the first
  agent in the registry's order that has no result and whose prerequisites have results is
  \<open>jtbd\<close>, and the page runs \<open>needsAnalysis\<close>.
\<close>

theorem next_agent_not_registry_order:
  "nextRunnable (resultsFor [''longContextChunking'']) = Some ''jtbd''
   \<and> invoked (events (snd (runNextStep (render (exampleSession (resultsFor [''longContextChunking'']) True))
        exampleEnv (exampleSession (resultsFor [''longContextChunking'']) True)))) = [''needsAnalysis'']"
proof -
  have "nextRunnable (resultsFor [''longContextChunking'']) = Some ''jtbd''"
    by (simp add: nextRunnable_def resultsFor_def agents_def truthyAt_def prerequisiteIds_def findAgent_def)
  moreover have "invoked (events (snd (runNextStep (render (exampleSession (resultsFor [''longContextChunking'']) True))
        exampleEnv (exampleSession (resultsFor [''longContextChunking'']) True)))) = [''needsAnalysis'']"
    by (simp add: runNextStep_invoked visibleAgentSequence_def hasKey_def resultsFor_def
        prerequisiteIds_def truthyAt_def)
  ultimately show ?thesis by simp
qed

lemma runNextStep_gated:
  "\<exists>new. invoked (events (snd (runNextStep c e s))) = invoked (events s) @ new
       \<and> list_all (\<lambda>a. list_all (truthyAt (cLocalAnalysisResults c)) (prerequisiteIds a)) new"
proof (cases "cIsSequenceRunning c")
  case False
  then show ?thesis by (simp add: runNextStep_stopped)
next
  case True
  let ?res = "cLocalAnalysisResults c"
  let ?new = "(case find (\<lambda>a. \<not> hasKey ?res a) visibleAgentSequence of
          None \<Rightarrow> []
        | Some a \<Rightarrow>
            if list_all (truthyAt ?res) (prerequisiteIds a) then [a]
            else (case find (canRunPrerequisite ?res)
                         (filter (\<lambda>p. \<not> truthyAt ?res p) (prerequisiteIds a)) of
                    None \<Rightarrow> []
                  | Some p \<Rightarrow> [p]))"
  have "list_all (\<lambda>a. list_all (truthyAt ?res) (prerequisiteIds a)) ?new"
    by (auto split: option.splits simp: canRunPrerequisite_iff dest: find_Some_iff [THEN iffD1])
  with runNextStep_invoked [OF True, of e s] show ?thesis by blast
qed

lemma runNextAgentInSequence_gated:
  "\<exists>new. invoked (events (snd (runNextAgentInSequence n c e s))) = invoked (events s) @ new
       \<and> list_all (\<lambda>a. list_all (truthyAt (cLocalAnalysisResults c)) (prerequisiteIds a)) new"
proof (induction n arbitrary: s)
  case 0
  show ?case by simp
next
  case (Suc n)
  obtain b s' where r: "runNextStep c e s = (b, s')" by (cases "runNextStep c e s")
  from runNextStep_gated [of c e s] r obtain new1 where
    n1: "invoked (events s') = invoked (events s) @ new1"
      "list_all (\<lambda>a. list_all (truthyAt (cLocalAnalysisResults c)) (prerequisiteIds a)) new1"
    by auto
  show ?case
  proof (cases b)
    case False
    with r n1 show ?thesis by auto
  next
    case True
    from Suc.IH [of s'] obtain new2 where
      n2: "invoked (events (snd (runNextAgentInSequence n c e s'))) = invoked (events s') @ new2"
        "list_all (\<lambda>a. list_all (truthyAt (cLocalAnalysisResults c)) (prerequisiteIds a)) new2"
      by auto
    from True r n1 n2 have
      "invoked (events (snd (runNextAgentInSequence (Suc n) c e s))) = invoked (events s) @ (new1 @ new2)"
      "list_all (\<lambda>a. list_all (truthyAt (cLocalAnalysisResults c)) (prerequisiteIds a)) (new1 @ new2)"
      by simp_all
    then show ?thesis by blast
  qed
qed

lemma handleRunSingleAgent_gated:
  "\<exists>new. invoked (events (handleRunSingleAgent c e a s)) = invoked (events s) @ new
       \<and> list_all (\<lambda>a. list_all (truthyAt (cLocalAnalysisResults c)) (prerequisiteIds a)) new"
proof -
  have "invoked (events (handleRunSingleAgent c e a s)) =
      invoked (events s) @
        (if cTranscript c \<noteq> [] \<and> list_all (truthyAt (cLocalAnalysisResults c)) (prerequisiteIds a)
         then [a] else [])"
    by (simp add: handleRunSingleAgent_def prerequisiteIds_def processWithAgent_invoked
        invoked_append Let_def split: option.splits)
  then show ?thesis by auto
qed

text \<open>
  Claim C1, as amended. \<open>runNextAgentInSequence\<close> (for any number of activations) and
  \<open>handleRunSingleAgent\<close> call \<open>processWithAgent\<close> only for agents whose registry
  prerequisites all have a truthy entry in the results that the callback reads (the results
  of the render that created it). The loop of \<open>startAnalysisSequence\<close> is not part of the
  statement: it marks each of its five agents as analyzing without looking at prerequisites.
\<close>

theorem prerequisites_gate_processWithAgent:
  "list_all (\<lambda>a. list_all (truthyAt (cLocalAnalysisResults c)) (prerequisiteIds a))
     (drop (length (invoked (events s))) (invoked (events (snd (runNextAgentInSequence n c e s)))))
   \<and> list_all (\<lambda>a. list_all (truthyAt (cLocalAnalysisResults c)) (prerequisiteIds a))
     (drop (length (invoked (events s))) (invoked (events (handleRunSingleAgent c e agentId s))))"
proof -
  from runNextAgentInSequence_gated [of n c e s] handleRunSingleAgent_gated [of c e agentId s]
  show ?thesis by auto
qed

text \<open>
  On the example page with a result for \<open>longContextChunking\<close>, one activation calls
  \<open>processWithAgent\<close> for \<open>needsAnalysis\<close>, whose prerequisite has its result.
\<close>

theorem prerequisites_gate_processWithAgent_witness:
  "drop (length (invoked (events (exampleSession (resultsFor [''longContextChunking'']) True))))
     (invoked (events (snd (runNextAgentInSequence (Suc 0)
        (render (exampleSession (resultsFor [''longContextChunking'']) True)) exampleEnv
        (exampleSession (resultsFor [''longContextChunking'']) True)))))
     = [''needsAnalysis'']
   \<and> list_all (truthyAt (resultsFor [''longContextChunking''])) (prerequisiteIds ''needsAnalysis'')"
proof -
  let ?s = "exampleSession (resultsFor [''longContextChunking'']) True"
  have "snd (runNextAgentInSequence (Suc 0) (render ?s) exampleEnv ?s) = snd (runNextStep (render ?s) exampleEnv ?s)"
    by (simp split: prod.splits bool.splits)
  then have "invoked (events (snd (runNextAgentInSequence (Suc 0) (render ?s) exampleEnv ?s)))
     = [''needsAnalysis'']"
    by (simp add: runNextStep_invoked visibleAgentSequence_def hasKey_def resultsFor_def
        prerequisiteIds_def truthyAt_def)
  with prerequisites_gate_processWithAgent [of "render ?s" ?s "Suc 0" exampleEnv "''needsAnalysis''"]
  show ?thesis by simp
qed

subsection \<open>Invariants of the page under every schedule\<close>

lemma keeps_id [simp]: "keeps P (\<lambda>x. x)"
  by (simp add: keeps_def)

lemma keeps_seq [simp]: "list_all (keeps P) fs \<Longrightarrow> keeps P (seq fs)"
proof (induction fs)
  case Nil
  show ?case by (simp add: keeps_def)
next
  case (Cons f fs)
  then show ?case by (auto simp: keeps_def)
qed

lemma keeps_if [simp]: "keeps P f \<Longrightarrow> keeps P g \<Longrightarrow> keeps P (if b then f else g)"
  by simp

lemma statementsKeepD:
  assumes "statementsKeep P"
  shows "keeps P (setTranscript v1)"
    and "keeps P (setHasAnalyzed v2)"
    and "keeps P (setLocalAnalysisResults f3)"
    and "keeps P (setAgentProgress f4)"
    and "keeps P (setShowResult v5)"
    and "keeps P (setUserHasSelectedView v6)"
    and "keeps P (setCurrentAgent v7)"
    and "keeps P (setIsOptimizingTranscript v8)"
    and "keeps P (setOptimizationProgress v9)"
    and "keeps P (setFinishedAgentsArray f10)"
    and "keeps P (setFinishedAgents f11)"
    and "keeps P (setIsSequenceRunning v12)"
    and "keeps P (setCurrentRunningAgent v13)"
    and "keeps P (emit ev)"
    and "keeps P (setItem (resultKey a) w)"
    and "keeps P (setAnalyzingAgents (\<lambda>prev. []))"
    and "keeps P (setAnalyzingAgents (\<lambda>prev. [a]))"
    and "keeps P (setAnalyzingAgents (\<lambda>prev. setDelete prev a))"
  using assms by (simp_all add: statementsKeep_def)

lemma keeps_setProgressOf [simp]:
  "statementsKeep P \<Longrightarrow> keeps P (setProgressOf e a p st)"
  by (simp add: statementsKeep_def setProgressOf_def)

lemma chunkingSteps_keep:
  "statementsKeep P \<Longrightarrow> keeps P pre \<Longrightarrow> list_all (keeps P) (chunkingSteps c e pre)"
  by (auto simp: chunkingSteps_def Let_def list_all_iff statementsKeep_def
      split: chunkOutcome.splits)

lemma visualSteps_keep:
  "statementsKeep P \<Longrightarrow> keeps P pre \<Longrightarrow> list_all (keeps P) (visualSteps c e a pre)"
  by (simp add: visualSteps_def) (simp add: statementsKeep_def)

lemma sequenceLoop_keep:
  "statementsKeep P \<Longrightarrow> keeps P pre \<Longrightarrow> list_all (keeps P) (sequenceLoop c e pre as)"
proof (induction as arbitrary: pre)
  case Nil
  then show ?case by (simp add: statementsKeep_def)
next
  case (Cons a as)
  from Cons.prems(1) have "keeps P (setAnalyzingAgents (\<lambda>prev. setDelete prev a))"
    by (simp add: statementsKeep_def)
  with Cons show ?case
    by (simp add: chunkingSteps_keep visualSteps_keep)
qed

lemma startAnalysisSequence_keep:
  assumes "statementsKeep P"
  shows "list_all (keeps P) (startAnalysisSequence c e)"
proof -
  from assms have "keeps P resetBeforeSequence"
    by (simp add: resetBeforeSequence_def statementsKeep_def)
  with assms show ?thesis
    by (simp add: startAnalysisSequence_def sequenceLoop_keep) (simp add: statementsKeep_def)
qed

lemma handlers_keep:
  assumes "statementsKeep P"
  shows "keeps P stopAnalysisSequence"
    and "keeps P (handleContentChange content)"
    and "keeps P (handleViewResult c a)"
proof -
  from assms show "keeps P stopAnalysisSequence"
    by (simp add: stopAnalysisSequence_def statementsKeep_def)
  from assms show "keeps P (handleContentChange content)"
    by (simp add: handleContentChange_def statementsKeep_def)
  from assms have "keeps P (\<lambda>s. case localStorage s (resultKey a) of
                  None \<Rightarrow> s
                | Some parsedResults \<Rightarrow>
                    setLocalAnalysisResults (\<lambda>prev. AList.update a parsedResults prev) s)"
    by (simp add: keeps_def statementsKeep_def split: option.splits)
  with assms show "keeps P (handleViewResult c a)"
    by (simp add: handleViewResult_def statementsKeep_def split: option.splits)
qed

lemma act_pageKeeps:
  assumes st: "statementsKeep P"
    and clear: "keeps P handleClearData"
    and effects: "keeps P (\<lambda>s. syncFinishedAgents (syncAnalyzingAgents s))"
    and reload: "keeps P (\<lambda>s. mount (localStorage s))"
    and ok: "pageKeeps P p"
  shows "pageKeeps P (act p a)"
proof (cases p)
  case (Pair s ts)
  with ok have sf: "P s" and ks: "list_all (list_all (keeps P)) ts"
    by (simp_all add: pageKeeps_def)
  show ?thesis
  proof (cases a)
    case (ClickAnalyze e)
    with Pair sf ks st show ?thesis by (simp add: pageKeeps_def startAnalysisSequence_keep)
  next
    case (TaskStep i)
    show ?thesis
    proof (cases "i < length ts")
      case False
      with Pair TaskStep ok show ?thesis by simp
    next
      case True
      show ?thesis
      proof (cases "ts ! i")
        case Nil
        with Pair TaskStep True ok show ?thesis by simp
      next
        case (Cons f fs)
        from ks True have "list_all (keeps P) (ts ! i)"
          by (simp add: list_all_length)
        with Cons have f: "keeps P f" and fs: "list_all (keeps P) fs" by simp_all
        from ks fs have "list_all (list_all (keeps P)) (ts[i := fs])"
          by (auto simp: list_all_iff dest!: set_update_subset_insert [THEN subsetD])
        with Pair TaskStep True Cons f sf show ?thesis
          by (simp add: pageKeeps_def keeps_def)
      qed
    qed
  next
    case Stop
    with Pair sf ks handlers_keep(1) [OF st] show ?thesis by (simp add: pageKeeps_def keeps_def)
  next
    case (ChangeContent content)
    with Pair sf ks handlers_keep(2) [OF st, of content] show ?thesis
      by (simp add: pageKeeps_def keeps_def)
  next
    case (ViewResult agentId)
    with Pair sf ks handlers_keep(3) [OF st, of "render s" agentId] show ?thesis
      by (simp add: pageKeeps_def keeps_def)
  next
    case ClearData
    with Pair sf ks clear show ?thesis by (simp add: pageKeeps_def keeps_def)
  next
    case SyncEffects
    with Pair sf ks effects show ?thesis by (simp add: pageKeeps_def keeps_def)
  next
    case Reload
    with Pair sf reload show ?thesis by (simp add: pageKeeps_def keeps_def)
  qed
qed

lemma runSchedule_keeps:
  assumes "statementsKeep P" and "keeps P handleClearData"
    and "keeps P (\<lambda>s. syncFinishedAgents (syncAnalyzingAgents s))"
    and "keeps P (\<lambda>s. mount (localStorage s))"
    and "P s0"
  shows "P (fst (runSchedule acts (s0, [])))"
proof -
  have "pageKeeps P p \<Longrightarrow> pageKeeps P (runSchedule acts p)" for p
    unfolding runSchedule_def
    by (induction acts arbitrary: p) (simp_all add: act_pageKeeps [OF assms(1-4)])
  from this [of "(s0, [])"] assms(5) show ?thesis by (simp add: pageKeeps_def)
qed

subsection \<open>Single flight\<close>

lemma storedIds_upd_other [simp]:
  "k \<noteq> k' \<Longrightarrow> storedIds (st(k' \<mapsto> v)) k = storedIds st k"
  "k \<noteq> k' \<Longrightarrow> storedIds (st(k' := None)) k = storedIds st k"
  by (simp_all add: storedIds_def)

lemma storedIds_removed [simp]: "storedIds (st(k := None)) k = []"
  by (simp add: storedIds_def)

lemma idsOf_strings [simp]: "idsOf (map JStr xs) = xs"
  by (induction xs) simp_all

lemma storedIds_written [simp]: "storedIds (st(k \<mapsto> JArr (map JStr xs))) k = xs"
  by (simp add: storedIds_def)

lemma resultKey_other [simp]:
  "resultKey a \<noteq> ''opportunityAnalyzingAgents''"
  "''opportunityAnalyzingAgents'' \<noteq> resultKey a"
  "resultKey a \<noteq> ''opportunityResults''"
  "''opportunityResults'' \<noteq> resultKey a"
  "resultKey a \<noteq> ''opportunityAgentProgress''"
  "''opportunityAgentProgress'' \<noteq> resultKey a"
  by (simp_all add: resultKey_def)

lemma singleFlight_statements: "statementsKeep singleFlight"
proof -
  have "length (removeAll a xs) \<le> 1" if "length xs \<le> 1" for xs :: "agentId list" and a
    using that by (cases xs) (auto split: if_splits)
  then show ?thesis
    by (simp add: statementsKeep_def keeps_def singleFlight_def setDelete_def)
qed

lemma singleFlight_removeItem: "keeps singleFlight (removeItem k)"
  by (cases "k = ''opportunityAnalyzingAgents''") (simp_all add: keeps_def singleFlight_def)

lemma singleFlight_more:
  "keeps singleFlight (setAnalyzingAgentsArray [])"
  "keeps singleFlight (setLastViewedResult v1)"
  "keeps singleFlight (setLongContextResults v2)"
  "keeps singleFlight (setJtbdAnalysis v3)"
  "keeps singleFlight (setGainAnalysis v4)"
  "keeps singleFlight (setTimeout t)"
  by (simp_all add: keeps_def singleFlight_def storedIds_def)

lemma singleFlight_clear: "keeps singleFlight handleClearData"
  by (simp add: handleClearData_def clearAllState_def singleFlight_removeItem singleFlight_more
      statementsKeepD [OF singleFlight_statements])

lemma singleFlight_effects:
  "keeps singleFlight (\<lambda>s. syncFinishedAgents (syncAnalyzingAgents s))"
  by (simp add: keeps_def syncFinishedAgents_def syncAnalyzingAgents_def singleFlight_def)

lemma length_foldl_setAdd: "length (foldl setAdd acc xs) \<le> length acc + length xs"
proof (induction xs arbitrary: acc)
  case Nil
  show ?case by simp
next
  case (Cons x xs)
  have "length (foldl setAdd (setAdd acc x) xs) \<le> length (setAdd acc x) + length xs"
    by (rule Cons.IH)
  also have "length (setAdd acc x) \<le> length acc + 1"
    by (simp add: setAdd_def)
  finally show ?case by simp
qed

lemma singleFlight_reload: "keeps singleFlight (\<lambda>s. mount (localStorage s))"
proof -
  have "singleFlight (mount (localStorage s))" if "singleFlight s" for s
    using that length_foldl_setAdd [of "[]" "storedIds (localStorage s) ''opportunityAnalyzingAgents''"]
    by (simp add: singleFlight_def mount_def newSet_def)
  then show ?thesis by (simp add: keeps_def)
qed


subsection \<open>The mirror in local storage\<close>

lemma storedObj_upd [simp]:
  "k \<noteq> k' \<Longrightarrow> storedObj (st(k' \<mapsto> v)) k = storedObj st k"
  "k \<noteq> k' \<Longrightarrow> storedObj (st(k' := None)) k = storedObj st k"
  "storedObj (st(k \<mapsto> JObj ob)) k = ob"
  "storedObj (st(k := None)) k = []"
  by (simp_all add: storedObj_def)

lemma mount_reads [simp]:
  "localAnalysisResults (mount st) = storedObj st ''opportunityResults''"
  "agentProgress (mount st) = storedObj st ''opportunityAgentProgress''"
  "localStorage (mount st) = st"
  by (simp_all add: mount_def)

lemma mirrored_statements: "statementsKeep mirrored"
  by (simp add: statementsKeep_def keeps_def mirrored_def)

lemma lookup_frame:
  "localStorage (setTranscript v1 s) k = (if k = ''opportunityTranscript'' then Some (JStr v1) else localStorage s k)"
  "localStorage (setAnalyzingAgentsArray v2 s) k = (if k = ''opportunityAnalyzingAgents'' then Some (JArr (map JStr v2)) else localStorage s k)"
  "localStorage (setAnalyzingAgents f3 s) k = localStorage s k"
  "localStorage (setHasAnalyzed v4 s) k = (if k = ''opportunityHasAnalyzed'' then Some (JBool v4) else localStorage s k)"
  "localStorage (setLocalAnalysisResults f5 s) k = (if k = ''opportunityResults'' then Some (JObj (f5 (localAnalysisResults s))) else localStorage s k)"
  "localStorage (setAgentProgress f6 s) k = (if k = ''opportunityAgentProgress'' then Some (JObj (f6 (agentProgress s))) else localStorage s k)"
  "localStorage (setShowResult v7 s) k = (if k = ''opportunityShowResult'' then Some (optId v7) else localStorage s k)"
  "localStorage (setUserHasSelectedView v8 s) k = (if k = ''opportunityUserSelectedView'' then Some (JBool v8) else localStorage s k)"
  "localStorage (setCurrentAgent v9 s) k = localStorage s k"
  "localStorage (setLastViewedResult v10 s) k = (if k = ''lastViewedOpportunityResult'' then Some (optId v10) else localStorage s k)"
  "localStorage (setIsOptimizingTranscript v11 s) k = (if k = ''opportunityIsOptimizing'' then Some (JBool v11) else localStorage s k)"
  "localStorage (setOptimizationProgress v12 s) k = (if k = ''opportunityOptimizationProgress'' then Some (JNum v12) else localStorage s k)"
  "localStorage (setFinishedAgentsArray f13 s) k = (if k = ''opportunityFinishedAgents'' then Some (JArr (map JStr (f13 (finishedAgentsArray s)))) else localStorage s k)"
  "localStorage (setFinishedAgents f14 s) k = localStorage s k"
  "localStorage (setIsSequenceRunning v15 s) k = (if k = ''opportunityIsSequenceRunning'' then Some (JBool v15) else localStorage s k)"
  "localStorage (setLongContextResults v16 s) k = (if k = ''opportunityLongContextResults'' then Some v16 else localStorage s k)"
  "localStorage (setJtbdAnalysis v17 s) k = (if k = ''opportunityJtbdAnalysis'' then Some v17 else localStorage s k)"
  "localStorage (setGainAnalysis v18 s) k = (if k = ''opportunityGainAnalysis'' then Some v18 else localStorage s k)"
  "localStorage (setCurrentRunningAgent v19 s) k = (if k = ''opportunityCurrentAgent'' then Some (optId v19) else localStorage s k)"
  "localStorage (setPreviousTranscriptRef v20 s) k = localStorage s k"
  "localStorage (removeItem k1 s) k = (if k = k1 then None else localStorage s k)"
  "localStorage (setItem k2 w s) k = (if k = k2 then Some w else localStorage s k)"
  "localStorage (setTimeout t s) k = localStorage s k"
  "localStorage (emit ev s) k = localStorage s k"
  by simp_all

lemma mirrored_clear: "keeps mirrored handleClearData"
  by (simp add: keeps_def mirrored_def handleClearData_def clearAllState_def storedObj_def
      lookup_frame del: localStorage_frame)

lemma mirrored_effects: "keeps mirrored (\<lambda>s. syncFinishedAgents (syncAnalyzingAgents s))"
  by (simp add: keeps_def syncFinishedAgents_def syncAnalyzingAgents_def mirrored_def)

lemma mirrored_reload: "keeps mirrored (\<lambda>s. mount (localStorage s))"
  by (simp add: keeps_def mirrored_def)

text \<open>
  Claim C7. Load the page from any content of local storage and let anything happen, in
  any order. A reload at that point gives the same result payloads
  (\<open>localAnalysisResults\<close>) and the same progress records with their statuses
  (\<open>agentProgress\<close>) as the page had before the reload.
\<close>

theorem persistence_round_trip:
  "localAnalysisResults (fst (runSchedule (acts @ [Reload]) (mount st, [])))
     = localAnalysisResults (fst (runSchedule acts (mount st, [])))
   \<and> agentProgress (fst (runSchedule (acts @ [Reload]) (mount st, [])))
     = agentProgress (fst (runSchedule acts (mount st, [])))"
proof -
  have "mirrored (mount st)" by (simp add: mirrored_def)
  then have "mirrored (fst (runSchedule acts (mount st, [])))"
    by (rule runSchedule_keeps [of mirrored, OF mirrored_statements mirrored_clear
          mirrored_effects mirrored_reload])
  then show ?thesis
    by (cases "runSchedule acts (mount st, [])") (simp add: runSchedule_def mirrored_def)
qed

lemma startAnalysisSequence_split:
  "cTranscript c \<noteq> [] \<Longrightarrow>
   startAnalysisSequence c e = chunkingSteps c e resetBeforeSequence @ afterChunking c e"
  by (simp add: startAnalysisSequence_def agentSequence_def afterChunking_def)

lemma seq_progress_frame [simp]:
  "localAnalysisResults (seq (map setOptimizationProgress ps) s) = localAnalysisResults s"
  "finishedAgents (seq (map setOptimizationProgress ps) s) = finishedAgents s"
  "events (seq (map setOptimizationProgress ps) s) = events s"
  "agentProgress (seq (map setOptimizationProgress ps) s) = agentProgress s"
  "isSequenceRunning (seq (map setOptimizationProgress ps) s) = isSequenceRunning s"
  "analyzingAgents (seq (map setOptimizationProgress ps) s) = analyzingAgents s"
  by (induction ps arbitrary: s) simp_all

lemma chunking_failed_state:
  assumes "chunkingError c e = Some message"
  shows "localAnalysisResults (seq (chunkingSteps c e resetBeforeSequence) s)
           = [(''longContextChunking'', fallbackResult e message)]"
    and "optimizationProgress (seq (chunkingSteps c e resetBeforeSequence) s) = 100"
    and "finishedAgents (seq (chunkingSteps c e resetBeforeSequence) s)
           = setAdd (finishedAgents s) ''longContextChunking''"
    and "isSequenceRunning (seq (chunkingSteps c e resetBeforeSequence) s)"
    and "agentProgress (seq (chunkingSteps c e resetBeforeSequence) s) = []"
  using assms
  by (simp_all add: chunkingError_def chunkingSteps_def resetBeforeSequence_def Let_def seq_append
      split: if_splits chunkOutcome.splits)

lemma afterChunking_results:
  assumes "localAnalysisResults s = [(''longContextChunking'', r)]"
  shows "map fst (localAnalysisResults (seq (afterChunking c e) s)) = agentSequence"
  using assms
  by (simp add: afterChunking_def visualSteps_def seq_append agentSequence_def setProgressOf_def)

lemma afterChunking_length: "length (afterChunking c e) = 26"
  by (simp add: afterChunking_def visualSteps_def)

lemma afterChunking_more:
  "events (seq (afterChunking c e) s) =
     events s @ [ToastSuccess ''Analysis sequence completed successfully!'']"
  "isSequenceRunning (seq (afterChunking c e) s) = False"
  "finishedAgents (seq (afterChunking c e) s) =
     foldl setAdd (finishedAgents s) agentSequence"
  "map_of (agentProgress (seq (afterChunking c e) s)) ''longContextChunking''
     = Some (loadingRecord 100 ''success'' (now e))"
  "analyzingAgents (seq (afterChunking c e) s) = []"
  by (simp_all add: afterChunking_def visualSteps_def seq_append agentSequence_def
      setProgressOf_def setDelete_def update_conv')

lemma set_foldl_setAdd: "set (foldl setAdd acc xs) = set acc \<union> set xs"
  by (induction xs arbitrary: acc) (auto simp: setAdd_def)

lemma chunking_any_outcome:
  "truthyAt (localAnalysisResults (seq (chunkingSteps c e resetBeforeSequence) s))
     ''longContextChunking''"
  by (simp add: chunkingSteps_def resetBeforeSequence_def Let_def seq_append truthyAt_def
      chunkingStored_def fallbackResult_def split: chunkOutcome.splits)

lemma needs_unblocked:
  "truthyAt res ''longContextChunking'' \<Longrightarrow> missingPrerequisites res ''needsAnalysis'' = None"
  by (simp add: missingPrerequisites_def)

lemma sequence_finishes_all:
  assumes "cTranscript c \<noteq> []"
  shows "set agentSequence \<subseteq> set (finishedAgents (seq (startAnalysisSequence c e) s))"
  by (simp add: startAnalysisSequence_split [OF assms] seq_append afterChunking_more
      set_foldl_setAdd)

subsection \<open>A failure of the chunking step\<close>

text \<open>
  Claim C10. When the chunking step of the automatic sequence throws with \<open>message\<close>, the
  sequence stores for \<open>longContextChunking\<close> the fallback result, which has
  \<open>completed: true\<close> and the message as its \<open>error\<close>, sets the optimization progress to
  100, adds the agent to \<open>finishedAgents\<close> and leaves the sequence running; the dependency
  check of \<open>needsAnalysis\<close> finds nothing missing in the results at that point. The
  sequence then runs to its end: all five agents have a result and are finished, the
  progress record of \<open>longContextChunking\<close> says success at 100, and the last event is the
  toast of a completed sequence.
\<close>

theorem chunking_failure_continues:
  assumes "cTranscript c \<noteq> []" and "chunkingError c e = Some message"
  shows "startAnalysisSequence c e = chunkingSteps c e resetBeforeSequence @ afterChunking c e
     \<and> map_of (localAnalysisResults (seq (chunkingSteps c e resetBeforeSequence) s))
           ''longContextChunking'' = Some (fallbackResult e message)
     \<and> getProp (fallbackResult e message) ''completed'' = Some (JBool True)
     \<and> getProp (fallbackResult e message) ''error'' = Some (JStr message)
     \<and> optimizationProgress (seq (chunkingSteps c e resetBeforeSequence) s) = 100
     \<and> ''longContextChunking'' \<in> set (finishedAgents (seq (chunkingSteps c e resetBeforeSequence) s))
     \<and> isSequenceRunning (seq (chunkingSteps c e resetBeforeSequence) s)
     \<and> missingPrerequisites (localAnalysisResults (seq (chunkingSteps c e resetBeforeSequence) s))
           ''needsAnalysis'' = None
     \<and> map fst (localAnalysisResults (seq (startAnalysisSequence c e) s)) = agentSequence
     \<and> set agentSequence \<subseteq> set (finishedAgents (seq (startAnalysisSequence c e) s))
     \<and> map_of (agentProgress (seq (startAnalysisSequence c e) s)) ''longContextChunking''
           = Some (loadingRecord 100 ''success'' (now e))
     \<and> last (events (seq (startAnalysisSequence c e) s))
           = ToastSuccess ''Analysis sequence completed successfully!''"
proof -
  let ?s1 = "seq (chunkingSteps c e resetBeforeSequence) s"
  note split = startAnalysisSequence_split [OF assms(1), of e]
  note st = chunking_failed_state [OF assms(2), of s]
  have fin: "seq (startAnalysisSequence c e) s = seq (afterChunking c e) ?s1"
    by (simp add: split seq_append)
  have c1: "map_of (localAnalysisResults ?s1) ''longContextChunking'' = Some (fallbackResult e message)"
    by (simp add: st)
  have c2: "getProp (fallbackResult e message) ''completed'' = Some (JBool True)"
    and c3: "getProp (fallbackResult e message) ''error'' = Some (JStr message)"
    by (simp_all add: fallbackResult_def getProp_def)
  have c4: "''longContextChunking'' \<in> set (finishedAgents ?s1)"
    by (simp add: st setAdd_def)
  have c5: "missingPrerequisites (localAnalysisResults ?s1) ''needsAnalysis'' = None"
    by (rule needs_unblocked [OF chunking_any_outcome])
  have c6: "map fst (localAnalysisResults (seq (startAnalysisSequence c e) s)) = agentSequence"
    unfolding fin by (rule afterChunking_results [OF st(1)])
  have c7: "set agentSequence \<subseteq> set (finishedAgents (seq (startAnalysisSequence c e) s))"
    by (rule sequence_finishes_all [OF assms(1)])
  have c8: "map_of (agentProgress (seq (startAnalysisSequence c e) s)) ''longContextChunking''
           = Some (loadingRecord 100 ''success'' (now e))"
    and c9: "last (events (seq (startAnalysisSequence c e) s))
           = ToastSuccess ''Analysis sequence completed successfully!''"
    by (simp_all add: fin afterChunking_more)
  from split c1 c2 c3 st(2) c4 st(4) c5 c6 c7 c8 c9 show ?thesis
    by (intro conjI)
qed

lemma example_chunkingError:
  "chunkingError (render (exampleSession res running)) exampleEnv = Some ''Network error''"
  by (simp add: chunkingError_def trimIsEmpty_def isWhiteSpace_def exampleEnv_def)

text \<open>
  On the example page the chunking call is rejected with \<open>Network error\<close>: the fallback
  result is stored and the sequence ends with results for all five agents.
\<close>

theorem chunking_failure_continues_witness:
  "cTranscript (render (exampleSession [] False)) \<noteq> []
   \<and> chunkingError (render (exampleSession [] False)) exampleEnv = Some ''Network error''
   \<and> map_of (localAnalysisResults
         (seq (chunkingSteps (render (exampleSession [] False)) exampleEnv resetBeforeSequence)
            (exampleSession [] False))) ''longContextChunking''
       = Some (fallbackResult exampleEnv ''Network error'')
   \<and> map fst (localAnalysisResults
         (seq (startAnalysisSequence (render (exampleSession [] False)) exampleEnv)
            (exampleSession [] False))) = agentSequence"
proof -
  have h: "cTranscript (render (exampleSession [] False)) \<noteq> []" by simp
  from chunking_failure_continues [OF h example_chunkingError, of "exampleSession [] False"]
    h example_chunkingError [of "[]" False]
  show ?thesis by blast
qed

lemma runSchedule_Nil [simp]: "runSchedule [] p = p"
  by (simp add: runSchedule_def)

lemma runSchedule_Cons [simp]: "runSchedule (a # acts) p = runSchedule acts (act p a)"
  by (simp add: runSchedule_def)

lemma runSchedule_append: "runSchedule (xs @ ys) p = runSchedule ys (runSchedule xs p)"
  by (simp add: runSchedule_def)

lemma runSchedule_steps:
  "runSchedule (replicate n (TaskStep 0)) (s, [fs]) = (seq (take n fs) s, [drop n fs])"
proof (induction n arbitrary: s fs)
  case 0
  show ?case by simp
next
  case (Suc n)
  show ?case
  proof (cases fs)
    case Nil
    with Suc [of s "[]"] show ?thesis by simp
  next
    case (Cons f fs')
    with Suc [of "f s" fs'] show ?thesis by simp
  qed
qed

lemma example_steps:
  "startAnalysisSequence (render (exampleSession res running)) exampleEnv =
     [seq [resetBeforeSequence, setIsOptimizingTranscript True, setOptimizationProgress 5,
           emit (ChunkingCalled ''hello'' ''sk-test'')],
      seq [seq [setLocalAnalysisResults
                  (\<lambda>prev. AList.update ''longContextChunking''
                     (fallbackResult exampleEnv ''Network error'') prev),
                setOptimizationProgress 100],
           seq [setFinishedAgents (\<lambda>prev. setAdd prev ''longContextChunking''),
                setOptimizationProgress 100]]]
     @ afterChunking (render (exampleSession res running)) exampleEnv"
  by (simp add: startAnalysisSequence_split chunkingSteps_def Let_def trimIsEmpty_def
      isWhiteSpace_def) (simp add: exampleEnv_def)

subsection \<open>The automatic sequence and prerequisites\<close>

text \<open>
  Claim C1 as stated fails: 23 steps into the automatic sequence on the example page,
  \<open>finalReport\<close> is the analyzing agent, and its prerequisite \<open>problemAwareness\<close>,
  which is not part of the sequence, has no result.
\<close>

theorem sequence_runs_finalReport_ungated:
  "analyzingAgents (fst (runSchedule (ClickAnalyze exampleEnv # replicate 23 (TaskStep 0))
       (exampleSession [] False, []))) = [''finalReport'']
   \<and> prerequisiteIds ''finalReport'' = [''problemAwareness'']
   \<and> \<not> truthyAt (localAnalysisResults (fst (runSchedule
          (ClickAnalyze exampleEnv # replicate 23 (TaskStep 0))
          (exampleSession [] False, [])))) ''problemAwareness''"
proof -
  let ?c = "render (exampleSession [] False)"
  have run: "runSchedule (ClickAnalyze exampleEnv # replicate 23 (TaskStep 0))
       (exampleSession [] False, [])
     = (seq (take 23 (startAnalysisSequence ?c exampleEnv)) (exampleSession [] False),
        [drop 23 (startAnalysisSequence ?c exampleEnv)])"
    by (simp add: runSchedule_steps)
  have a: "analyzingAgents (seq (take 23 (startAnalysisSequence ?c exampleEnv)) (exampleSession [] False))
       = [''finalReport'']"
    by (simp add: example_steps afterChunking_def visualSteps_def setProgressOf_def)
  have r: "map fst (localAnalysisResults
       (seq (take 23 (startAnalysisSequence ?c exampleEnv)) (exampleSession [] False)))
       = [''longContextChunking'', ''needsAnalysis'', ''demandAnalyst'', ''opportunityQualification'']"
    by (simp add: example_steps afterChunking_def visualSteps_def setProgressOf_def
        resetBeforeSequence_def)
  have "map_of (localAnalysisResults
       (seq (take 23 (startAnalysisSequence ?c exampleEnv)) (exampleSession [] False)))
       ''problemAwareness'' = None"
  proof -
    have "''problemAwareness'' \<notin> set (map fst (localAnalysisResults
       (seq (take 23 (startAnalysisSequence ?c exampleEnv)) (exampleSession [] False))))"
      unfolding r by simp
    then show ?thesis by (simp add: map_of_eq_None_iff)
  qed
  then show ?thesis
    unfolding run using a by (simp add: truthyAt_def prerequisiteIds_def)
qed

subsection \<open>handleReset\<close>

lemma handleReset_state:
  assumes "confirmReset e"
  shows "transcript (handleReset e s) = []"
    and "analyzingAgents (handleReset e s) = []"
    and "analyzingAgentsArray (handleReset e s) = []"
    and "\<not> hasAnalyzed (handleReset e s)"
    and "localAnalysisResults (handleReset e s) = []"
    and "agentProgress (handleReset e s) = []"
    and "showResult (handleReset e s) = None"
    and "lastViewedResult (handleReset e s) = None"
    and "\<not> userHasSelectedView (handleReset e s)"
    and "currentRunningAgent (handleReset e s) = None"
    and "\<not> isSequenceRunning (handleReset e s)"
    and "\<not> isOptimizingTranscript (handleReset e s)"
    and "optimizationProgress (handleReset e s) = 0"
    and "finishedAgents (handleReset e s) = []"
    and "finishedAgentsArray (handleReset e s) = []"
    and "longContextResults (handleReset e s) = JObj []"
    and "jtbdAnalysis (handleReset e s) = JObj []"
    and "gainAnalysis (handleReset e s) = JObj []"
    and "previousTranscriptRef (handleReset e s) = []"
    and "events (handleReset e s) = events s @ [ToastSuccess ''Analysis reset successfully'']"
    and "timers (handleReset e s) = timers s @ [ReloadTimer]"
  using assms by (simp_all add: handleReset_def resetKeys_def)

lemma handleReset_storage:
  assumes "confirmReset e"
  shows "localStorage (handleReset e s) k = (if k \<in> set resetKeys then None else localStorage s k)"
  using assms
  by (simp add: handleReset_def resetKeys_def lookup_frame del: localStorage_frame)

lemma handleReset_reload:
  assumes "confirmReset e"
  shows "transcript (mount (localStorage (handleReset e s))) = []"
    and "analyzingAgents (mount (localStorage (handleReset e s))) = []"
    and "\<not> hasAnalyzed (mount (localStorage (handleReset e s)))"
    and "localAnalysisResults (mount (localStorage (handleReset e s))) = []"
    and "agentProgress (mount (localStorage (handleReset e s))) = []"
    and "showResult (mount (localStorage (handleReset e s))) = None"
    and "finishedAgents (mount (localStorage (handleReset e s))) = []"
    and "\<not> isSequenceRunning (mount (localStorage (handleReset e s)))"
  by (simp_all add: mount_def handleReset_storage [OF assms] resetKeys_def storedString_def
      storedIds_def storedBool_def storedObj_def storedId_def newSet_def)

subsection \<open>A reload after a complete sequence\<close>

text \<open>
  A complete sequence on the example page followed by a reload: the reloaded page has the
  results of all five agents.
\<close>

theorem persistence_round_trip_witness:
  "map fst (localAnalysisResults (fst (runSchedule
       ((ClickAnalyze exampleEnv # replicate 28 (TaskStep 0)) @ [Reload])
       (mount (exampleStorage [] False), [])))) = agentSequence"
proof -
  let ?s = "exampleSession [] False"
  let ?c = "render ?s"
  have len: "length (startAnalysisSequence ?c exampleEnv) = 28"
    by (simp add: example_steps afterChunking_length)
  have run: "runSchedule (ClickAnalyze exampleEnv # replicate 28 (TaskStep 0)) (?s, [])
     = (seq (startAnalysisSequence ?c exampleEnv) ?s, [[]])"
    by (simp add: runSchedule_steps len)
  have h: "cTranscript ?c \<noteq> []" by simp
  have "map fst (localAnalysisResults (seq (startAnalysisSequence ?c exampleEnv) ?s)) = agentSequence"
    unfolding startAnalysisSequence_split [OF h] seq_append
    by (rule afterChunking_results [OF chunking_failed_state(1) [OF example_chunkingError]])
  with run persistence_round_trip [of "ClickAnalyze exampleEnv # replicate 28 (TaskStep 0)"
      "exampleStorage [] False"]
  show ?thesis by (simp add: exampleSession_def)
qed

subsection \<open>GradeTranscripts: the key check and the calls\<close>

lemma startsWith_sk: "startsWith k ''sk-'' \<Longrightarrow> k \<noteq> []"
  by (cases k) simp_all

lemma checkApiKey_accepted: "keyAccepted g \<Longrightarrow> checkApiKey g s = (True, s)"
  by (auto simp: keyAccepted_def checkApiKey_def split: option.splits)

lemma checkApiKey_rejected:
  "\<not> keyAccepted g \<Longrightarrow>
     \<exists>msg. checkApiKey g s = (False, gEmit (GToastError msg) s)"
  by (auto simp: keyAccepted_def checkApiKey_def split: option.splits)

lemma analysisCalls_append [simp]:
  "analysisCalls (xs @ ys) = analysisCalls xs @ analysisCalls ys"
  by (simp add: analysisCalls_def)

lemma analysisCalls_simps [simp]:
  "analysisCalls [] = []"
  "analysisCalls [GToastError m] = []"
  "analysisCalls [GToastInfo m] = []"
  "analysisCalls [AnalysisCalled a content] = [(a, content)]"
  by (simp_all add: analysisCalls_def)

lemma analysisCalls_Cons [simp]:
  "analysisCalls (AnalysisCalled a content # es) = (a, content) # analysisCalls es"
  "analysisCalls (GToastError m # es) = analysisCalls es"
  "analysisCalls (GToastInfo m # es) = analysisCalls es"
  by (simp_all add: analysisCalls_def)

lemma analysisCalls_replicate:
  "analysisCalls (replicate n (AnalysisCalled a content)) = replicate n (a, content)"
  by (induction n) (simp_all add: analysisCalls_def)

lemma beforeCall_rejected:
  assumes "\<not> keyAccepted g"
  shows "\<exists>msg. beforeCall g a s = (None, resetAnalysisState (gEmit (GToastError msg) s))"
proof -
  from checkApiKey_rejected [OF assms, of s] obtain msg where
    "checkApiKey g s = (False, gEmit (GToastError msg) s)" by blast
  then show ?thesis by (auto simp: beforeCall_def)
qed

lemma runAnalysisRef_no_key:
  assumes "\<not> keyAccepted g"
  shows "\<exists>msg. runAnalysisRef g a content outs s =
           (resetAnalysisState (gEmit (GToastError msg) s), outs)"
proof -
  from beforeCall_rejected [OF assms, of a s] obtain msg where
    b: "beforeCall g a s = (None, resetAnalysisState (gEmit (GToastError msg) s))" by blast
  then show ?thesis by (cases outs) auto
qed

lemma beforeCall_accepted:
  assumes "keyAccepted g" and "retryCount (refAgentStates s a) < maxRetries g"
  shows "beforeCall g a s =
     (let s3 = s\<lparr>agentStates := (agentStates s)
                  (a := (agentStates s a)
                     \<lparr>isAnalyzing := True, progress := 0,
                      retryCount := retryCount (agentStates s a) + 1\<rparr>)\<rparr>
      in (Some s3, s3))"
  using assms by (simp add: beforeCall_def checkApiKey_accepted)

lemma beforeCall_exhausted:
  assumes "keyAccepted g" and "retryCount (refAgentStates s a) \<ge> maxRetries g"
  shows "beforeCall g a s =
     (None,
      gEmit (GToastError (''Failed to complete '' @ agentKey a @
               '' analysis after '' @ showNat (maxRetries g) @ '' attempts''))
        (s\<lparr>gIsSequenceRunning := False,
           sessionStorage := (sessionStorage s)(''isSequenceRunning'' \<mapsto> JStr ''false'')\<rparr>))"
  using assms by (simp add: beforeCall_def checkApiKey_accepted)

lemma awaiting_simps [simp]:
  "retryCount (agentStates (awaiting a content s) a) = retryCount (agentStates s a) + 1"
  "progress (agentStates (awaiting a content s) a) = 0"
  "isAnalyzing (agentStates (awaiting a content s) a)"
  "results (agentStates (awaiting a content s) a) = results (agentStates s a)"
  "showResults (agentStates (awaiting a content s) a) = showResults (agentStates s a)"
  "b \<noteq> a \<Longrightarrow> agentStates (awaiting a content s) b = agentStates s b"
  "refAgentStates (awaiting a content s) = refAgentStates s"
  "gEvents (awaiting a content s) = gEvents s @ [AnalysisCalled a content]"
  "gIsSequenceRunning (awaiting a content s) = gIsSequenceRunning s"
  "gIsAnalyzing (awaiting a content s) = gIsAnalyzing s"
  "gCurrentAnalysisIndex (awaiting a content s) = gCurrentAnalysisIndex s"
  by (simp_all add: awaiting_def gEmit_def)

lemma run_unfold:
  assumes "keyAccepted g" and "retryCount (refAgentStates s a) < maxRetries g"
  shows "runAnalysisRef g a content (out # outs) s =
     (let s2 = (if handledAfterRender out then syncStateRef (awaiting a content s)
                else awaiting a content s) in
      case outcome out of
        Resolved res \<Rightarrow> (afterResolved g a res s2, outs)
      | Rejected message \<Rightarrow>
          if message \<noteq> [] \<and> includesStr message ''API key'' then
            (resetAnalysisState (gEmit (GToastError message) s2), outs)
          else if retryCount (refAgentStates s2 a) < maxRetries g then
            runAnalysisRef g a content outs (if retriedAfterRender out then syncStateRef s2 else s2)
          else
            (gEmit (GToastError (''Failed to complete '' @ agentKey a @
                      '' analysis. Please try again.''))
               (s2\<lparr>gIsSequenceRunning := False, gIsAnalyzing := False\<rparr>), outs))"
  using assms
  unfolding awaiting_def
  by (cases "outcome out") (simp_all add: beforeCall_accepted Let_def)

lemma run_pending:
  assumes "keyAccepted g" and "retryCount (refAgentStates s a) < maxRetries g"
  shows "runAnalysisRef g a content [] s = (awaiting a content s, [])"
  using assms unfolding awaiting_def by (simp add: beforeCall_accepted Let_def)

declare runAnalysisRef.simps [simp del]

lemma syncStateRef_simps [simp]:
  "agentStates (syncStateRef s) = agentStates s"
  "refAgentStates (syncStateRef s) = agentStates s"
  "gEvents (syncStateRef s) = gEvents s"
  "gIsSequenceRunning (syncStateRef s) = gIsSequenceRunning s"
  "gIsAnalyzing (syncStateRef s) = gIsAnalyzing s"
  "gCurrentAnalysisIndex (syncStateRef s) = gCurrentAnalysisIndex s"
  "gTranscript (syncStateRef s) = gTranscript s"
  "syncStateRef (syncStateRef s) = syncStateRef s"
  by (simp_all add: syncStateRef_def)

lemma includesStr_empty [simp]: "\<not> includesStr [] ''API key''"
  by simp

lemma run_failed_retry:
  assumes "keyAccepted g" and "retryCount (refAgentStates s a) < maxRetries g"
    and "failsAfterRender c"
    and "retryCount (agentStates s a) + 1 < maxRetries g"
  shows "runAnalysisRef g a content (c # outs) s =
         runAnalysisRef g a content outs (syncStateRef (awaiting a content s))"
  using assms
  by (auto simp: run_unfold failsAfterRender_def Let_def split: callOutcome.splits)

lemma run_failed_final:
  assumes "keyAccepted g" and "retryCount (refAgentStates s a) < maxRetries g"
    and "failsAfterRender c"
    and "\<not> retryCount (agentStates s a) + 1 < maxRetries g"
  shows "runAnalysisRef g a content (c # outs) s =
     (gEmit (GToastError (''Failed to complete '' @ agentKey a @ '' analysis. Please try again.''))
        ((syncStateRef (awaiting a content s))\<lparr>gIsSequenceRunning := False, gIsAnalyzing := False\<rparr>),
      outs)"
  using assms
  by (auto simp: run_unfold failsAfterRender_def Let_def split: callOutcome.splits)

lemma run_rejected_credential:
  assumes "keyAccepted g" and "retryCount (refAgentStates s a) < maxRetries g"
    and "includesStr m ''API key''"
  shows "runAnalysisRef g a content (failure m h t # outs) s =
         (resetAnalysisState (gEmit (GToastError m)
            (if h then syncStateRef (awaiting a content s) else awaiting a content s)), outs)"
proof -
  from assms(3) have "m \<noteq> []" by (cases m) simp_all
  with assms show ?thesis by (simp add: run_unfold failure_def Let_def)
qed

lemma run_resolved:
  assumes "keyAccepted g" and "retryCount (refAgentStates s a) < maxRetries g"
    and "outcome c = Resolved r"
  shows "runAnalysisRef g a content (c # outs) s =
         (afterResolved g a r (if handledAfterRender c then syncStateRef (awaiting a content s)
                               else awaiting a content s), outs)"
  using assms by (simp add: run_unfold Let_def)

lemma run_exhausted:
  assumes "keyAccepted g" and "retryCount (refAgentStates s a) \<ge> maxRetries g"
  shows "runAnalysisRef g a content outs s =
     (gEmit (GToastError (''Failed to complete '' @ agentKey a @
               '' analysis after '' @ showNat (maxRetries g) @ '' attempts''))
        (s\<lparr>gIsSequenceRunning := False,
           sessionStorage := (sessionStorage s)(''isSequenceRunning'' \<mapsto> JStr ''false'')\<rparr>), outs)"
  using assms
  by (cases outs; simp add: runAnalysisRef.simps beforeCall_exhausted)

lemma retry_prefix:
  assumes "keyAccepted g"
    and "retryCount (refAgentStates s a) = retryCount (agentStates s a)"
    and "retryCount (agentStates s a) + length calls < maxRetries g"
    and "list_all failsAfterRender calls"
  shows "\<exists>s'. runAnalysisRef g a content (calls @ outs) s
                = runAnalysisRef g a content outs s'
            \<and> retryCount (agentStates s' a) = retryCount (agentStates s a) + length calls
            \<and> retryCount (refAgentStates s' a) = retryCount (agentStates s' a)
            \<and> results (agentStates s' a) = results (agentStates s a)
            \<and> gEvents s' = gEvents s @ replicate (length calls) (AnalysisCalled a content)
            \<and> gIsSequenceRunning s' = gIsSequenceRunning s
            \<and> gIsAnalyzing s' = gIsAnalyzing s
            \<and> gCurrentAnalysisIndex s' = gCurrentAnalysisIndex s"
  using assms
proof (induction calls arbitrary: s)
  case Nil
  then show ?case by auto
next
  case (Cons c cs)
  let ?s1 = "syncStateRef (awaiting a content s)"
  from Cons.prems have step:
    "runAnalysisRef g a content ((c # cs) @ outs) s =
     runAnalysisRef g a content (cs @ outs) ?s1"
    by (simp add: run_failed_retry)
  from Cons.prems have
    "\<exists>s'. runAnalysisRef g a content (cs @ outs) ?s1
                = runAnalysisRef g a content outs s'
            \<and> retryCount (agentStates s' a) = retryCount (agentStates ?s1 a) + length cs
            \<and> retryCount (refAgentStates s' a) = retryCount (agentStates s' a)
            \<and> results (agentStates s' a) = results (agentStates ?s1 a)
            \<and> gEvents s' = gEvents ?s1 @ replicate (length cs) (AnalysisCalled a content)
            \<and> gIsSequenceRunning s' = gIsSequenceRunning ?s1
            \<and> gIsAnalyzing s' = gIsAnalyzing ?s1
            \<and> gCurrentAnalysisIndex s' = gCurrentAnalysisIndex ?s1"
    by (intro Cons.IH) simp_all
  then obtain s' where s':
    "runAnalysisRef g a content (cs @ outs) ?s1 = runAnalysisRef g a content outs s'"
    "retryCount (agentStates s' a) = retryCount (agentStates ?s1 a) + length cs"
    "retryCount (refAgentStates s' a) = retryCount (agentStates s' a)"
    "results (agentStates s' a) = results (agentStates ?s1 a)"
    "gEvents s' = gEvents ?s1 @ replicate (length cs) (AnalysisCalled a content)"
    "gIsSequenceRunning s' = gIsSequenceRunning ?s1"
    "gIsAnalyzing s' = gIsAnalyzing ?s1"
    "gCurrentAnalysisIndex s' = gCurrentAnalysisIndex ?s1"
    by blast
  with step show ?case
    by (intro exI [of _ s']) (simp add: replicate_append_same)
qed

lemma exampleG_accepted: "keyAccepted exampleG"
  by (simp add: keyAccepted_def exampleG_def)

lemma failsAfterRender_failure [simp]:
  "failsAfterRender (failure m h t) \<longleftrightarrow> h \<and> \<not> includesStr m ''API key''"
  by (simp add: failsAfterRender_def failure_def)

lemma progressionEffect_stopped:
  "\<not> gIsSequenceRunning s \<Longrightarrow> progressionEffect g s = (None, s)"
  by (simp add: progressionEffect_def)

lemma afterResolved_results:
  "results (agentStates (afterResolved g a r s) a) = Some r"
  by (simp add: afterResolved_def Let_def)

subsection \<open>Retries in GradeTranscripts\<close>

text \<open>
  Claim C3, as amended. With an accepted API key and a bound \<open>MAX_RETRIES\<close> of at least
  one, take an agent whose retry count is zero in the state and in \<open>stateRef\<close>, and let
  its calls fail \<open>MAX_RETRIES\<close> times in a row with errors that do not mention the API key,
  each failure handled after the component has rendered. The agent is called exactly that
  many times and then given up: its record has the retry count \<open>MAX_RETRIES\<close>, progress 0
  and the results it had, and is still marked as analyzing; the failure is reported, the
  sequence flag and the analyzing flag of the page are cleared, and the progression
  effect starts no further agent. A later \<open>runAnalysisRef\<close> for the agent makes no
  call, before and after the next render. Fewer failures followed by a result store the
  result instead.
\<close>

theorem retry_bound:
  assumes "keyAccepted g" and "0 < maxRetries g"
    and "retryCount (agentStates s a) = 0" and "retryCount (refAgentStates s a) = 0"
    and "length calls = maxRetries g"
    and "list_all failsAfterRender calls"
  shows "\<exists>s'. runAnalysisRef g a content (calls @ outs) s = (s', outs)
     \<and> analysisCalls (gEvents s') = analysisCalls (gEvents s) @ replicate (maxRetries g) (a, content)
     \<and> retryCount (agentStates s' a) = maxRetries g
     \<and> progress (agentStates s' a) = 0
     \<and> results (agentStates s' a) = results (agentStates s a)
     \<and> isAnalyzing (agentStates s' a)
     \<and> \<not> gIsSequenceRunning s' \<and> \<not> gIsAnalyzing s'
     \<and> last (gEvents s') =
         GToastError (''Failed to complete '' @ agentKey a @ '' analysis. Please try again.'')
     \<and> fst (progressionEffect g s') = None
     \<and> snd (runAnalysisRef g a content later s') = later
     \<and> analysisCalls (gEvents (fst (runAnalysisRef g a content later s'))) = analysisCalls (gEvents s')
     \<and> snd (runAnalysisRef g a content later (syncStateRef s')) = later
     \<and> analysisCalls (gEvents (fst (runAnalysisRef g a content later (syncStateRef s'))))
         = analysisCalls (gEvents s')
     \<and> (j < maxRetries g \<and> outcome c = Resolved r \<longrightarrow>
          results (agentStates (fst (runAnalysisRef g a content (take j calls @ c # outs) s)) a)
            = Some r)"
proof -
  from assms(2,5) obtain cs c' where calls: "calls = cs @ [c']"
    by (cases calls rule: rev_cases) auto
  with assms have cs: "retryCount (agentStates s a) + length cs < maxRetries g"
    "list_all failsAfterRender cs" "failsAfterRender c'"
    "Suc (length cs) = maxRetries g"
    by simp_all
  from retry_prefix [OF assms(1) _ cs(1,2), of content "c' # outs"] assms(3,4)
  obtain s1 where s1:
    "runAnalysisRef g a content (cs @ c' # outs) s = runAnalysisRef g a content (c' # outs) s1"
    "retryCount (agentStates s1 a) = length cs"
    "retryCount (refAgentStates s1 a) = retryCount (agentStates s1 a)"
    "results (agentStates s1 a) = results (agentStates s a)"
    "gEvents s1 = gEvents s @ replicate (length cs) (AnalysisCalled a content)"
    by auto
  define s' where "s' = gEmit (GToastError (''Failed to complete '' @ agentKey a @ '' analysis. Please try again.''))
        ((syncStateRef (awaiting a content s1))\<lparr>gIsSequenceRunning := False, gIsAnalyzing := False\<rparr>)"
  from s1 cs have fin: "runAnalysisRef g a content (c' # outs) s1 = (s', outs)"
    unfolding s'_def using assms(1) by (intro run_failed_final) simp_all
  have run: "runAnalysisRef g a content (calls @ outs) s = (s', outs)"
    using s1(1) fin calls by simp
  have calls': "analysisCalls (gEvents s') =
      analysisCalls (gEvents s) @ replicate (maxRetries g) (a, content)"
    using s1(5) cs(4) [symmetric]
    by (simp add: s'_def gEmit_def analysisCalls_replicate replicate_append_same)
  have cnt: "retryCount (agentStates s' a) = maxRetries g"
    "progress (agentStates s' a) = 0"
    "results (agentStates s' a) = results (agentStates s a)"
    "isAnalyzing (agentStates s' a)"
    using s1(2,4) cs(4) by (simp_all add: s'_def gEmit_def)
  have flags: "\<not> gIsSequenceRunning s'" "\<not> gIsAnalyzing s'"
    "last (gEvents s') =
         GToastError (''Failed to complete '' @ agentKey a @ '' analysis. Please try again.'')"
    by (simp_all add: s'_def gEmit_def)
  have refcnt: "retryCount (refAgentStates s' a) \<ge> maxRetries g"
    "retryCount (refAgentStates (syncStateRef s') a) \<ge> maxRetries g"
    using s1(2) cs(4) by (simp_all add: s'_def gEmit_def)
  have later: "snd (runAnalysisRef g a content later s') = later"
    "analysisCalls (gEvents (fst (runAnalysisRef g a content later s'))) = analysisCalls (gEvents s')"
    "snd (runAnalysisRef g a content later (syncStateRef s')) = later"
    "analysisCalls (gEvents (fst (runAnalysisRef g a content later (syncStateRef s'))))
       = analysisCalls (gEvents s')"
    by (simp_all add: run_exhausted [OF assms(1) refcnt(1)] run_exhausted [OF assms(1) refcnt(2)]
        gEmit_def)
  have early: "results (agentStates (fst (runAnalysisRef g a content (take j calls @ c # outs) s)) a)
            = Some r"
    if j: "j < maxRetries g" and c: "outcome c = Resolved r"
  proof -
    from j assms have pre: "retryCount (agentStates s a) + length (take j calls) < maxRetries g"
      "list_all failsAfterRender (take j calls)"
      by (simp_all add: list_all_iff, meson in_set_takeD)
    from retry_prefix [OF assms(1) _ pre, of content "c # outs"] assms(3,4)
    obtain s2 where s2:
      "runAnalysisRef g a content (take j calls @ c # outs) s
         = runAnalysisRef g a content (c # outs) s2"
      "retryCount (agentStates s2 a) = length (take j calls)"
      "retryCount (refAgentStates s2 a) = retryCount (agentStates s2 a)"
      by auto
    from s2 j assms(5) have "retryCount (refAgentStates s2 a) < maxRetries g" by simp
    from run_resolved [OF assms(1) this c, of content outs] s2(1) show ?thesis
      by (simp add: afterResolved_results)
  qed
  have prog: "fst (progressionEffect g s') = None"
    by (simp add: progressionEffect_stopped flags)
  from run calls' cnt flags prog later early
  show ?thesis
    by (intro exI [of _ s']) blast
qed

lemma exampleG_simps [simp]:
  "maxRetries exampleG = 3"
  "agentSequenceG exampleG = [Jtbd, Curse, ProblemFit, Priming, Recommendations]"
  by (simp_all add: exampleG_def)

lemma examplePageG_simps [simp]:
  "gTranscript examplePageG = ''hello''"
  "\<not> gIsAnalyzing examplePageG"
  "gEvents examplePageG = []"
  "agentStates examplePageG = (\<lambda>a. initialAgentState)"
  "refAgentStates examplePageG = (\<lambda>a. initialAgentState)"
  by (simp_all add: examplePageG_def gHandleContentChange_def initialGState_def syncStateRef_def)

lemma handleAnalyze_accepted:
  assumes "keyAccepted g" and "gTranscript s \<noteq> []"
  shows "handleAnalyze g first outs s =
     runAnalysisRef g first (gTranscript s) outs
       ((resetAnalysisState s)\<lparr>gIsAnalyzing := True, gIsSequenceRunning := True\<rparr>)"
  using assms by (simp add: handleAnalyze_def checkApiKey_accepted)

lemma handleAnalyze_rejected:
  assumes "\<not> keyAccepted g" and "gTranscript s \<noteq> []"
  shows "\<exists>msg. handleAnalyze g first outs s = (gEmit (GToastError msg) s, outs)"
proof -
  from checkApiKey_rejected [OF assms(1), of s] obtain msg where
    "checkApiKey g s = (False, gEmit (GToastError msg) s)" by blast
  with assms(2) show ?thesis by (auto simp: handleAnalyze_def)
qed

lemma resetAnalysisState_simps [simp]:
  "agentStates (resetAnalysisState s) = (\<lambda>a. initialAgentState)"
  "refAgentStates (resetAnalysisState s) = refAgentStates s"
  "gEvents (resetAnalysisState s) = gEvents s"
  "\<not> gIsSequenceRunning (resetAnalysisState s)"
  "\<not> gIsAnalyzing (resetAnalysisState s)"
  "gTranscript (resetAnalysisState s) = gTranscript s"
  by (simp_all add: resetAnalysisState_def)

lemma initialAgentState_simps [simp]:
  "retryCount initialAgentState = 0"
  "results initialAgentState = None"
  "progress initialAgentState = 0"
  "\<not> isAnalyzing initialAgentState"
  "\<not> showResults initialAgentState"
  by (simp_all add: initialAgentState_def)

text \<open>
  Analyze on the example page of GradeTranscripts, with three failures handled after the
  render and the bound at three: three calls, and the sequence is stopped.
\<close>

theorem retry_bound_witness:
  "analyzeEnabledG examplePageG
   \<and> snd (handleAnalyze exampleG Jtbd
          [failure ''Network error'' True True, failure ''Network error'' True True,
           failure ''Network error'' True True,
           \<lparr>outcome = Resolved JNull, handledAfterRender = True, retriedAfterRender = True\<rparr>]
          examplePageG)
       = [\<lparr>outcome = Resolved JNull, handledAfterRender = True, retriedAfterRender = True\<rparr>]
   \<and> analysisCalls (gEvents (fst (handleAnalyze exampleG Jtbd
          [failure ''Network error'' True True, failure ''Network error'' True True,
           failure ''Network error'' True True,
           \<lparr>outcome = Resolved JNull, handledAfterRender = True, retriedAfterRender = True\<rparr>]
          examplePageG)))
       = [(Jtbd, ''hello''), (Jtbd, ''hello''), (Jtbd, ''hello'')]
   \<and> retryCount (agentStates (fst (handleAnalyze exampleG Jtbd
          [failure ''Network error'' True True, failure ''Network error'' True True,
           failure ''Network error'' True True,
           \<lparr>outcome = Resolved JNull, handledAfterRender = True, retriedAfterRender = True\<rparr>]
          examplePageG)) Jtbd) = 3
   \<and> \<not> gIsSequenceRunning (fst (handleAnalyze exampleG Jtbd
          [failure ''Network error'' True True, failure ''Network error'' True True,
           failure ''Network error'' True True,
           \<lparr>outcome = Resolved JNull, handledAfterRender = True, retriedAfterRender = True\<rparr>]
          examplePageG))"
proof -
  let ?s = "(resetAnalysisState examplePageG)\<lparr>gIsAnalyzing := True, gIsSequenceRunning := True\<rparr>"
  let ?calls = "[failure ''Network error'' True True, failure ''Network error'' True True,
           failure ''Network error'' True True]"
  let ?r = "\<lparr>outcome = Resolved JNull, handledAfterRender = True, retriedAfterRender = True\<rparr>"
  have h: "0 < maxRetries exampleG" "retryCount (agentStates ?s Jtbd) = 0"
    "retryCount (refAgentStates ?s Jtbd) = 0"
    "length ?calls = maxRetries exampleG"
    "list_all failsAfterRender ?calls"
    by simp_all
  have e: "analyzeEnabledG examplePageG" by (simp add: analyzeEnabledG_def)
  have start: "handleAnalyze exampleG Jtbd (?calls @ [?r]) examplePageG
      = runAnalysisRef exampleG Jtbd ''hello'' (?calls @ [?r]) ?s"
    by (simp add: handleAnalyze_accepted exampleG_accepted)
  from retry_bound [OF exampleG_accepted h, of "''hello''" "[?r]"]
  obtain s' where
    "runAnalysisRef exampleG Jtbd ''hello'' (?calls @ [?r]) ?s = (s', [?r])"
    "analysisCalls (gEvents s') =
       analysisCalls (gEvents ?s) @ replicate (maxRetries exampleG) (Jtbd, ''hello'')"
    "retryCount (agentStates s' Jtbd) = maxRetries exampleG"
    "\<not> gIsSequenceRunning s'"
    by blast
  with start e show ?thesis
    by (simp add: numeral_3_eq_3)
qed

lemma digitChar_3: "digitChar 3 = CHR ''3''"
  unfolding digitChar_def by code_simp

lemma showNat_3: "showNat 3 = ''3''"
  by (simp add: showNat.simps [of 3] digitChar_3)

text \<open>
  Claim C3 as stated fails. After the three failures of the example the record of the
  agent is still marked as analyzing and holds nothing that says error: the record has no
  such field. When the third failure is handled before the component has rendered,
  \<open>stateRef\<close> still holds the count two: a retry is scheduled, it stops in the guard of
  line 153 with the toast of that guard, and the page stays marked as analyzing.
\<close>

theorem exhausted_agent_stays_analyzing:
  "analyzeEnabledG examplePageG
   \<and> agentStates (fst (handleAnalyze exampleG Jtbd
          [failure ''Network error'' True True, failure ''Network error'' True True,
           failure ''Network error'' True True] examplePageG)) Jtbd
       = \<lparr>isAnalyzing = True, progress = 0, results = None, showResults = False, retryCount = 3\<rparr>
   \<and> analysisCalls (gEvents (fst (handleAnalyze exampleG Jtbd
          [failure ''Network error'' True True, failure ''Network error'' True True,
           failure ''Network error'' False True] examplePageG)))
       = [(Jtbd, ''hello''), (Jtbd, ''hello''), (Jtbd, ''hello'')]
   \<and> last (gEvents (fst (handleAnalyze exampleG Jtbd
          [failure ''Network error'' True True, failure ''Network error'' True True,
           failure ''Network error'' False True] examplePageG)))
       = GToastError ''Failed to complete jtbd analysis after 3 attempts''
   \<and> gIsAnalyzing (fst (handleAnalyze exampleG Jtbd
          [failure ''Network error'' True True, failure ''Network error'' True True,
           failure ''Network error'' False True] examplePageG))
   \<and> isAnalyzing (agentStates (fst (handleAnalyze exampleG Jtbd
          [failure ''Network error'' True True, failure ''Network error'' True True,
           failure ''Network error'' False True] examplePageG)) Jtbd)"
proof -
  let ?s = "(resetAnalysisState examplePageG)\<lparr>gIsAnalyzing := True, gIsSequenceRunning := True\<rparr>"
  let ?f = "failure ''Network error'' True True"
  let ?s1 = "syncStateRef (awaiting Jtbd ''hello'' ?s)"
  let ?s2 = "syncStateRef (awaiting Jtbd ''hello'' ?s1)"
  have start: "handleAnalyze exampleG Jtbd outs examplePageG
      = runAnalysisRef exampleG Jtbd ''hello'' outs ?s" for outs
    by (simp add: handleAnalyze_accepted exampleG_accepted)
  have two: "runAnalysisRef exampleG Jtbd ''hello'' (?f # ?f # outs) ?s
      = runAnalysisRef exampleG Jtbd ''hello'' outs ?s2" for outs
    by (simp add: run_failed_retry exampleG_accepted)
  have a: "runAnalysisRef exampleG Jtbd ''hello'' [?f] ?s2
      = (gEmit (GToastError (''Failed to complete '' @ agentKey Jtbd @ '' analysis. Please try again.''))
           ((syncStateRef (awaiting Jtbd ''hello'' ?s2))
              \<lparr>gIsSequenceRunning := False, gIsAnalyzing := False\<rparr>), [])"
    by (rule run_failed_final) (simp_all add: exampleG_accepted)
  have b: "runAnalysisRef exampleG Jtbd ''hello'' [failure ''Network error'' False True] ?s2
      = runAnalysisRef exampleG Jtbd ''hello'' [] (syncStateRef (awaiting Jtbd ''hello'' ?s2))"
    by (simp add: run_unfold exampleG_accepted failure_def Let_def)
  have c: "runAnalysisRef exampleG Jtbd ''hello'' [] (syncStateRef (awaiting Jtbd ''hello'' ?s2))
      = (gEmit (GToastError (''Failed to complete '' @ agentKey Jtbd @
               '' analysis after '' @ showNat (maxRetries exampleG) @ '' attempts''))
        ((syncStateRef (awaiting Jtbd ''hello'' ?s2))\<lparr>gIsSequenceRunning := False,
           sessionStorage := (sessionStorage (syncStateRef (awaiting Jtbd ''hello'' ?s2)))
              (''isSequenceRunning'' \<mapsto> JStr ''false'')\<rparr>), [])"
    by (rule run_exhausted) (simp_all add: exampleG_accepted)
  have e: "analyzeEnabledG examplePageG" by (simp add: analyzeEnabledG_def)
  have rec: "agentStates (fst (handleAnalyze exampleG Jtbd [?f, ?f, ?f] examplePageG)) Jtbd
       = \<lparr>isAnalyzing = True, progress = 0, results = None, showResults = False, retryCount = 3\<rparr>"
    unfolding start two a
    by (simp add: gEmit_def awaiting_def initialAgentState_def)
  have stale: "handleAnalyze exampleG Jtbd [?f, ?f, failure ''Network error'' False True] examplePageG
      = (gEmit (GToastError (''Failed to complete '' @ agentKey Jtbd @
               '' analysis after '' @ showNat (maxRetries exampleG) @ '' attempts''))
        ((syncStateRef (awaiting Jtbd ''hello'' ?s2))\<lparr>gIsSequenceRunning := False,
           sessionStorage := (sessionStorage (syncStateRef (awaiting Jtbd ''hello'' ?s2)))
              (''isSequenceRunning'' \<mapsto> JStr ''false'')\<rparr>), [])"
    unfolding start two b c by (rule refl)
  show ?thesis
    unfolding stale using e rec
    by (simp add: gEmit_def showNat_3 digitChar_3)
qed

subsection \<open>A missing API key\<close>

text \<open>
  Claim C8, as amended. Without an API key \<open>processWithAgent\<close> returns \<open>null\<close> for every
  agent but \<open>longContextChunking\<close>: it shows an error toast and schedules its clean-up,
  and changes nothing else of the state. In GradeTranscripts, with a key that
  \<open>checkApiKey\<close> rejects, \<open>handleAnalyze\<close> shows the error and starts nothing, and
  \<open>runAnalysisRef\<close> shows the error, resets the analysis state and calls nothing; and a
  call that fails with an error about the API key is reported and followed by the same
  reset, with no retry.
\<close>

theorem missing_credential_is_fatal:
  "(cApiKey c = [] \<and> agentId \<noteq> ''longContextChunking'' \<longrightarrow>
      processWithAgent c e agentId s =
        (None, s\<lparr>timers := timers s @ [CleanupTimer agentId c],
                 events := events s @ [ProcessWithAgentCalled agentId,
                             ToastError ''API key is missing. Please add it in Settings.'']\<rparr>))
   \<and> (\<not> keyAccepted g \<and> gTranscript gs \<noteq> [] \<longrightarrow>
        (\<exists>msg. handleAnalyze g a outs gs = (gEmit (GToastError msg) gs, outs)))
   \<and> (\<not> keyAccepted g \<longrightarrow>
        (\<exists>msg. runAnalysisRef g a content outs gs =
                 (resetAnalysisState (gEmit (GToastError msg) gs), outs)))
   \<and> (keyAccepted g \<and> retryCount (refAgentStates gs a) < maxRetries g \<and>
        includesStr m ''API key'' \<longrightarrow>
        snd (runAnalysisRef g a content (failure m h t # outs) gs) = outs
        \<and> analysisCalls (gEvents (fst (runAnalysisRef g a content (failure m h t # outs) gs)))
            = analysisCalls (gEvents gs) @ [(a, content)]
        \<and> last (gEvents (fst (runAnalysisRef g a content (failure m h t # outs) gs))) = GToastError m
        \<and> \<not> gIsSequenceRunning (fst (runAnalysisRef g a content (failure m h t # outs) gs))
        \<and> \<not> gIsAnalyzing (fst (runAnalysisRef g a content (failure m h t # outs) gs)))"
proof (intro conjI impI)
  assume "cApiKey c = [] \<and> agentId \<noteq> ''longContextChunking''"
  then show "processWithAgent c e agentId s =
        (None, s\<lparr>timers := timers s @ [CleanupTimer agentId c],
                 events := events s @ [ProcessWithAgentCalled agentId,
                             ToastError ''API key is missing. Please add it in Settings.'']\<rparr>)"
    by (simp add: processWithAgent_def cleanupAgentState_def emit_def setTimeout_def)
next
  assume "\<not> keyAccepted g \<and> gTranscript gs \<noteq> []"
  then show "\<exists>msg. handleAnalyze g a outs gs = (gEmit (GToastError msg) gs, outs)"
    by (intro handleAnalyze_rejected) simp_all
next
  assume "\<not> keyAccepted g"
  then show "\<exists>msg. runAnalysisRef g a content outs gs =
                 (resetAnalysisState (gEmit (GToastError msg) gs), outs)"
    by (rule runAnalysisRef_no_key)
next
  assume h: "keyAccepted g \<and> retryCount (refAgentStates gs a) < maxRetries g \<and>
        includesStr m ''API key''"
  then have r: "runAnalysisRef g a content (failure m h t # outs) gs =
         (resetAnalysisState (gEmit (GToastError m)
            (if h then syncStateRef (awaiting a content gs) else awaiting a content gs)), outs)"
    by (intro run_rejected_credential) simp_all
  show "snd (runAnalysisRef g a content (failure m h t # outs) gs) = outs"
    by (simp add: r)
  show "analysisCalls (gEvents (fst (runAnalysisRef g a content (failure m h t # outs) gs)))
            = analysisCalls (gEvents gs) @ [(a, content)]"
    by (simp add: r gEmit_def)
  show "last (gEvents (fst (runAnalysisRef g a content (failure m h t # outs) gs))) = GToastError m"
    by (simp add: r gEmit_def)
  show "\<not> gIsSequenceRunning (fst (runAnalysisRef g a content (failure m h t # outs) gs))"
    by (simp add: r)
  show "\<not> gIsAnalyzing (fst (runAnalysisRef g a content (failure m h t # outs) gs))"
    by (simp add: r)
qed

text \<open>
  The cases of C8: \<open>processWithAgent\<close> on a page without a key, Analyze in
  GradeTranscripts without a stored key, and a call refused for its key.
\<close>

theorem missing_credential_is_fatal_witness:
  "cApiKey (render (mount Map.empty)) = []
   \<and> fst (processWithAgent (render (mount Map.empty)) exampleEnv ''needsAnalysis'' (mount Map.empty)) = None
   \<and> analyzingAgents (snd (processWithAgent (render (mount Map.empty)) exampleEnv ''needsAnalysis''
        (mount Map.empty))) = []
   \<and> \<not> keyAccepted (exampleG\<lparr>storedApiKey := None\<rparr>)
   \<and> snd (handleAnalyze (exampleG\<lparr>storedApiKey := None\<rparr>) Jtbd
            [\<lparr>outcome = Resolved JNull, handledAfterRender = True, retriedAfterRender = True\<rparr>]
            examplePageG)
       = [\<lparr>outcome = Resolved JNull, handledAfterRender = True, retriedAfterRender = True\<rparr>]
   \<and> analysisCalls (gEvents (fst (handleAnalyze (exampleG\<lparr>storedApiKey := None\<rparr>) Jtbd
            [\<lparr>outcome = Resolved JNull, handledAfterRender = True, retriedAfterRender = True\<rparr>]
            examplePageG))) = []
   \<and> snd (runAnalysisRef exampleG Jtbd ''hello''
            [failure ''Incorrect API key provided'' True True,
             \<lparr>outcome = Resolved JNull, handledAfterRender = True, retriedAfterRender = True\<rparr>]
            examplePageG)
       = [\<lparr>outcome = Resolved JNull, handledAfterRender = True, retriedAfterRender = True\<rparr>]
   \<and> analysisCalls (gEvents (fst (runAnalysisRef exampleG Jtbd ''hello''
            [failure ''Incorrect API key provided'' True True,
             \<lparr>outcome = Resolved JNull, handledAfterRender = True, retriedAfterRender = True\<rparr>]
            examplePageG)))
       = [(Jtbd, ''hello'')]"
proof -
  let ?r = "\<lparr>outcome = Resolved JNull, handledAfterRender = True, retriedAfterRender = True\<rparr>"
  have k: "cApiKey (render (mount Map.empty)) = [] \<and> ''needsAnalysis'' \<noteq> ''longContextChunking''"
    by (simp add: render_def mount_def storedString_def)
  have n: "\<not> keyAccepted (exampleG\<lparr>storedApiKey := None\<rparr>)"
    by (simp add: keyAccepted_def)
  have t: "gTranscript examplePageG \<noteq> []" by simp
  have a: "keyAccepted exampleG \<and> retryCount (refAgentStates examplePageG Jtbd) < maxRetries exampleG \<and>
        includesStr ''Incorrect API key provided'' ''API key''"
    by (simp add: exampleG_accepted)
  from missing_credential_is_fatal [of "render (mount Map.empty)" "''needsAnalysis''" exampleEnv
      "mount Map.empty" "exampleG\<lparr>storedApiKey := None\<rparr>" examplePageG Jtbd "[?r]"] k n t
  have p1: "processWithAgent (render (mount Map.empty)) exampleEnv ''needsAnalysis'' (mount Map.empty) =
        (None, (mount Map.empty)\<lparr>timers := timers (mount Map.empty) @ [CleanupTimer ''needsAnalysis'' (render (mount Map.empty))],
                 events := events (mount Map.empty) @ [ProcessWithAgentCalled ''needsAnalysis'',
                             ToastError ''API key is missing. Please add it in Settings.'']\<rparr>)"
    and p2: "\<exists>msg. handleAnalyze (exampleG\<lparr>storedApiKey := None\<rparr>) Jtbd [?r] examplePageG =
                 (gEmit (GToastError msg) examplePageG, [?r])"
    by blast+
  from missing_credential_is_fatal [of "render (mount Map.empty)" "''needsAnalysis''" exampleEnv
      "mount Map.empty" exampleG examplePageG Jtbd "[?r]" "''hello''"
      "''Incorrect API key provided''" True True] a
  have p3: "snd (runAnalysisRef exampleG Jtbd ''hello''
            [failure ''Incorrect API key provided'' True True, ?r] examplePageG) = [?r]"
    "analysisCalls (gEvents (fst (runAnalysisRef exampleG Jtbd ''hello''
            [failure ''Incorrect API key provided'' True True, ?r] examplePageG)))
       = analysisCalls (gEvents examplePageG) @ [(Jtbd, ''hello'')]"
    by blast+
  from p2 obtain msg where p2': "handleAnalyze (exampleG\<lparr>storedApiKey := None\<rparr>) Jtbd [?r] examplePageG =
                 (gEmit (GToastError msg) examplePageG, [?r])" by blast
  from k n p1 p3 show ?thesis
    unfolding p2' by (simp add: mount_def newSet_def storedIds_def gEmit_def)
qed

subsection \<open>Schedules that the user of the page can produce\<close>

lemma allowed_append:
  "allowed (xs @ ys) p \<longleftrightarrow> allowed xs p \<and> allowed ys (runSchedule xs p)"
  by (induction xs arbitrary: p) simp_all

lemma runSchedule_steps0:
  "runSchedule (replicate n (TaskStep 0)) (s, fs # ts) = (seq (take n fs) s, drop n fs # ts)"
proof (induction n arbitrary: s fs)
  case 0
  show ?case by simp
next
  case (Suc n)
  show ?case
  proof (cases fs)
    case Nil
    with Suc [of s "[]"] show ?thesis by simp
  next
    case (Cons f fs')
    with Suc [of "f s" fs'] show ?thesis by simp
  qed
qed

lemma runSchedule_steps1:
  "runSchedule (replicate n (TaskStep (Suc 0))) (s, t # fs # ts)
     = (seq (take n fs) s, t # drop n fs # ts)"
proof (induction n arbitrary: s fs)
  case 0
  show ?case by simp
next
  case (Suc n)
  show ?case
  proof (cases fs)
    case Nil
    with Suc [of s "[]"] show ?thesis by simp
  next
    case (Cons f fs')
    with Suc [of "f s" fs'] show ?thesis by simp
  qed
qed

lemma allowed_steps0:
  "n \<le> length fs \<Longrightarrow> allowed (replicate n (TaskStep 0)) (s, fs # ts)"
proof (induction n arbitrary: s fs)
  case 0
  show ?case by simp
next
  case (Suc n)
  then obtain f fs' where fs: "fs = f # fs'" by (cases fs) auto
  with Suc.prems Suc.IH [of fs' "f s"] show ?case by simp
qed

lemma allowed_steps1:
  "n \<le> length fs \<Longrightarrow> allowed (replicate n (TaskStep (Suc 0))) (s, t # fs # ts)"
proof (induction n arbitrary: s fs)
  case 0
  show ?case by simp
next
  case (Suc n)
  then obtain f fs' where fs: "fs = f # fs'" by (cases fs) auto
  with Suc.prems Suc.IH [of fs' "f s"] show ?case by simp
qed

lemma hello_steps:
  assumes "cTranscript c = ''hello''"
  shows "startAnalysisSequence c exampleEnv =
     [seq [resetBeforeSequence, setIsOptimizingTranscript True, setOptimizationProgress 5,
           emit (ChunkingCalled ''hello'' (cApiKey c))],
      seq [seq [setLocalAnalysisResults
                  (\<lambda>prev. AList.update ''longContextChunking''
                     (fallbackResult exampleEnv ''Network error'') prev),
                setOptimizationProgress 100],
           seq [setFinishedAgents (\<lambda>prev. setAdd prev ''longContextChunking''),
                setOptimizationProgress 100]]]
     @ afterChunking c exampleEnv"
  using assms
  by (simp add: startAnalysisSequence_split chunkingSteps_def Let_def trimIsEmpty_def
      isWhiteSpace_def) (simp add: exampleEnv_def)

lemma noKey_closure [simp]:
  "cApiKey (render noKeySession) = []"
  "cTranscript (render noKeySession) = ''hello''"
  "events noKeySession = []"
  "transcript noKeySession = ''hello''"
  "analyzingAgents noKeySession = []"
  "showResult noKeySession = None"
  "\<not> hasAnalyzed noKeySession"
  by (simp_all add: render_def noKeySession_def mount_def storedString_def storedIds_def
      storedId_def storedBool_def newSet_def)

lemma example_fields [simp]:
  "transcript (exampleSession res running) = ''hello''"
  "analyzingAgents (exampleSession res running) = []"
  "showResult (exampleSession res running) = None"
  "\<not> hasAnalyzed (exampleSession res running)"
  by (simp_all add: exampleSession_def exampleStorage_def mount_def storedString_def storedIds_def
      storedId_def storedBool_def newSet_def)

lemma render_fields [simp]:
  "cTranscript (render s) = transcript s"
  by (simp add: render_def)

lemma handleClearData_state:
  "transcript (handleClearData s) = []"
  "analyzingAgents (handleClearData s) = []"
  "analyzingAgentsArray (handleClearData s) = []"
  "\<not> hasAnalyzed (handleClearData s)"
  "localAnalysisResults (handleClearData s) = []"
  "agentProgress (handleClearData s) = []"
  "showResult (handleClearData s) = None"
  "lastViewedResult (handleClearData s) = None"
  "\<not> userHasSelectedView (handleClearData s)"
  "currentAgent (handleClearData s) = None"
  "currentRunningAgent (handleClearData s) = None"
  "\<not> isSequenceRunning (handleClearData s)"
  "\<not> isOptimizingTranscript (handleClearData s)"
  "optimizationProgress (handleClearData s) = 0"
  "finishedAgents (handleClearData s) = []"
  "finishedAgentsArray (handleClearData s) = []"
  "longContextResults (handleClearData s) = JObj []"
  "jtbdAnalysis (handleClearData s) = JObj []"
  "gainAnalysis (handleClearData s) = JObj []"
  "events (handleClearData s) =
     events s @ [ToastSuccess ''All opportunity evaluation data has been reset.'']"
  "timers (handleClearData s) = timers s @ [ReloadTimer]"
  by (simp_all add: handleClearData_def clearAllState_def)

lemma first_two_steps:
  "localAnalysisResults
     (seq [setLocalAnalysisResults
             (\<lambda>prev. AList.update ''longContextChunking'' r prev),
           setOptimizationProgress 100]
        (seq [resetBeforeSequence, setIsOptimizingTranscript True, setOptimizationProgress 5,
              emit ev] s)) = [(''longContextChunking'', r)]"
  by (simp add: resetBeforeSequence_def)

lemma hello_run:
  assumes "transcript s = ''hello''"
  shows "length (startAnalysisSequence (render s) exampleEnv) = 28"
    and "map fst (localAnalysisResults (seq (startAnalysisSequence (render s) exampleEnv) s'))
          = agentSequence"
    and "events (seq (startAnalysisSequence (render s) exampleEnv) s')
          = events s' @ [ChunkingCalled ''hello'' (cApiKey (render s)),
                         ToastSuccess ''Analysis sequence completed successfully!'']"
proof -
  have c: "cTranscript (render s) = ''hello''" using assms by simp
  show "length (startAnalysisSequence (render s) exampleEnv) = 28"
    by (simp add: hello_steps [OF c] afterChunking_length)
  have r: "localAnalysisResults
     (seq (take 2 (startAnalysisSequence (render s) exampleEnv)) s')
      = [(''longContextChunking'', fallbackResult exampleEnv ''Network error'')]"
    by (simp add: hello_steps [OF c] resetBeforeSequence_def)
  have split: "seq (startAnalysisSequence (render s) exampleEnv) s'
      = seq (afterChunking (render s) exampleEnv)
          (seq (take 2 (startAnalysisSequence (render s) exampleEnv)) s')"
    by (simp add: hello_steps [OF c] seq_append)
  show "map fst (localAnalysisResults (seq (startAnalysisSequence (render s) exampleEnv) s'))
          = agentSequence"
    unfolding split by (rule afterChunking_results [OF r])
  show "events (seq (startAnalysisSequence (render s) exampleEnv) s')
          = events s' @ [ChunkingCalled ''hello'' (cApiKey (render s)),
                         ToastSuccess ''Analysis sequence completed successfully!'']"
    unfolding split
    by (simp add: afterChunking_more) (simp add: hello_steps [OF c] resetBeforeSequence_def)
qed

text \<open>
  Claim C8 as stated fails: on the page with a transcript and no API key, Analyze
  Transcript is enabled, the sequence calls the chunking utility with the empty key, shows
  no error, and gives all five agents their results.
\<close>

theorem sequence_runs_without_api_key:
  "cApiKey (render noKeySession) = []
   \<and> allowed (ClickAnalyze exampleEnv # replicate 28 (TaskStep 0)) (noKeySession, [])
   \<and> events (fst (runSchedule (ClickAnalyze exampleEnv # replicate 28 (TaskStep 0))
        (noKeySession, [])))
       = [ChunkingCalled ''hello'' [], ToastSuccess ''Analysis sequence completed successfully!'']
   \<and> map fst (localAnalysisResults (fst (runSchedule
        (ClickAnalyze exampleEnv # replicate 28 (TaskStep 0)) (noKeySession, []))))
       = agentSequence"
proof -
  have t: "transcript noKeySession = ''hello''" by simp
  note run = hello_run [OF t]
  have a: "allowed (ClickAnalyze exampleEnv # replicate 28 (TaskStep 0)) (noKeySession, [])"
    by (simp add: resultsShown_def allowed_steps0 run(1))
  have p: "runSchedule (ClickAnalyze exampleEnv # replicate 28 (TaskStep 0)) (noKeySession, [])
      = (seq (startAnalysisSequence (render noKeySession) exampleEnv) noKeySession, [[]])"
    by (simp add: runSchedule_steps0 run(1))
  show ?thesis
    unfolding p using a run(2,3) [of noKeySession] by simp
qed

subsection \<open>A new transcript and Reset Evaluation\<close>

lemma afterChunking_transcript [simp]:
  "transcript (seq (afterChunking c e) s) = transcript s"
  by (simp add: afterChunking_def visualSteps_def seq_append setProgressOf_def)

lemma handleContentChange_state:
  "analyzingAgents (handleContentChange content s) = []"
  "agentProgress (handleContentChange content s) = []"
  "localAnalysisResults (handleContentChange content s) = []"
  "currentAgent (handleContentChange content s) = None"
  "\<not> hasAnalyzed (handleContentChange content s)"
  "transcript (handleContentChange content s) = content"
  "finishedAgents (handleContentChange content s) = finishedAgents s"
  "finishedAgentsArray (handleContentChange content s) = finishedAgentsArray s"
  "showResult (handleContentChange content s) = showResult s"
  "events (handleContentChange content s) = events s"
  by (simp_all add: handleContentChange_def)


lemma handleClearData_reload:
  "transcript (mount (localStorage (handleClearData s))) = []"
  "analyzingAgents (mount (localStorage (handleClearData s))) = []"
  "\<not> hasAnalyzed (mount (localStorage (handleClearData s)))"
  "localAnalysisResults (mount (localStorage (handleClearData s))) = []"
  "agentProgress (mount (localStorage (handleClearData s))) = []"
  "showResult (mount (localStorage (handleClearData s))) = None"
  "finishedAgents (mount (localStorage (handleClearData s))) = []"
  "\<not> isSequenceRunning (mount (localStorage (handleClearData s)))"
  by (simp_all add: mount_def handleClearData_def clearAllState_def storedObj_def storedIds_def
      storedString_def storedBool_def storedId_def newSet_def optId_def
      lookup_frame del: localStorage_frame)



lemmas runSchedule_steps1' = runSchedule_steps1 [folded One_nat_def]
lemmas allowed_steps1' = allowed_steps1 [folded One_nat_def]

lemma render_apiKey [simp]: "cApiKey (render s) = apiKey s"
  by (simp add: render_def)

subsection \<open>Two sequences in progress\<close>

text \<open>
  While the transcript is optimized no agent is in \<open>analyzingAgents\<close>, so Analyze
  Transcript is still enabled. A second click then starts a second sequence; with the
  first one twelve steps further and the second one seven, the first is running
  \<open>demandAnalyst\<close> and the second \<open>needsAnalysis\<close>.
\<close>

lemma two_sequences_run:
  "allowed ([ClickAnalyze exampleEnv, TaskStep 0, ClickAnalyze exampleEnv, TaskStep 1]
            @ replicate 12 (TaskStep 0) @ replicate 7 (TaskStep 1)) (exampleSession [] False, [])
   \<and> map_of (agentProgress (fst (runSchedule
          ([ClickAnalyze exampleEnv, TaskStep 0, ClickAnalyze exampleEnv, TaskStep 1]
           @ replicate 12 (TaskStep 0) @ replicate 7 (TaskStep 1)) (exampleSession [] False, []))))
        ''needsAnalysis'' = Some (loadingRecord 25 ''loading'' (now exampleEnv))
   \<and> map_of (agentProgress (fst (runSchedule
          ([ClickAnalyze exampleEnv, TaskStep 0, ClickAnalyze exampleEnv, TaskStep 1]
           @ replicate 12 (TaskStep 0) @ replicate 7 (TaskStep 1)) (exampleSession [] False, []))))
        ''demandAnalyst'' = Some (loadingRecord 25 ''loading'' (now exampleEnv))
   \<and> analyzingAgents (fst (runSchedule
          ([ClickAnalyze exampleEnv, TaskStep 0, ClickAnalyze exampleEnv, TaskStep 1]
           @ replicate 12 (TaskStep 0) @ replicate 7 (TaskStep 1)) (exampleSession [] False, [])))
        = [''needsAnalysis'']
   \<and> map length (snd (runSchedule
          ([ClickAnalyze exampleEnv, TaskStep 0, ClickAnalyze exampleEnv, TaskStep 1]
           @ replicate 12 (TaskStep 0) @ replicate 7 (TaskStep 1)) (exampleSession [] False, [])))
        = [15, 20]"
proof -
  let ?s0 = "exampleSession [] False"
  let ?cA = "render ?s0"
  let ?first = "seq [resetBeforeSequence, setIsOptimizingTranscript True, setOptimizationProgress 5,
           emit (ChunkingCalled ''hello'' ''sk-test'')]"
  let ?settle = "seq [seq [setLocalAnalysisResults
                  (\<lambda>prev. AList.update ''longContextChunking''
                     (fallbackResult exampleEnv ''Network error'') prev),
                setOptimizationProgress 100],
           seq [setFinishedAgents (\<lambda>prev. setAdd prev ''longContextChunking''),
                setOptimizationProgress 100]]"
  let ?restA = "?settle # afterChunking ?cA exampleEnv"
  define sA where "sA = ?first ?s0"
  let ?cB = "render sA"
  let ?restB = "?settle # afterChunking ?cB exampleEnv"
  let ?sB = "?first sA"
  have stepsA: "startAnalysisSequence ?cA exampleEnv = ?first # ?restA"
    by (simp add: example_steps)
  have fA: "transcript sA = ''hello''" "analyzingAgents sA = []" "showResult sA = None"
    "\<not> hasAnalyzed sA" "apiKey sA = ''sk-test''"
    unfolding sA_def
    by (simp_all add: resetBeforeSequence_def exampleSession_def exampleStorage_def mount_def
        storedString_def)
  have tB: "cTranscript ?cB = ''hello''" by (simp add: fA)
  have stepsB: "startAnalysisSequence ?cB exampleEnv = ?first # ?restB"
    using hello_steps [OF tB] by (simp add: fA)
  have p2: "act (act (?s0, []) (ClickAnalyze exampleEnv)) (TaskStep 0) = (sA, [?restA])"
    unfolding sA_def by (simp add: stepsA del: seq_Cons seq_Nil)
  have p3: "act (sA, [?restA]) (ClickAnalyze exampleEnv) = (sA, [?restA, ?first # ?restB])"
    by (simp add: stepsB del: seq_Cons seq_Nil)
  have p4': "act (sA, [?restA, ?first # ?restB]) (TaskStep 1) = (?sB, [?restA, ?restB])"
    by (simp del: seq_Cons seq_Nil)
  have p4: "runSchedule [ClickAnalyze exampleEnv, TaskStep 0, ClickAnalyze exampleEnv, TaskStep 1]
       (?s0, []) = (?sB, [?restA, ?restB])"
    by (simp only: runSchedule_Cons runSchedule_Nil p2 p3 p4')
  have v1: "available (?s0, []) (ClickAnalyze exampleEnv)"
    by (simp add: resultsShown_def)
  have v2: "available (act (?s0, []) (ClickAnalyze exampleEnv)) (TaskStep 0)"
    by (simp add: stepsA del: seq_Cons seq_Nil)
  have v3: "available (sA, [?restA]) (ClickAnalyze exampleEnv)"
    by (simp add: resultsShown_def fA)
  have v4: "available (sA, [?restA, ?first # ?restB]) (TaskStep 1)"
    by (simp del: seq_Cons seq_Nil)
  have a4: "allowed [ClickAnalyze exampleEnv, TaskStep 0, ClickAnalyze exampleEnv, TaskStep 1]
       (?s0, [])"
    by (simp only: allowed.simps p2 p3 v1 v2 v3 v4 simp_thms)
  define sX where "sX = seq (take 12 ?restA) ?sB"
  define sY where "sY = seq (take 7 ?restB) sX"
  have p5: "runSchedule (replicate 12 (TaskStep 0)) (?sB, [?restA, ?restB])
      = (sX, [drop 12 ?restA, ?restB])"
    unfolding sX_def by (rule runSchedule_steps0)
  have p6: "runSchedule (replicate 7 (TaskStep 1)) (sX, [drop 12 ?restA, ?restB])
      = (sY, [drop 12 ?restA, drop 7 ?restB])"
    unfolding sY_def by (rule runSchedule_steps1')
  have a5: "allowed (replicate 12 (TaskStep 0)) (?sB, [?restA, ?restB])"
    by (rule allowed_steps0) (simp add: afterChunking_length)
  have a6: "allowed (replicate 7 (TaskStep 1)) (sX, [drop 12 ?restA, ?restB])"
    by (rule allowed_steps1') (simp add: afterChunking_length)
  have p: "runSchedule ([ClickAnalyze exampleEnv, TaskStep 0, ClickAnalyze exampleEnv, TaskStep 1]
            @ replicate 12 (TaskStep 0) @ replicate 7 (TaskStep 1)) (?s0, [])
      = (sY, [drop 12 ?restA, drop 7 ?restB])"
    unfolding runSchedule_append p4 p5 p6 by (rule refl)
  have a: "allowed ([ClickAnalyze exampleEnv, TaskStep 0, ClickAnalyze exampleEnv, TaskStep 1]
            @ replicate 12 (TaskStep 0) @ replicate 7 (TaskStep 1)) (?s0, [])"
    unfolding allowed_append p4 p5 using a4 a5 a6 by (intro conjI)
  have progX: "agentProgress sX =
      [(''longContextChunking'', loadingRecord 100 ''success'' (now exampleEnv)),
       (''needsAnalysis'', loadingRecord 100 ''success'' (now exampleEnv)),
       (''demandAnalyst'', loadingRecord 25 ''loading'' (now exampleEnv))]"
    unfolding sX_def
    by (simp add: afterChunking_def visualSteps_def setProgressOf_def resetBeforeSequence_def)
  have progY: "agentProgress sY =
      [(''longContextChunking'', loadingRecord 100 ''success'' (now exampleEnv)),
       (''needsAnalysis'', loadingRecord 25 ''loading'' (now exampleEnv)),
       (''demandAnalyst'', loadingRecord 25 ''loading'' (now exampleEnv))]"
    unfolding sY_def
    by (simp add: afterChunking_def visualSteps_def setProgressOf_def progX)
  have anY: "analyzingAgents sY = [''needsAnalysis'']"
    unfolding sY_def
    by (simp add: afterChunking_def visualSteps_def setProgressOf_def)
  have len: "map length [drop 12 ?restA, drop 7 ?restB] = [15, 20]"
    by (simp add: afterChunking_length)
  show ?thesis
    unfolding p using a progY anY len by simp
qed



subsection \<open>Stopping\<close>

lemma ignoresFlag_id [simp]: "ignoresFlag (\<lambda>x. x)"
  by (simp add: ignoresFlag_def)

lemma ignoresFlag_seq [simp]: "list_all ignoresFlag fs \<Longrightarrow> ignoresFlag (seq fs)"
proof (induction fs)
  case Nil
  show ?case by (simp add: ignoresFlag_def)
next
  case (Cons f fs)
  then show ?case by (auto simp: ignoresFlag_def)
qed

lemma ignoresFlag_if [simp]:
  "ignoresFlag f \<Longrightarrow> ignoresFlag g \<Longrightarrow> ignoresFlag (if b then f else g)"
  by simp

lemma ignoresFlag_statements [simp]:
  "ignoresFlag (setTranscript v1)"
  "ignoresFlag (setHasAnalyzed v2)"
  "ignoresFlag (setLocalAnalysisResults f3)"
  "ignoresFlag (setAgentProgress f4)"
  "ignoresFlag (setShowResult v5)"
  "ignoresFlag (setUserHasSelectedView v6)"
  "ignoresFlag (setCurrentAgent v7)"
  "ignoresFlag (setIsOptimizingTranscript v8)"
  "ignoresFlag (setOptimizationProgress v9)"
  "ignoresFlag (setFinishedAgentsArray f10)"
  "ignoresFlag (setFinishedAgents f11)"
  "ignoresFlag (setIsSequenceRunning v12)"
  "ignoresFlag (setCurrentRunningAgent v13)"
  "ignoresFlag (emit ev)"
  "ignoresFlag (setItem k w)"
  "ignoresFlag (setAnalyzingAgents f14)"
  by (simp_all add: ignoresFlag_def sameRuns_def)

lemma ignoresFlag_setProgressOf [simp]: "ignoresFlag (setProgressOf e a p st)"
  by (simp add: setProgressOf_def)

lemma chunkingSteps_ignoresFlag:
  "ignoresFlag pre \<Longrightarrow> list_all ignoresFlag (chunkingSteps c e pre)"
  by (auto simp: chunkingSteps_def Let_def list_all_iff split: chunkOutcome.splits)

lemma visualSteps_ignoresFlag:
  "ignoresFlag pre \<Longrightarrow> list_all ignoresFlag (visualSteps c e a pre)"
  by (simp add: visualSteps_def)

lemma sequenceLoop_ignoresFlag:
  "ignoresFlag pre \<Longrightarrow> list_all ignoresFlag (sequenceLoop c e pre as)"
proof (induction as arbitrary: pre)
  case Nil
  then show ?case by simp
next
  case (Cons a as)
  then show ?case
    by (simp add: chunkingSteps_ignoresFlag visualSteps_ignoresFlag)
qed

lemma startAnalysisSequence_ignoresFlag:
  "list_all ignoresFlag (startAnalysisSequence c e)"
proof -
  have "ignoresFlag resetBeforeSequence"
    by (simp add: resetBeforeSequence_def)
  then show ?thesis
    by (simp add: startAnalysisSequence_def sequenceLoop_ignoresFlag)
qed

lemma sameRuns_seq:
  "list_all ignoresFlag fs \<Longrightarrow> sameRuns s t \<Longrightarrow> sameRuns (seq fs s) (seq fs t)"
  using ignoresFlag_seq [of fs] by (simp add: ignoresFlag_def)

lemma sameRuns_stop: "sameRuns (stopAnalysisSequence s) s"
  by (simp add: stopAnalysisSequence_def sameRuns_def)

lemma list_all_drop: "list_all P xs \<Longrightarrow> list_all P (drop k xs)"
  by (auto simp: list_all_iff dest: in_set_dropD)

lemma closure_flag_not_read:
  "startAnalysisSequence (c\<lparr>cIsSequenceRunning := b\<rparr>) e = startAnalysisSequence c e"
  by (simp add: startAnalysisSequence_def agentSequence_def chunkingSteps_def visualSteps_def
      dummyResult_def Let_def)

lemma afterResolved_running:
  "\<not> gIsSequenceRunning s \<Longrightarrow> \<not> gIsSequenceRunning (afterResolved g a r s)"
  by (simp add: afterResolved_def Let_def)

lemma afterResolved_calls [simp]:
  "gEvents (afterResolved g a r s) = gEvents s"
  by (simp add: afterResolved_def Let_def)

lemma beforeCall_stopped:
  "\<not> gIsSequenceRunning s \<Longrightarrow> \<not> gIsSequenceRunning (snd (beforeCall g a s))"
  by (auto simp: beforeCall_def checkApiKey_def gEmit_def resetAnalysisState_def Let_def
      split: option.splits)

lemma gEmit_running [simp]: "gIsSequenceRunning (gEmit ev s) = gIsSequenceRunning s"
  by (simp add: gEmit_def)

lemma runAnalysisRef_stopped:
  "\<not> gIsSequenceRunning s \<Longrightarrow> \<not> gIsSequenceRunning (fst (runAnalysisRef g a content outs s))"
proof (induction outs arbitrary: s)
  case Nil
  with beforeCall_stopped [of s g a] show ?case
    by (cases "beforeCall g a s") (auto simp: runAnalysisRef.simps gEmit_def split: option.splits)
next
  case (Cons out outs)
  obtain r s' where b: "beforeCall g a s = (r, s')" by (cases "beforeCall g a s")
  with Cons.prems beforeCall_stopped [of s g a] have s': "\<not> gIsSequenceRunning s'" by simp
  show ?case
  proof (cases r)
    case None
    with b s' show ?thesis by (simp add: runAnalysisRef.simps)
  next
    case (Some x)
    let ?s1 = "gEmit (AnalysisCalled a content) s'"
    let ?s2 = "if handledAfterRender out then syncStateRef ?s1 else ?s1"
    from s' have s2: "\<not> gIsSequenceRunning ?s2" by simp
    then have s3: "\<not> gIsSequenceRunning (if retriedAfterRender out then syncStateRef ?s2 else ?s2)"
      by simp
    show ?thesis
    proof (cases "outcome out")
      case (Resolved res)
      with b Some afterResolved_running [OF s2, of g a res] show ?thesis
        by (simp add: runAnalysisRef.simps Let_def)
    next
      case (Rejected message)
      with b Some Cons.IH [OF s3] show ?thesis
        by (auto simp: runAnalysisRef.simps Let_def split: if_splits)
    qed
  qed
qed



end
